theory Spec2Isabelle
  imports Main "HOL-Library.Word"
begin

section \<open>The dual-backend transaction coordinator of db/coordination.go\<close>

text \<open>
  The coordinator \<open>BothDatabases\<close> talks to three collaborators that are not part of
  the verified file: the two transactional database accessors (the DE metadata database
  and the ICAT usage source) and the NATS publisher. Every call the coordinator makes to
  one of them, and every log line it writes, is recorded as an event of a trace, together
  with the answer it got. The answers are parameters of the model: a record of functions
  from the history of the run to the answer of the next call, so that a theorem about all
  such records is a theorem about every behaviour of the collaborators.
\<close>

subsection \<open>Errors\<close>

text \<open>
  Go errors. \<open>ErrNoRows\<close> and \<open>ErrTxDone\<close> are the sentinels of database/sql,
  \<open>Other\<close> is any other error with its message, and \<open>Wrap e msg\<close> is
  \<open>errors.Wrap(e, msg)\<close>. The source compares with \<open>sql.ErrNoRows\<close> by identity
  (a wrapped sentinel is a different value) and recognises the finished transaction by its
  message.
\<close>

datatype err = ErrNoRows | ErrTxDone | Other string | Wrap err string

fun Error :: "err \<Rightarrow> string" where
  "Error ErrNoRows = ''sql: no rows in result set''"
| "Error ErrTxDone = ''sql: transaction has already been committed or rolled back''"
| "Error (Other s) = s"
| "Error (Wrap e msg) = msg @ '': '' @ Error e"

definition alreadyDoneErr :: string where
  "alreadyDoneErr = ''sql: transaction has already been committed or rolled back''"

subsection \<open>Values\<close>

type_synonym int64 = "64 word"

text \<open>
  The coordinator builds a float64 only by converting an int64 (\<open>float64(usagenum)\<close>)
  and never computes with it, so a float64 is represented by the integer it was converted
  from.
\<close>

datatype float64 = Float64 int64

record user_info =
  info_ID :: string
  info_Username :: string

record user_data_usage =
  UserID :: string
  Username :: string
  UsageValue :: float64

datatype backend = DE | ICAT

datatype level = ErrorLevel | InfoLevel | DebugLevel | TraceLevel

text \<open>
  A transaction is identified by the position of its \<open>BeginTxx\<close> call in the trace: each
  successful begin yields a new object. The handles \<open>*DEDatabase\<close> and
  \<open>*ICATDatabase\<close> wrap exactly one transaction and are identified with it.
\<close>

datatype event =
    EvLogStats backend
  | EvBeginTxx backend "err option"
  | EvRollback backend nat "err option"
  | EvCommit backend nat "err option"
  | EvGetUserInfo nat string "err + user_info"
  | EvUserCurrentDataUsage nat string "err + int64"
  | EvBatchCurrentDataUsage nat string string "err + (string \<times> int64) list"
  | EvEnsureUsers nat "string list" "err option"
  | EvUpdateUsageForUser string float64 "err + user_data_usage"
  | EvAddUserUpdatesBatch "string \<rightharpoonup> float64" "err + user_data_usage list"
  | EvLog level string

text \<open>
  The collaborators. A database call on success returns no error (\<open>None\<close>) or a value
  (\<open>Inr\<close>); a call that returns a value and a nil error returns a usable value (the
  publisher never answers \<open>nil, nil\<close>). The map returned by
  \<open>BatchCurrentDataUsage\<close> is given as the list of its entries in the order in which
  the \<open>range\<close> loop of the run visits them. \<open>FixUsername\<close> is
  \<open>util.FixUsername\<close> with the configuration applied.
\<close>

record env =
  BeginTxx :: "backend \<Rightarrow> event list \<Rightarrow> err option"
  Rollback :: "backend \<Rightarrow> nat \<Rightarrow> event list \<Rightarrow> err option"
  Commit :: "backend \<Rightarrow> nat \<Rightarrow> event list \<Rightarrow> err option"
  GetUserInfo :: "nat \<Rightarrow> string \<Rightarrow> event list \<Rightarrow> err + user_info"
  UserCurrentDataUsage :: "nat \<Rightarrow> string \<Rightarrow> event list \<Rightarrow> err + int64"
  BatchCurrentDataUsage :: "nat \<Rightarrow> string \<Rightarrow> string \<Rightarrow> event list \<Rightarrow> err + (string \<times> int64) list"
  EnsureUsers :: "nat \<Rightarrow> string list \<Rightarrow> event list \<Rightarrow> err option"
  UpdateUsageForUser :: "string \<Rightarrow> float64 \<Rightarrow> event list \<Rightarrow> err + user_data_usage"
  AddUserUpdatesBatch :: "(string \<rightharpoonup> float64) \<Rightarrow> event list \<Rightarrow> err + user_data_usage list"
  FixUsername :: "string \<Rightarrow> string"

subsection \<open>The coordinator\<close>

text \<open>
  The function-valued fields of \<open>BothDatabases\<close>. A field is nil (after \<open>NewBoth\<close>),
  the no-op closure installed at finalisation, or the closure created by \<open>DETx\<close> or
  \<open>ICATTx\<close>, which captures the transaction it was created for.
\<close>

datatype rollback_fn = RbNil | RbNoop | Rb backend nat

datatype commit_fn = CmNil | CmNoop | Cm backend nat

record both_databases =
  DERollback :: rollback_fn
  DECommit :: commit_fn
  ICATRollback :: rollback_fn
  ICATCommit :: commit_fn
  detx :: "nat option"
  icattx :: "nat option"

record world =
  coord :: both_databases
  trace :: "event list"

definition NewBoth :: both_databases where
  "NewBoth = \<lparr>DERollback = RbNil, DECommit = CmNil, ICATRollback = RbNil, ICATCommit = CmNil,
     detx = None, icattx = None\<rparr>"

definition emit :: "event \<Rightarrow> world \<Rightarrow> world" where
  "emit e w = w\<lparr>trace := trace w @ [e]\<rparr>"

text \<open>
  The bodies of the closures \<open>rb\<close> of \<open>DETx\<close> and \<open>ICATTx\<close>. Calling a nil
  function value panics: the result is \<open>None\<close>.
\<close>

fun call_rollback :: "env \<Rightarrow> rollback_fn \<Rightarrow> world \<Rightarrow> world option" where
  "call_rollback env RbNil w = None"
| "call_rollback env RbNoop w = Some w"
| "call_rollback env (Rb DE t) w =
     (let err = Rollback env DE t (trace w);
          w1 = emit (EvRollback DE t err) w;
          w2 = (case err of
                  None \<Rightarrow> w1
                | Some e \<Rightarrow>
                    if Error e \<noteq> alreadyDoneErr
                    then emit (EvLog ErrorLevel
                           (Error (Wrap e ''Error rolling back DE database transaction''))) w1
                    else w1)
      in Some (w2\<lparr>coord := (coord w2)\<lparr>detx := None, DERollback := RbNoop, DECommit := CmNoop\<rparr>\<rparr>))"
| "call_rollback env (Rb ICAT t) w =
     (let err = Rollback env ICAT t (trace w);
          w1 = emit (EvRollback ICAT t err) w;
          w2 = (case err of
                  None \<Rightarrow> w1
                | Some e \<Rightarrow>
                    if Error e \<noteq> alreadyDoneErr
                    then emit (EvLog ErrorLevel
                           (Error (Wrap e ''Error rolling back ICAT transaction''))) w1
                    else w1)
      in Some (w2\<lparr>coord := (coord w2)\<lparr>icattx := None, ICATRollback := RbNoop,
                 ICATCommit := CmNoop\<rparr>\<rparr>))"

text \<open>The bodies of the closures \<open>commit\<close> of \<open>DETx\<close> and \<open>ICATTx\<close>.\<close>

fun call_commit :: "env \<Rightarrow> commit_fn \<Rightarrow> world \<Rightarrow> (err option \<times> world) option" where
  "call_commit env CmNil w = None"
| "call_commit env CmNoop w = Some (None, w)"
| "call_commit env (Cm DE t) w =
     (let err = Commit env DE t (trace w);
          w1 = emit (EvCommit DE t err) w;
          w2 = w1\<lparr>coord := (coord w1)\<lparr>detx := None, DERollback := RbNoop, DECommit := CmNoop\<rparr>\<rparr>
      in case err of
           Some e0 \<Rightarrow>
             (let e = Wrap e0 ''Error committing DE database transaction''
              in Some (Some e, emit (EvLog ErrorLevel (Error e)) w2))
         | None \<Rightarrow> Some (None, w2))"
| "call_commit env (Cm ICAT t) w =
     (let err = Commit env ICAT t (trace w);
          w1 = emit (EvCommit ICAT t err) w;
          w2 = w1\<lparr>coord := (coord w1)\<lparr>icattx := None, ICATRollback := RbNoop,
                 ICATCommit := CmNoop\<rparr>\<rparr>
      in case err of
           Some e0 \<Rightarrow>
             (let e = Wrap e0 ''Error committing ICAT transaction''
              in Some (Some e, emit (EvLog ErrorLevel (Error e)) w2))
         | None \<Rightarrow> Some (None, w2))"

definition DETx :: "env \<Rightarrow> world \<Rightarrow> (err + nat) \<times> world" where
  "DETx env w0 =
     (let w = emit (EvLogStats DE) w0
      in case detx (coord w) of
           Some h \<Rightarrow> (Inr h, w)
         | None \<Rightarrow>
             (let t = length (trace w);
                  err = BeginTxx env DE (trace w);
                  w1 = emit (EvBeginTxx DE err) w
              in case err of
                   Some e \<Rightarrow> (Inl (Wrap e ''Error creating DE transaction''), w1)
                 | None \<Rightarrow>
                     (Inr t, w1\<lparr>coord := (coord w1)\<lparr>detx := Some t, DERollback := Rb DE t,
                                DECommit := Cm DE t\<rparr>\<rparr>)))"

definition ICATTx :: "env \<Rightarrow> world \<Rightarrow> (err + nat) \<times> world" where
  "ICATTx env w0 =
     (let w = emit (EvLogStats ICAT) w0
      in case icattx (coord w) of
           Some h \<Rightarrow> (Inr h, w)
         | None \<Rightarrow>
             (let t = length (trace w);
                  err = BeginTxx env ICAT (trace w);
                  w1 = emit (EvBeginTxx ICAT err) w
              in case err of
                   Some e \<Rightarrow> (Inl (Wrap e ''Error creating ICAT transaction''), w1)
                 | None \<Rightarrow>
                     (Inr t, w1\<lparr>coord := (coord w1)\<lparr>icattx := Some t, ICATRollback := Rb ICAT t,
                                ICATCommit := Cm ICAT t\<rparr>\<rparr>)))"

subsection \<open>Messages\<close>

definition nodata_msg :: string where
  "nodata_msg = ''No data could be inserted. '' @ ''Perhaps the user doesn'' @ [CHR 0x27] @
                ''t exist in the DE database''"

definition nousage_msg :: string where
  "nousage_msg =
     ''No usage information was found for user %s. Attempting to add a usage of 0 anyway''"

subsection \<open>Deferred calls\<close>

text \<open>
  \<open>defer b.DERollback()\<close> evaluates the function value when the \<open>defer\<close> statement
  runs, so the deferred call is the closure stored in the field at that moment, whatever
  the field holds when the function returns. Deferred calls run last-in first-out after the
  results are set; the list is in the order in which they run.
\<close>

fun run_deferred :: "env \<Rightarrow> rollback_fn list \<Rightarrow> 'a \<times> world \<Rightarrow> ('a \<times> world) option" where
  "run_deferred env [] rw = Some rw"
| "run_deferred env (d # ds) (r, w) =
     (case call_rollback env d w of
        None \<Rightarrow> None
      | Some w' \<Rightarrow> run_deferred env ds (r, w'))"

subsection \<open>The single-user update\<close>

text \<open>
  The tracing span is not modelled. A log line with a format string is recorded by its
  level and format string.
\<close>

definition UpdateUserDataUsage ::
  "env \<Rightarrow> string \<Rightarrow> world \<Rightarrow> ((user_data_usage option \<times> err option) \<times> world) option" where
  "UpdateUserDataUsage env username w0 =
     (case DETx env w0 of
        (Inl err, w1) \<Rightarrow> Some ((None, Some (Wrap err ''Error creating DE transaction'')), w1)
      | (Inr dedb, w1) \<Rightarrow>
          (let deferred1 = DERollback (coord w1)
           in case ICATTx env w1 of
                (Inl err, w2) \<Rightarrow>
                  run_deferred env [deferred1]
                    ((None, Some (Wrap err ''Error creating ICAT transaction'')), w2)
              | (Inr icatdb, w2) \<Rightarrow>
                  (let deferred2 = ICATRollback (coord w2);
                       deferred = [deferred2, deferred1];
                       ui = GetUserInfo env dedb username (trace w2);
                       w3 = emit (EvGetUserInfo dedb username ui) w2
                   in case ui of
                        Inl err \<Rightarrow>
                          run_deferred env deferred
                            ((None, Some (Wrap err ''error getting user info'')), w3)
                      | Inr userInfo \<Rightarrow>
                          (let u = UserCurrentDataUsage env icatdb username (trace w3);
                               w4 = emit (EvUserCurrentDataUsage icatdb username u) w3;
                               usage = (case u of
                                   Inl err \<Rightarrow>
                                     if err = ErrNoRows
                                     then Inr (0, emit (EvLog InfoLevel nousage_msg) w4)
                                     else Inl err
                                 | Inr n \<Rightarrow> Inr (n, w4))
                           in case usage of
                                Inl err \<Rightarrow>
                                  run_deferred env deferred
                                    ((None, Some (Wrap err ''Error getting current data usage'')), w4)
                              | Inr (usagenum, w5) \<Rightarrow>
                                  (case call_rollback env (ICATRollback (coord w5)) w5 of
                                     None \<Rightarrow> None
                                   | Some w6 \<Rightarrow>
                                       (let w7 = emit (EvLog DebugLevel
                                                   ''username %s; usage value %d'') w6;
                                            p = UpdateUsageForUser env username
                                                  (Float64 usagenum) (trace w7);
                                            w8 = emit (EvUpdateUsageForUser username
                                                   (Float64 usagenum) p) w7
                                        in case p of
                                             Inl err \<Rightarrow>
                                               if err = ErrNoRows
                                               then
                                                 (let e = Wrap err nodata_msg
                                                  in run_deferred env deferred
                                                       ((None, Some e),
                                                        emit (EvLog ErrorLevel (Error e)) w8))
                                               else
                                                 (let e = Wrap err ''Error adding user data usage''
                                                  in run_deferred env deferred
                                                       ((None, Some e),
                                                        emit (EvLog ErrorLevel (Error e)) w8))
                                           | Inr res \<Rightarrow>
                                               run_deferred env deferred
                                                 ((Some (res\<lparr>UserID := info_ID userInfo,
                                                     Username := info_Username userInfo\<rparr>),
                                                   None), w8)))))))"

subsection \<open>The batch update\<close>

text \<open>
  The loop over the map returned by the usage source: one pass per entry, in the order
  of the run, appending the canonical name to \<open>us\<close> and storing the converted value
  under the canonical name in \<open>usagesFixed\<close>.
\<close>

fun fix_loop ::
  "(string \<Rightarrow> string) \<Rightarrow> (string \<times> int64) list \<Rightarrow> string list \<Rightarrow> (string \<rightharpoonup> float64) \<Rightarrow>
   string list \<times> (string \<rightharpoonup> float64)" where
  "fix_loop fx [] us usagesFixed = (us, usagesFixed)"
| "fix_loop fx ((usr, usg) # rest) us usagesFixed =
     fix_loop fx rest (us @ [fx usr]) (usagesFixed(fx usr \<mapsto> Float64 usg))"

definition UpdateUserDataUsageBatch ::
  "env \<Rightarrow> string \<Rightarrow> string \<Rightarrow> world \<Rightarrow>
   ((user_data_usage list option \<times> err option) \<times> world) option" where
  "UpdateUserDataUsageBatch env start end' w0 =
     (case ICATTx env w0 of
        (Inl err, w1) \<Rightarrow> Some ((None, Some (Wrap err ''Error creating ICAT transaction'')), w1)
      | (Inr icatdb, w1) \<Rightarrow>
          (let deferred1 = ICATRollback (coord w1);
               b = BatchCurrentDataUsage env icatdb start end' (trace w1);
               w2 = emit (EvBatchCurrentDataUsage icatdb start end' b) w1
           in case b of
                Inl err \<Rightarrow> run_deferred env [deferred1] ((None, Some err), w2)
              | Inr usages \<Rightarrow>
                  (case call_rollback env (ICATRollback (coord w2)) w2 of
                     None \<Rightarrow> None
                   | Some w3 \<Rightarrow>
                       (let w4 = emit (EvLog TraceLevel ''usages in batch: %+v'') w3;
                            (us, usagesFixed) = fix_loop (FixUsername env) usages [] Map.empty
                        in case DETx env w4 of
                             (Inl err, w5) \<Rightarrow>
                               run_deferred env [deferred1]
                                 ((None, Some (Wrap err ''Error creating DE database transaction'')),
                                  w5)
                           | (Inr dedb, w5) \<Rightarrow>
                               (let deferred2 = DERollback (coord w5);
                                    deferred = [deferred2, deferred1];
                                    ensured =
                                      (if length us > 0
                                       then (let r = EnsureUsers env dedb us (trace w5)
                                             in (r, emit (EvEnsureUsers dedb us r) w5))
                                       else (None, emit (EvLog TraceLevel
                                               ''No users to be ensured in the batch'') w5))
                                in case ensured of
                                     (Some err, w6) \<Rightarrow>
                                       run_deferred env deferred
                                         ((None, Some (Wrap err ''Error ensuring users exist'')), w6)
                                   | (None, w6) \<Rightarrow>
                                       (case call_commit env (DECommit (coord w6)) w6 of
                                          None \<Rightarrow> None
                                        | Some (Some err, w7) \<Rightarrow>
                                            (let e = Wrap err ''Error committing DE transaction''
                                             in run_deferred env deferred
                                                  ((None, Some e),
                                                   emit (EvLog ErrorLevel (Error e)) w7))
                                        | Some (None, w7) \<Rightarrow>
                                            (let p = AddUserUpdatesBatch env usagesFixed (trace w7);
                                                 w8 = emit (EvAddUserUpdatesBatch usagesFixed p) w7
                                             in case p of
                                                  Inl err \<Rightarrow>
                                                    run_deferred env deferred
                                                      ((None,
                                                        Some (Wrap err ''Error inserting new usage'')),
                                                       w8)
                                                | Inr res \<Rightarrow>
                                                    run_deferred env deferred
                                                      ((Some res, None), w8))))))))"


section \<open>Observations on runs\<close>

text \<open>The events a run adds to the trace.\<close>

definition new_events :: "world \<Rightarrow> world \<Rightarrow> event list" where
  "new_events w w' = drop (length (trace w)) (trace w')"

fun is_begin :: "backend \<Rightarrow> event \<Rightarrow> bool" where
  "is_begin b (EvBeginTxx b' r) = (b' = b)"
| "is_begin b _ = False"

fun is_errlog :: "event \<Rightarrow> bool" where
  "is_errlog (EvLog l s) = (l = ErrorLevel)"
| "is_errlog _ = False"

fun is_commit :: "event \<Rightarrow> bool" where
  "is_commit (EvCommit b t r) = True"
| "is_commit _ = False"

text \<open>
  The coordinator is consistent when a memoized handle comes with the closures that were
  created for its transaction. \<open>DETx\<close> and \<open>ICATTx\<close> set the three fields together
  and the closures clear them together.
\<close>

definition coord_ok :: "both_databases \<Rightarrow> bool" where
  "coord_ok c =
     ((case detx c of None \<Rightarrow> True | Some t \<Rightarrow> DERollback c = Rb DE t \<and> DECommit c = Cm DE t) \<and>
      (case icattx c of None \<Rightarrow> True
       | Some t \<Rightarrow> ICATRollback c = Rb ICAT t \<and> ICATCommit c = Cm ICAT t))"

text \<open>
  The events of one call of \<open>DETx\<close> or \<open>ICATTx\<close>, and of one call of a rollback
  closure.
\<close>

definition open_seg :: "backend \<Rightarrow> event list \<Rightarrow> bool" where
  "open_seg b A = (\<exists>A'. A = EvLogStats b # A' \<and> list_all (is_begin b) A')"

definition rb_seg :: "backend \<Rightarrow> nat \<Rightarrow> event list \<Rightarrow> bool" where
  "rb_seg b t R = (\<exists>r L. R = EvRollback b t r # L \<and> list_all is_errlog L)"

text \<open>
  A transaction is open on its backend from its successful \<open>BeginTxx\<close> until the
  first call of \<open>Commit\<close> or \<open>Rollback\<close> on it.
\<close>

fun is_finalize :: "backend \<Rightarrow> nat \<Rightarrow> event \<Rightarrow> bool" where
  "is_finalize b t (EvRollback b' t' r) = (b' = b \<and> t' = t)"
| "is_finalize b t (EvCommit b' t' r) = (b' = b \<and> t' = t)"
| "is_finalize b t _ = False"

definition finalized :: "event list \<Rightarrow> backend \<Rightarrow> nat \<Rightarrow> bool" where
  "finalized tr b t = list_ex (is_finalize b t) tr"

definition open_tx :: "event list \<Rightarrow> backend \<Rightarrow> nat \<Rightarrow> bool" where
  "open_tx tr b t = (t < length tr \<and> tr ! t = EvBeginTxx b None \<and> \<not> finalized tr b t)"

fun handle :: "backend \<Rightarrow> both_databases \<Rightarrow> nat option" where
  "handle DE c = detx c"
| "handle ICAT c = icattx c"

text \<open>Every open transaction is the one the coordinator holds the handle of.\<close>

definition one_open :: "world \<Rightarrow> bool" where
  "one_open w =
     ((\<forall>t<length (trace w). open_tx (trace w) DE t \<longrightarrow> detx (coord w) = Some t) \<and>
      (\<forall>t<length (trace w). open_tx (trace w) ICAT t \<longrightarrow> icattx (coord w) = Some t))"

text \<open>
  \<open>before P Q evs\<close>: no event with \<open>Q\<close> occurs in \<open>evs\<close> until an event with
  \<open>P\<close> has occurred.
\<close>

fun before :: "(event \<Rightarrow> bool) \<Rightarrow> (event \<Rightarrow> bool) \<Rightarrow> event list \<Rightarrow> bool" where
  "before P Q [] = True"
| "before P Q (e # es) = (P e \<or> (\<not> Q e \<and> before P Q es))"

fun is_tx_call :: "backend \<Rightarrow> event \<Rightarrow> bool" where
  "is_tx_call b (EvLogStats b') = (b' = b)"
| "is_tx_call b _ = False"

fun is_get_user_info :: "event \<Rightarrow> bool" where
  "is_get_user_info (EvGetUserInfo t u r) = True"
| "is_get_user_info _ = False"

fun is_usage_read :: "event \<Rightarrow> bool" where
  "is_usage_read (EvUserCurrentDataUsage t u r) = True"
| "is_usage_read _ = False"

fun is_rollback_of :: "backend \<Rightarrow> event \<Rightarrow> bool" where
  "is_rollback_of b (EvRollback b' t r) = (b' = b)"
| "is_rollback_of b _ = False"

fun is_publish :: "event \<Rightarrow> bool" where
  "is_publish (EvUpdateUsageForUser u v r) = True"
| "is_publish (EvAddUserUpdatesBatch m r) = True"
| "is_publish _ = False"

fun is_rollback_on :: "backend \<Rightarrow> nat \<Rightarrow> event \<Rightarrow> bool" where
  "is_rollback_on b t (EvRollback b' t' r) = (b' = b \<and> t' = t)"
| "is_rollback_on b t _ = False"

fun is_batch_call :: "event \<Rightarrow> bool" where
  "is_batch_call (EvBatchCurrentDataUsage t s e r) = True"
| "is_batch_call (EvEnsureUsers t us r) = True"
| "is_batch_call (EvAddUserUpdatesBatch m r) = True"
| "is_batch_call _ = False"

text \<open>The events of a run that follow its first call of the publisher.\<close>

definition after_publish :: "event list \<Rightarrow> event list" where
  "after_publish evs = tl (dropWhile (\<lambda>e. \<not> is_publish e) evs)"

text \<open>The calls that change the metadata database or open a transaction on it.\<close>

fun is_metadata_write :: "event \<Rightarrow> bool" where
  "is_metadata_write (EvBeginTxx b r) = (b = DE)"
| "is_metadata_write (EvEnsureUsers t us r) = True"
| "is_metadata_write (EvCommit b t r) = (b = DE)"
| "is_metadata_write _ = False"

text \<open>A successful \<open>BeginTxx\<close> on a backend.\<close>

fun is_begin_ok :: "backend \<Rightarrow> event \<Rightarrow> bool" where
  "is_begin_ok b (EvBeginTxx b' r) = (b' = b \<and> r = None)"
| "is_begin_ok b _ = False"

text \<open>A \<open>GetUserInfo\<close> call that returned the identity.\<close>

fun is_identity_resolved :: "event \<Rightarrow> bool" where
  "is_identity_resolved (EvGetUserInfo t u r) = (case r of Inl e \<Rightarrow> False | Inr ui \<Rightarrow> True)"
| "is_identity_resolved _ = False"

text \<open>
  The events of a run record what the collaborators answered: \<open>answered env tr evs\<close>
  holds when every call among the events \<open>evs\<close>, made after the history \<open>tr\<close>
  and the events before it, carries the answer of the environment to that call.
\<close>

fun answer_ok :: "env \<Rightarrow> event list \<Rightarrow> event \<Rightarrow> bool" where
  "answer_ok env tr (EvLogStats b) = True"
| "answer_ok env tr (EvBeginTxx b r) = (r = BeginTxx env b tr)"
| "answer_ok env tr (EvRollback b t r) = (r = Rollback env b t tr)"
| "answer_ok env tr (EvCommit b t r) = (r = Commit env b t tr)"
| "answer_ok env tr (EvGetUserInfo t u r) = (r = GetUserInfo env t u tr)"
| "answer_ok env tr (EvUserCurrentDataUsage t u r) = (r = UserCurrentDataUsage env t u tr)"
| "answer_ok env tr (EvBatchCurrentDataUsage t s e r) = (r = BatchCurrentDataUsage env t s e tr)"
| "answer_ok env tr (EvEnsureUsers t us r) = (r = EnsureUsers env t us tr)"
| "answer_ok env tr (EvUpdateUsageForUser u v r) = (r = UpdateUsageForUser env u v tr)"
| "answer_ok env tr (EvAddUserUpdatesBatch m r) = (r = AddUserUpdatesBatch env m tr)"
| "answer_ok env tr (EvLog l s) = True"

fun answered :: "env \<Rightarrow> event list \<Rightarrow> event list \<Rightarrow> bool" where
  "answered env tr [] = True"
| "answered env tr (e # es) = (answer_ok env tr e \<and> answered env (tr @ [e]) es)"

text \<open>
  The three shapes of the fields of one backend: nothing opened yet (no handle, nil
  closures), finalized (no handle, no-op closures), and open (a handle with the closures
  created for its transaction).
\<close>

definition fields_bound :: "both_databases \<Rightarrow> bool" where
  "fields_bound c =
     ((case detx c of
         None \<Rightarrow> (DERollback c = RbNil \<and> DECommit c = CmNil) \<or>
                 (DERollback c = RbNoop \<and> DECommit c = CmNoop)
       | Some t \<Rightarrow> DERollback c = Rb DE t \<and> DECommit c = Cm DE t) \<and>
      (case icattx c of
         None \<Rightarrow> (ICATRollback c = RbNil \<and> ICATCommit c = CmNil) \<or>
                 (ICATRollback c = RbNoop \<and> ICATCommit c = CmNoop)
       | Some t \<Rightarrow> ICATRollback c = Rb ICAT t \<and> ICATCommit c = Cm ICAT t))"

subsection \<open>The states a coordinator can reach\<close>

text \<open>
  A coordinator is created by \<open>NewBoth\<close> and then driven through its operations in
  any order: \<open>DETx\<close>, \<open>ICATTx\<close>, the two high-level updates, and calls of the
  closure fields \<open>b.DERollback()\<close>, \<open>b.DECommit()\<close>, \<open>b.ICATRollback()\<close>
  and \<open>b.ICATCommit()\<close>. A call of a nil field panics and leads to no state.
  The fields are exported and a closure is a value: a caller may keep the closure created
  for a transaction (\<open>defer b.DERollback()\<close> does) and call it later. The rules
  \<open>kept_rollback\<close> and \<open>kept_commit\<close> are such calls, made while the
  coordinator holds no handle of that backend or still holds the handle of the closure's own
  transaction, that is, before any other transaction of that backend is opened.
\<close>

inductive_set reachable :: "env \<Rightarrow> world set" for env :: env where
  init: "\<lparr>coord = NewBoth, trace = []\<rparr> \<in> reachable env"
| detx: "w \<in> reachable env \<Longrightarrow> DETx env w = (r, w') \<Longrightarrow> w' \<in> reachable env"
| icattx: "w \<in> reachable env \<Longrightarrow> ICATTx env w = (r, w') \<Longrightarrow> w' \<in> reachable env"
| de_rollback:
    "w \<in> reachable env \<Longrightarrow> call_rollback env (DERollback (coord w)) w = Some w' \<Longrightarrow>
     w' \<in> reachable env"
| de_commit:
    "w \<in> reachable env \<Longrightarrow> call_commit env (DECommit (coord w)) w = Some (e, w') \<Longrightarrow>
     w' \<in> reachable env"
| icat_rollback:
    "w \<in> reachable env \<Longrightarrow> call_rollback env (ICATRollback (coord w)) w = Some w' \<Longrightarrow>
     w' \<in> reachable env"
| icat_commit:
    "w \<in> reachable env \<Longrightarrow> call_commit env (ICATCommit (coord w)) w = Some (e, w') \<Longrightarrow>
     w' \<in> reachable env"
| kept_rollback:
    "w \<in> reachable env \<Longrightarrow> t < length (trace w) \<Longrightarrow> trace w ! t = EvBeginTxx b None \<Longrightarrow>
     handle b (coord w) = None \<or> handle b (coord w) = Some t \<Longrightarrow>
     call_rollback env (Rb b t) w = Some w' \<Longrightarrow> w' \<in> reachable env"
| kept_commit:
    "w \<in> reachable env \<Longrightarrow> t < length (trace w) \<Longrightarrow> trace w ! t = EvBeginTxx b None \<Longrightarrow>
     handle b (coord w) = None \<or> handle b (coord w) = Some t \<Longrightarrow>
     call_commit env (Cm b t) w = Some (e, w') \<Longrightarrow> w' \<in> reachable env"
| single:
    "w \<in> reachable env \<Longrightarrow> UpdateUserDataUsage env username w = Some (res, w') \<Longrightarrow>
     w' \<in> reachable env"
| batch:
    "w \<in> reachable env \<Longrightarrow> UpdateUserDataUsageBatch env start end' w = Some (ress, w') \<Longrightarrow>
     w' \<in> reachable env"

subsection \<open>The collaborators that are not in the verified file\<close>

text \<open>
  Modelled from the spec: \<open>util.FixUsername\<close>, the username canonicalizer (package
  util, not among the sources). The canonical username is the raw username qualified with
  the configured domain suffix; an already qualified username is returned unchanged, so
  the function is idempotent.
\<close>

definition FixUsername_spec :: "string \<Rightarrow> string \<Rightarrow> string" where
  "FixUsername_spec domain u =
     (let s = CHR ''@'' # domain
      in if take (length s) (rev u) = rev s then u else u @ s)"



subsection \<open>An example environment\<close>

text \<open>
  Collaborators that behave like database/sql on healthy databases: a transaction always
  begins, and \<open>Commit\<close> and \<open>Rollback\<close> succeed on an open transaction and
  answer \<open>ErrTxDone\<close> on a finished one. The answers of the queries and of the
  publisher are parameters.
\<close>

definition example_env ::
  "(err + user_info) \<Rightarrow> (err + int64) \<Rightarrow> (err + user_data_usage) \<Rightarrow>
   (err + (string \<times> int64) list) \<Rightarrow> (err + user_data_usage list) \<Rightarrow> env" where
  "example_env ui u p b pb =
     \<lparr>BeginTxx = (\<lambda>_ _. None),
      Rollback = (\<lambda>b t tr. if finalized tr b t then Some ErrTxDone else None),
      Commit = (\<lambda>b t tr. if finalized tr b t then Some ErrTxDone else None),
      GetUserInfo = (\<lambda>_ _ _. ui),
      UserCurrentDataUsage = (\<lambda>_ _ _. u),
      BatchCurrentDataUsage = (\<lambda>_ _ _ _. b),
      EnsureUsers = (\<lambda>_ _ _. None),
      UpdateUsageForUser = (\<lambda>_ _ _. p),
      AddUserUpdatesBatch = (\<lambda>_ _. pb),
      FixUsername = FixUsername_spec ''example.org''\<rparr>"

definition fresh_world :: world where
  "fresh_world = \<lparr>coord = NewBoth, trace = []\<rparr>"

definition bob_info :: user_info where
  "bob_info = \<lparr>info_ID = ''id-7'', info_Username = ''bob@example.org''\<rparr>"

definition bob_usage :: user_data_usage where
  "bob_usage = \<lparr>UserID = [], Username = ''bob'', UsageValue = Float64 0\<rparr>"

text \<open>The two log lines and the \<open>EnsureUsers\<close> call of the batch update.\<close>

definition batch_log :: event where
  "batch_log = EvLog TraceLevel ''usages in batch: %+v''"

definition ensure_events :: "nat \<Rightarrow> string list \<Rightarrow> err option \<Rightarrow> event list" where
  "ensure_events dedb us r =
     (if us \<noteq> [] then [EvEnsureUsers dedb us r]
      else [EvLog TraceLevel ''No users to be ensured in the batch''])"

text \<open>The events of one call of a rollback closure, given the trace before it.\<close>

fun rollback_msg :: "backend \<Rightarrow> string" where
  "rollback_msg DE = ''Error rolling back DE database transaction''"
| "rollback_msg ICAT = ''Error rolling back ICAT transaction''"

definition rollback_events :: "env \<Rightarrow> backend \<Rightarrow> nat \<Rightarrow> event list \<Rightarrow> event list" where
  "rollback_events env b t tr =
     EvRollback b t (Rollback env b t tr) #
     (case Rollback env b t tr of
        None \<Rightarrow> []
      | Some e \<Rightarrow>
          if Error e = alreadyDoneErr then []
          else [EvLog ErrorLevel (Error (Wrap e (rollback_msg b)))])"

definition cleared :: both_databases where
  "cleared = \<lparr>DERollback = RbNoop, DECommit = CmNoop, ICATRollback = RbNoop,
     ICATCommit = CmNoop, detx = None, icattx = None\<rparr>"

text \<open>
  The run of the single-user update for a user without usage rows, on a new coordinator:
  the environment, the events of the run and the result.
\<close>

definition no_rows_env :: env where
  "no_rows_env = example_env (Inr bob_info) (Inl ErrNoRows) (Inr bob_usage) (Inr []) (Inr [])"

definition no_rows_events :: "event list" where
  "no_rows_events =
     [EvLogStats DE, EvBeginTxx DE None, EvLogStats ICAT, EvBeginTxx ICAT None,
      EvGetUserInfo 1 ''bob'' (Inr bob_info), EvUserCurrentDataUsage 3 ''bob'' (Inl ErrNoRows),
      EvLog InfoLevel nousage_msg, EvRollback ICAT 3 None,
      EvLog DebugLevel ''username %s; usage value %d'',
      EvUpdateUsageForUser ''bob'' (Float64 0) (Inr bob_usage),
      EvRollback ICAT 3 (Some ErrTxDone), EvRollback DE 1 None]"

definition no_rows_result :: user_data_usage where
  "no_rows_result = \<lparr>UserID = ''id-7'', Username = ''bob@example.org'', UsageValue = Float64 0\<rparr>"

text \<open>
  The events of a batch run on a new coordinator that reaches the publisher: the entries
  returned by the usage source, the list passed to \<open>EnsureUsers\<close>, the map passed to
  the publisher and the publisher's answer are parameters.
\<close>

definition batch_events ::
  "(string \<times> int64) list \<Rightarrow> string list \<Rightarrow> (string \<rightharpoonup> float64) \<Rightarrow>
   (err + user_data_usage list) \<Rightarrow> event list" where
  "batch_events usages us m p =
     [EvLogStats ICAT, EvBeginTxx ICAT None,
      EvBatchCurrentDataUsage 1 ''a'' ''c'' (Inr usages), EvRollback ICAT 1 None, batch_log,
      EvLogStats DE, EvBeginTxx DE None, EvEnsureUsers 6 us None, EvCommit DE 6 None,
      EvAddUserUpdatesBatch m p,
      EvRollback DE 6 (Some ErrTxDone), EvRollback ICAT 1 (Some ErrTxDone)]"

definition batch_env :: "(err + (string \<times> int64) list) \<Rightarrow> (err + user_data_usage list) \<Rightarrow> env" where
  "batch_env b pb = example_env (Inr bob_info) (Inl ErrNoRows) (Inr bob_usage) b pb"

text \<open>
  The run of the single-user update for a user without usage rows whose publisher update
  affects no rows: the environment and the events of the run on a new coordinator.
\<close>

definition no_write_env :: env where
  "no_write_env = example_env (Inr bob_info) (Inl ErrNoRows) (Inl ErrNoRows) (Inr []) (Inr [])"

definition no_write_events :: "event list" where
  "no_write_events =
     [EvLogStats DE, EvBeginTxx DE None, EvLogStats ICAT, EvBeginTxx ICAT None,
      EvGetUserInfo 1 ''bob'' (Inr bob_info), EvUserCurrentDataUsage 3 ''bob'' (Inl ErrNoRows),
      EvLog InfoLevel nousage_msg, EvRollback ICAT 3 None,
      EvLog DebugLevel ''username %s; usage value %d'',
      EvUpdateUsageForUser ''bob'' (Float64 0) (Inl ErrNoRows),
      EvLog ErrorLevel (Error (Wrap ErrNoRows nodata_msg)),
      EvRollback ICAT 3 (Some ErrTxDone), EvRollback DE 1 None]"

text \<open>
  Batch runs on a new coordinator over the range from \<open>''a''\<close> to \<open>''c''\<close>:
  one whose publisher fails after the metadata commit, one whose usage read fails, one
  where two usernames of the range have the same canonical name, and the scenario of a
  user with a usage row and a user without one.
\<close>

definition publish_fail_env :: env where
  "publish_fail_env =
     batch_env (Inr [(''alice'', 500), (''bob'', 0)]) (Inl (Other ''nats: timeout''))"

definition publish_fail_events :: "event list" where
  "publish_fail_events =
     batch_events [(''alice'', 500), (''bob'', 0)] [''alice@example.org'', ''bob@example.org'']
       [''alice@example.org'' \<mapsto> Float64 500, ''bob@example.org'' \<mapsto> Float64 0]
       (Inl (Other ''nats: timeout''))"

definition read_fail_env :: env where
  "read_fail_env = batch_env (Inl (Other ''connection reset'')) (Inr [])"



text \<open>
  A caller that keeps the rollback closure of a first transaction, commits, opens a second
  transaction, calls the kept closure and opens again: the events, and the coordinator
  while it holds the handle \<open>t\<close> and after it released it.
\<close>

definition reopen_events :: "event list" where
  "reopen_events =
     [EvLogStats DE, EvBeginTxx DE None, EvCommit DE 1 None,
      EvLogStats DE, EvBeginTxx DE None, EvRollback DE 1 (Some ErrTxDone),
      EvLogStats DE, EvBeginTxx DE None]"

definition holding :: "nat \<Rightarrow> event list \<Rightarrow> world" where
  "holding t tr =
     \<lparr>coord = NewBoth\<lparr>DERollback := Rb DE t, DECommit := Cm DE t, detx := Some t\<rparr>, trace = tr\<rparr>"

definition released :: "event list \<Rightarrow> world" where
  "released tr = \<lparr>coord = NewBoth\<lparr>DERollback := RbNoop, DECommit := CmNoop\<rparr>, trace = tr\<rparr>"

section \<open>The steps of a run\<close>

lemma trace_emit [simp]: "trace (emit e w) = trace w @ [e]"
  by (simp add: emit_def)

lemma coord_emit [simp]: "coord (emit e w) = coord w"
  by (simp add: emit_def)

lemma finalized_append [simp]:
  "finalized (tr @ evs) b t = (finalized tr b t \<or> finalized evs b t)"
  by (simp add: finalized_def)

lemma finalized_single [simp]: "finalized [e] b t = is_finalize b t e"
  by (simp add: finalized_def)

lemma open_tx_snoc:
  "open_tx (tr @ [e]) b t =
     ((open_tx tr b t \<and> \<not> is_finalize b t e) \<or>
      (t = length tr \<and> e = EvBeginTxx b None \<and> \<not> finalized tr b t))"
  by (auto simp: open_tx_def nth_append)

lemma one_open_iff:
  "one_open w =
     ((\<forall>t. open_tx (trace w) DE t \<longrightarrow> detx (coord w) = Some t) \<and>
      (\<forall>t. open_tx (trace w) ICAT t \<longrightarrow> icattx (coord w) = Some t))"
  by (auto simp: one_open_def open_tx_def)

lemma one_open_emit:
  assumes "one_open w" and "\<forall>b. e \<noteq> EvBeginTxx b None"
  shows "one_open (emit e w)"
  using assms by (simp add: one_open_iff open_tx_snoc)

lemma one_open_trace_coord:
  "one_open w \<Longrightarrow> trace w' = trace w \<Longrightarrow> detx (coord w') = detx (coord w) \<Longrightarrow>
   icattx (coord w') = icattx (coord w) \<Longrightarrow> one_open w'"
  by (simp add: one_open_def)

lemma open_tx_not_fresh: "\<not> open_tx tr b (length tr)"
  by (simp add: open_tx_def)

lemma answered_append:
  "answered env tr (xs @ ys) = (answered env tr xs \<and> answered env (tr @ xs) ys)"
  by (induction xs arbitrary: tr) auto

lemma answered_appendI:
  "answered env tr xs \<Longrightarrow> answered env (tr @ xs) ys \<Longrightarrow> answered env tr (xs @ ys)"
  by (simp add: answered_append)

lemma fields_bound_ok: "fields_bound c \<Longrightarrow> coord_ok c"
  by (simp add: fields_bound_def coord_ok_def split: option.splits)

lemma fields_bound_clear_DE:
  "fields_bound c \<Longrightarrow> fields_bound (c\<lparr>detx := None, DERollback := RbNoop, DECommit := CmNoop\<rparr>)"
  by (simp add: fields_bound_def split: option.splits)

lemma fields_bound_clear_ICAT:
  "fields_bound c \<Longrightarrow>
   fields_bound (c\<lparr>icattx := None, ICATRollback := RbNoop, ICATCommit := CmNoop\<rparr>)"
  by (simp add: fields_bound_def split: option.splits)

lemma fields_bound_cleared:
  "detx c = None \<Longrightarrow> icattx c = None \<Longrightarrow> DERollback c = RbNoop \<Longrightarrow> DECommit c = CmNoop \<Longrightarrow>
   ICATRollback c = RbNoop \<Longrightarrow> ICATCommit c = CmNoop \<Longrightarrow> fields_bound c"
  by (simp add: fields_bound_def)

lemma DETx_answered: "answered env (trace w) (new_events w (snd (DETx env w)))"
  by (simp add: DETx_def new_events_def emit_def Let_def split: option.split)

lemma ICATTx_answered: "answered env (trace w) (new_events w (snd (ICATTx env w)))"
  by (simp add: ICATTx_def new_events_def emit_def Let_def split: option.split)

lemma DETx_fields_bound: "fields_bound (coord w) \<Longrightarrow> fields_bound (coord (snd (DETx env w)))"
  by (simp add: DETx_def fields_bound_def emit_def Let_def split: option.splits)

lemma ICATTx_fields_bound: "fields_bound (coord w) \<Longrightarrow> fields_bound (coord (snd (ICATTx env w)))"
  by (simp add: ICATTx_def fields_bound_def emit_def Let_def split: option.splits)

lemma DETx_memo: "detx (coord w) = Some h \<Longrightarrow> DETx env w = (Inr h, emit (EvLogStats DE) w)"
  by (simp add: DETx_def Let_def)

lemma ICATTx_memo: "icattx (coord w) = Some h \<Longrightarrow> ICATTx env w = (Inr h, emit (EvLogStats ICAT) w)"
  by (simp add: ICATTx_def Let_def)

lemma DETx_fresh:
  assumes "detx (coord w) = None"
  shows "new_events w (snd (DETx env w)) =
           [EvLogStats DE, EvBeginTxx DE (BeginTxx env DE (trace w @ [EvLogStats DE]))]"
    and "fst (DETx env w) =
           (case BeginTxx env DE (trace w @ [EvLogStats DE]) of
              None \<Rightarrow> Inr (Suc (length (trace w)))
            | Some e \<Rightarrow> Inl (Wrap e ''Error creating DE transaction''))"
    and "BeginTxx env DE (trace w @ [EvLogStats DE]) = None \<Longrightarrow>
         detx (coord (snd (DETx env w))) = Some (Suc (length (trace w)))"
  using assms
  by (simp_all add: DETx_def new_events_def emit_def Let_def split: option.split)

lemma ICATTx_fresh:
  assumes "icattx (coord w) = None"
  shows "new_events w (snd (ICATTx env w)) =
           [EvLogStats ICAT, EvBeginTxx ICAT (BeginTxx env ICAT (trace w @ [EvLogStats ICAT]))]"
    and "fst (ICATTx env w) =
           (case BeginTxx env ICAT (trace w @ [EvLogStats ICAT]) of
              None \<Rightarrow> Inr (Suc (length (trace w)))
            | Some e \<Rightarrow> Inl (Wrap e ''Error creating ICAT transaction''))"
    and "BeginTxx env ICAT (trace w @ [EvLogStats ICAT]) = None \<Longrightarrow>
         icattx (coord (snd (ICATTx env w))) = Some (Suc (length (trace w)))"
  using assms
  by (simp_all add: ICATTx_def new_events_def emit_def Let_def split: option.split)


lemma DETx_run:
  assumes "coord_ok (coord w)" and "DETx env w = (r, w1)"
  shows "coord_ok (coord w1) \<and> (\<exists>A. trace w1 = trace w @ A \<and> open_seg DE A) \<and>
         icattx (coord w1) = icattx (coord w) \<and> ICATRollback (coord w1) = ICATRollback (coord w) \<and>
         ICATCommit (coord w1) = ICATCommit (coord w) \<and>
         (case r of
            Inl e \<Rightarrow> coord w1 = coord w \<and> detx (coord w) = None
          | Inr t \<Rightarrow> detx (coord w1) = Some t \<and> DERollback (coord w1) = Rb DE t \<and>
                     DECommit (coord w1) = Cm DE t)"
  using assms
  by (auto simp: DETx_def coord_ok_def emit_def open_seg_def Let_def split: option.splits)

lemma DETx_one_open:
  assumes "one_open w" and "DETx env w = (r, w1)"
  shows "one_open w1"
proof (cases "detx (coord w)")
  case (Some h)
  then have "w1 = emit (EvLogStats DE) w"
    using assms(2) by (simp add: DETx_def Let_def)
  then show ?thesis
    using assms(1) by (simp add: one_open_emit)
next
  case None
  define wa where "wa = emit (EvLogStats DE) w"
  have a: "one_open wa"
    using assms(1) by (simp add: wa_def one_open_emit)
  have na: "detx (coord wa) = None"
    using None by (simp add: wa_def)
  show ?thesis
  proof (cases "BeginTxx env DE (trace wa)")
    case (Some e)
    then have "w1 = emit (EvBeginTxx DE (Some e)) wa"
      using assms(2) None by (simp add: DETx_def Let_def wa_def)
    then show ?thesis
      using a by (simp add: one_open_emit)
  next
    case noerr: None
    then have w1: "trace w1 = trace wa @ [EvBeginTxx DE None]"
      "detx (coord w1) = Some (length (trace wa))" "icattx (coord w1) = icattx (coord wa)"
      using assms(2) None by (auto simp: DETx_def Let_def wa_def emit_def)
    show ?thesis
      using a na unfolding one_open_iff w1 open_tx_snoc
      by auto
  qed
qed

lemma ICATTx_run:
  assumes "coord_ok (coord w)" and "ICATTx env w = (r, w1)"
  shows "coord_ok (coord w1) \<and> (\<exists>A. trace w1 = trace w @ A \<and> open_seg ICAT A) \<and>
         detx (coord w1) = detx (coord w) \<and> DERollback (coord w1) = DERollback (coord w) \<and>
         DECommit (coord w1) = DECommit (coord w) \<and>
         (case r of
            Inl e \<Rightarrow> coord w1 = coord w \<and> icattx (coord w) = None
          | Inr t \<Rightarrow> icattx (coord w1) = Some t \<and> ICATRollback (coord w1) = Rb ICAT t \<and>
                     ICATCommit (coord w1) = Cm ICAT t)"
  using assms
  by (auto simp: ICATTx_def coord_ok_def emit_def open_seg_def Let_def split: option.splits)

lemma ICATTx_one_open:
  assumes "one_open w" and "ICATTx env w = (r, w1)"
  shows "one_open w1"
proof (cases "icattx (coord w)")
  case (Some h)
  then have "w1 = emit (EvLogStats ICAT) w"
    using assms(2) by (simp add: ICATTx_def Let_def)
  then show ?thesis
    using assms(1) by (simp add: one_open_emit)
next
  case None
  define wa where "wa = emit (EvLogStats ICAT) w"
  have a: "one_open wa"
    using assms(1) by (simp add: wa_def one_open_emit)
  have na: "icattx (coord wa) = None"
    using None by (simp add: wa_def)
  show ?thesis
  proof (cases "BeginTxx env ICAT (trace wa)")
    case (Some e)
    then have "w1 = emit (EvBeginTxx ICAT (Some e)) wa"
      using assms(2) None by (simp add: ICATTx_def Let_def wa_def)
    then show ?thesis
      using a by (simp add: one_open_emit)
  next
    case noerr: None
    then have w1: "trace w1 = trace wa @ [EvBeginTxx ICAT None]"
      "icattx (coord w1) = Some (length (trace wa))" "detx (coord w1) = detx (coord wa)"
      using assms(2) None by (auto simp: ICATTx_def Let_def wa_def emit_def)
    show ?thesis
      using a na unfolding one_open_iff w1 open_tx_snoc
      by auto
  qed
qed

lemma rollback_DE_run:
  "\<exists>w' R. call_rollback env (Rb DE t) w = Some w' \<and> trace w' = trace w @ R \<and> rb_seg DE t R \<and>
     coord w' = (coord w)\<lparr>detx := None, DERollback := RbNoop, DECommit := CmNoop\<rparr>"
  by (auto simp: emit_def rb_seg_def Let_def split: option.splits)

lemma rollback_ICAT_run:
  "\<exists>w' R. call_rollback env (Rb ICAT t) w = Some w' \<and> trace w' = trace w @ R \<and> rb_seg ICAT t R \<and>
     coord w' = (coord w)\<lparr>icattx := None, ICATRollback := RbNoop, ICATCommit := CmNoop\<rparr>"
  by (auto simp: emit_def rb_seg_def Let_def split: option.splits)


lemma rollback_DE_exact:
  "\<exists>w'. call_rollback env (Rb DE t) w = Some w' \<and>
     new_events w w' = rollback_events env DE t (trace w) \<and>
     coord w' = (coord w)\<lparr>detx := None, DERollback := RbNoop, DECommit := CmNoop\<rparr>"
  by (simp add: emit_def new_events_def rollback_events_def Let_def split: option.split)

lemma rollback_ICAT_exact:
  "\<exists>w'. call_rollback env (Rb ICAT t) w = Some w' \<and>
     new_events w w' = rollback_events env ICAT t (trace w) \<and>
     coord w' = (coord w)\<lparr>icattx := None, ICATRollback := RbNoop, ICATCommit := CmNoop\<rparr>"
  by (simp add: emit_def new_events_def rollback_events_def Let_def split: option.split)

lemma rollback_answered:
  assumes "call_rollback env (Rb b t) w = Some w'" and "trace w' = trace w @ R"
  shows "answered env (trace w) R"
proof (cases b)
  case DE
  with assms show ?thesis
    by (auto simp: emit_def Let_def split: option.splits if_splits)
next
  case ICAT
  with assms show ?thesis
    by (auto simp: emit_def Let_def split: option.splits if_splits)
qed

lemma answered_errlog: "list_all is_errlog L \<Longrightarrow> answered env tr L"
proof (induction L arbitrary: tr)
  case Nil
  then show ?case
    by simp
next
  case (Cons e L)
  then show ?case
    by (cases e) simp_all
qed

lemma rollback_one_open:
  assumes "call_rollback env (Rb b t) w = Some w'" and "one_open w"
    and "handle b (coord w) = None \<or> handle b (coord w) = Some t"
  shows "one_open w'"
proof -
  define L where "L = drop (Suc (length (trace w))) (trace w')"
  have L: "list_all is_errlog L" and
    tr: "trace w' = (trace w @ [EvRollback b t (Rollback env b t (trace w))]) @ L" and
    co: "handle b (coord w') = None" "b \<noteq> DE \<longrightarrow> detx (coord w') = detx (coord w)"
      "b \<noteq> ICAT \<longrightarrow> icattx (coord w') = icattx (coord w)"
    using assms(1) unfolding L_def
    by (cases b; auto simp: emit_def Let_def
          split: option.splits if_splits)+
  have fin: "finalized (trace w') b t"
    by (simp add: tr finalized_def)
  have old: "open_tx (trace w) b' t'" if "open_tx (trace w') b' t'" for b' t'
    using that L unfolding tr
  proof (induction L rule: rev_induct)
    case Nil
    then show ?case
      by (auto simp: open_tx_snoc)
  next
    case (snoc x xs)
    then show ?case
      by (cases x) (auto simp: open_tx_snoc simp flip: append_assoc)
  qed
  have "handle b' (coord w') = Some t'" if o: "open_tx (trace w') b' t'" for b' t'
  proof (cases "b' = b")
    case True
    from old [OF o] assms(2) have "handle b' (coord w) = Some t'"
      by (cases b') (auto simp: one_open_iff)
    with assms(3) True have "t' = t"
      by auto
    with o fin True show ?thesis
      by (simp add: open_tx_def)
  next
    case False
    from old [OF o] assms(2) have "handle b' (coord w) = Some t'"
      by (cases b') (auto simp: one_open_iff)
    with co(2,3) False show ?thesis
      by (cases b; cases b') auto
  qed
  from this [of DE] this [of ICAT] show ?thesis
    by (simp add: one_open_iff)
qed

lemma commit_one_open:
  assumes "call_commit env (Cm b t) w = Some (r, w')" and "one_open w"
    and "handle b (coord w) = None \<or> handle b (coord w) = Some t"
  shows "one_open w'"
proof -
  define L where "L = drop (Suc (length (trace w))) (trace w')"
  have L: "list_all is_errlog L" and
    tr: "trace w' = (trace w @ [EvCommit b t (Commit env b t (trace w))]) @ L" and
    co: "handle b (coord w') = None" "b \<noteq> DE \<longrightarrow> detx (coord w') = detx (coord w)"
      "b \<noteq> ICAT \<longrightarrow> icattx (coord w') = icattx (coord w)"
    using assms(1) unfolding L_def
    by (cases b; auto simp: emit_def Let_def
          split: option.splits if_splits)+
  have fin: "finalized (trace w') b t"
    by (simp add: tr finalized_def)
  have old: "open_tx (trace w) b' t'" if "open_tx (trace w') b' t'" for b' t'
    using that L unfolding tr
  proof (induction L rule: rev_induct)
    case Nil
    then show ?case
      by (auto simp: open_tx_snoc)
  next
    case (snoc x xs)
    then show ?case
      by (cases x) (auto simp: open_tx_snoc simp flip: append_assoc)
  qed
  have "handle b' (coord w') = Some t'" if o: "open_tx (trace w') b' t'" for b' t'
  proof (cases "b' = b")
    case True
    from old [OF o] assms(2) have "handle b' (coord w) = Some t'"
      by (cases b') (auto simp: one_open_iff)
    with assms(3) True have "t' = t"
      by auto
    with o fin True show ?thesis
      by (simp add: open_tx_def)
  next
    case False
    from old [OF o] assms(2) have "handle b' (coord w) = Some t'"
      by (cases b') (auto simp: one_open_iff)
    with co(2,3) False show ?thesis
      by (cases b; cases b') auto
  qed
  from this [of DE] this [of ICAT] show ?thesis
    by (simp add: one_open_iff)
qed

declare run_deferred.simps [simp del] call_rollback.simps [simp del] call_commit.simps [simp del]

lemma run_deferred_ICAT_DE:
  "\<exists>w' D2 D1. run_deferred env [Rb ICAT t2, Rb DE t1] (r, wx) = Some (r, w') \<and>
     trace w' = trace wx @ D2 @ D1 \<and> rb_seg ICAT t2 D2 \<and> rb_seg DE t1 D1 \<and>
     detx (coord w') = None \<and> icattx (coord w') = None \<and>
     (one_open wx \<longrightarrow> (icattx (coord wx) = None \<or> icattx (coord wx) = Some t2) \<longrightarrow>
      (detx (coord wx) = None \<or> detx (coord wx) = Some t1) \<longrightarrow> one_open w') \<and>
     answered env (trace wx) (D2 @ D1) \<and> fields_bound (coord w')"
proof -
  obtain wa D2 where a: "call_rollback env (Rb ICAT t2) wx = Some wa"
    "trace wa = trace wx @ D2" "rb_seg ICAT t2 D2"
    "coord wa = (coord wx)\<lparr>icattx := None, ICATRollback := RbNoop, ICATCommit := CmNoop\<rparr>"
    using rollback_ICAT_run by blast
  obtain wb D1 where b: "call_rollback env (Rb DE t1) wa = Some wb"
    "trace wb = trace wa @ D1" "rb_seg DE t1 D1"
    "coord wb = (coord wa)\<lparr>detx := None, DERollback := RbNoop, DECommit := CmNoop\<rparr>"
    using rollback_DE_run by blast
  have "run_deferred env [Rb ICAT t2, Rb DE t1] (r, wx) = Some (r, wb)"
    using a(1) b(1) by (simp add: run_deferred.simps)
  moreover have "trace wb = trace wx @ D2 @ D1"
    using a(2) b(2) by simp
  moreover have "detx (coord wb) = None" "icattx (coord wb) = None"
    using a(4) b(4) by simp_all
  moreover have "one_open wb"
    if "one_open wx" "icattx (coord wx) = None \<or> icattx (coord wx) = Some t2"
      "detx (coord wx) = None \<or> detx (coord wx) = Some t1"
  proof -
    have "one_open wa"
      using rollback_one_open [OF a(1) that(1)] that(2) by simp
    then show ?thesis
      using rollback_one_open [OF b(1)] that(3) a(4) by simp
  qed
  moreover have "answered env (trace wx) (D2 @ D1)"
    using rollback_answered [OF a(1) a(2)] rollback_answered [OF b(1) b(2)] a(2)
    by (simp add: answered_append)
  moreover have "fields_bound (coord wb)"
    using a(4) b(4) by (simp add: fields_bound_def)
  ultimately show ?thesis
    using a(3) b(3) by blast
qed

lemma run_deferred_DE_ICAT:
  "\<exists>w' D2 D1. run_deferred env [Rb DE t2, Rb ICAT t1] (r, wx) = Some (r, w') \<and>
     trace w' = trace wx @ D2 @ D1 \<and> rb_seg DE t2 D2 \<and> rb_seg ICAT t1 D1 \<and>
     detx (coord w') = None \<and> icattx (coord w') = None \<and>
     (one_open wx \<longrightarrow> (detx (coord wx) = None \<or> detx (coord wx) = Some t2) \<longrightarrow>
      (icattx (coord wx) = None \<or> icattx (coord wx) = Some t1) \<longrightarrow> one_open w') \<and>
     answered env (trace wx) (D2 @ D1) \<and> fields_bound (coord w')"
proof -
  obtain wa D2 where a: "call_rollback env (Rb DE t2) wx = Some wa"
    "trace wa = trace wx @ D2" "rb_seg DE t2 D2"
    "coord wa = (coord wx)\<lparr>detx := None, DERollback := RbNoop, DECommit := CmNoop\<rparr>"
    using rollback_DE_run by blast
  obtain wb D1 where b: "call_rollback env (Rb ICAT t1) wa = Some wb"
    "trace wb = trace wa @ D1" "rb_seg ICAT t1 D1"
    "coord wb = (coord wa)\<lparr>icattx := None, ICATRollback := RbNoop, ICATCommit := CmNoop\<rparr>"
    using rollback_ICAT_run by blast
  have "run_deferred env [Rb DE t2, Rb ICAT t1] (r, wx) = Some (r, wb)"
    using a(1) b(1) by (simp add: run_deferred.simps)
  moreover have "trace wb = trace wx @ D2 @ D1"
    using a(2) b(2) by simp
  moreover have "detx (coord wb) = None" "icattx (coord wb) = None"
    using a(4) b(4) by simp_all
  moreover have "one_open wb"
    if "one_open wx" "detx (coord wx) = None \<or> detx (coord wx) = Some t2"
      "icattx (coord wx) = None \<or> icattx (coord wx) = Some t1"
  proof -
    have "one_open wa"
      using rollback_one_open [OF a(1) that(1)] that(2) by simp
    then show ?thesis
      using rollback_one_open [OF b(1)] that(3) a(4) by simp
  qed
  moreover have "answered env (trace wx) (D2 @ D1)"
    using rollback_answered [OF a(1) a(2)] rollback_answered [OF b(1) b(2)] a(2)
    by (simp add: answered_append)
  moreover have "fields_bound (coord wb)"
    using a(4) b(4) by (simp add: fields_bound_def)
  ultimately show ?thesis
    using a(3) b(3) by blast
qed

lemma coord_ok_cleared: "detx c = None \<Longrightarrow> icattx c = None \<Longrightarrow> coord_ok c"
  by (simp add: coord_ok_def)

lemma single_paths [consumes 1, case_names de_fail icat_fail info_fail usage_fail published]:
  assumes ok: "coord_ok (coord w)"
  obtains
    (de_fail) e w' A where
      "UpdateUserDataUsage env username w =
         Some ((None, Some (Wrap e ''Error creating DE transaction'')), w')"
      "fst (DETx env w) = Inl e"
      "new_events w w' = A" "open_seg DE A"
      "coord_ok (coord w')" "one_open w \<longrightarrow> one_open w'"
      "trace w' = trace w @ new_events w w'" "answered env (trace w) (new_events w w')"
      "trace (snd (DETx env w)) = trace w @ A"
      "fields_bound (coord w) \<longrightarrow> fields_bound (coord w')"
  | (icat_fail) dedb e w' A B D1 where
      "UpdateUserDataUsage env username w =
         Some ((None, Some (Wrap e ''Error creating ICAT transaction'')), w')"
      "fst (DETx env w) = Inr dedb" "fst (ICATTx env (snd (DETx env w))) = Inl e"
      "new_events w w' = A @ B @ D1" "open_seg DE A" "open_seg ICAT B" "rb_seg DE dedb D1"
      "detx (coord w') = None"
      "coord_ok (coord w')" "one_open w \<longrightarrow> one_open w'"
      "trace w' = trace w @ new_events w w'" "answered env (trace w) (new_events w w')"
      "trace (snd (DETx env w)) = trace w @ A"
      "trace (snd (ICATTx env (snd (DETx env w)))) = trace w @ A @ B"
      "fields_bound (coord w) \<longrightarrow> fields_bound (coord w')"
  | (info_fail) dedb icatdb e w' A B D2 D1 where
      "UpdateUserDataUsage env username w =
         Some ((None, Some (Wrap e ''error getting user info'')), w')"
      "fst (DETx env w) = Inr dedb" "fst (ICATTx env (snd (DETx env w))) = Inr icatdb"
      "new_events w w' = A @ B @ [EvGetUserInfo dedb username (Inl e)] @ D2 @ D1"
      "open_seg DE A" "open_seg ICAT B" "rb_seg ICAT icatdb D2" "rb_seg DE dedb D1"
      "detx (coord w') = None" "icattx (coord w') = None"
      "coord_ok (coord w')" "one_open w \<longrightarrow> one_open w'"
      "trace w' = trace w @ new_events w w'" "answered env (trace w) (new_events w w')"
      "trace (snd (DETx env w)) = trace w @ A"
      "trace (snd (ICATTx env (snd (DETx env w)))) = trace w @ A @ B"
      "fields_bound (coord w) \<longrightarrow> fields_bound (coord w')"
  | (usage_fail) dedb icatdb ui e w' A B D2 D1 where
      "UpdateUserDataUsage env username w =
         Some ((None, Some (Wrap e ''Error getting current data usage'')), w')"
      "fst (DETx env w) = Inr dedb" "fst (ICATTx env (snd (DETx env w))) = Inr icatdb"
      "e \<noteq> ErrNoRows"
      "new_events w w' = A @ B @
         [EvGetUserInfo dedb username (Inr ui), EvUserCurrentDataUsage icatdb username (Inl e)] @
         D2 @ D1"
      "open_seg DE A" "open_seg ICAT B" "rb_seg ICAT icatdb D2" "rb_seg DE dedb D1"
      "detx (coord w') = None" "icattx (coord w') = None"
      "coord_ok (coord w')" "one_open w \<longrightarrow> one_open w'"
      "trace w' = trace w @ new_events w w'" "answered env (trace w) (new_events w w')"
      "trace (snd (DETx env w)) = trace w @ A"
      "trace (snd (ICATTx env (snd (DETx env w)))) = trace w @ A @ B"
      "fields_bound (coord w) \<longrightarrow> fields_bound (coord w')"
  | (published) dedb icatdb ui u n I p P w' A B R D2 D1 where
      "UpdateUserDataUsage env username w =
         Some ((case p of
                  Inl e \<Rightarrow> (None, Some (Wrap e (if e = ErrNoRows then nodata_msg
                                                 else ''Error adding user data usage'')))
                | Inr res \<Rightarrow> (Some (res\<lparr>UserID := info_ID ui, Username := info_Username ui\<rparr>),
                              None)), w')"
      "fst (DETx env w) = Inr dedb" "fst (ICATTx env (snd (DETx env w))) = Inr icatdb"
      "(u = Inl ErrNoRows \<and> n = 0 \<and> I = [EvLog InfoLevel nousage_msg]) \<or> (u = Inr n \<and> I = [])"
      "list_all is_errlog P"
      "new_events w w' = A @ B @
         [EvGetUserInfo dedb username (Inr ui), EvUserCurrentDataUsage icatdb username u] @ I @ R @
         [EvLog DebugLevel ''username %s; usage value %d'',
          EvUpdateUsageForUser username (Float64 n) p] @ P @ D2 @ D1"
      "open_seg DE A" "open_seg ICAT B" "rb_seg ICAT icatdb R" "rb_seg ICAT icatdb D2"
      "rb_seg DE dedb D1"
      "detx (coord w') = None" "icattx (coord w') = None"
      "coord_ok (coord w')" "one_open w \<longrightarrow> one_open w'"
      "trace w' = trace w @ new_events w w'" "answered env (trace w) (new_events w w')"
      "trace (snd (DETx env w)) = trace w @ A"
      "trace (snd (ICATTx env (snd (DETx env w)))) = trace w @ A @ B"
      "fields_bound (coord w) \<longrightarrow> fields_bound (coord w')"
      "R = rollback_events env ICAT icatdb
             (trace w @ A @ B @
              [EvGetUserInfo dedb username (Inr ui),
               EvUserCurrentDataUsage icatdb username u] @ I)"
proof -
  obtain r1 w1 where d: "DETx env w = (r1, w1)"
    by (cases "DETx env w")
  from DETx_run [OF ok d] obtain A where
    ok1: "coord_ok (coord w1)" and tr1: "trace w1 = trace w @ A" and segA: "open_seg DE A" and
    r1: "case r1 of Inl e \<Rightarrow> coord w1 = coord w \<and> detx (coord w) = None
         | Inr t \<Rightarrow> detx (coord w1) = Some t \<and> DERollback (coord w1) = Rb DE t \<and>
                    DECommit (coord w1) = Cm DE t"
    by blast
  have oo1: "one_open w \<longrightarrow> one_open w1"
    using DETx_one_open [OF _ d] by blast
  have tA: "trace (snd (DETx env w)) = trace w @ A"
    using d tr1 by simp
  have faA: "answered env (trace w) A"
    using DETx_answered [of env w] d tr1 by (simp add: new_events_def)
  have fb1: "fields_bound (coord w) \<longrightarrow> fields_bound (coord w1)"
    using DETx_fields_bound [of w env] d by simp
  show thesis
  proof (cases r1)
    case (Inl e)
    have op: "UpdateUserDataUsage env username w =
            Some ((None, Some (Wrap e ''Error creating DE transaction'')), w1)"
      using d Inl by (simp add: UpdateUserDataUsage_def)
    have f: "fst (DETx env w) = Inl e"
      using d Inl by simp
    have ne: "new_events w w1 = A"
      using tr1 by (simp add: new_events_def)
    have pre: "trace w1 = trace w @ new_events w w1"
      using tr1 by (simp add: new_events_def)
    have fa: "answered env (trace w) (new_events w w1)"
      using faA by (simp add: ne)
    show thesis
      by (rule de_fail [OF op f ne segA ok1 oo1 pre fa tA fb1])
  next
    case (Inr dedb)
    with r1 have rb1: "DERollback (coord w1) = Rb DE dedb" and h1: "detx (coord w1) = Some dedb"
      by simp_all
    obtain r2 w2 where i: "ICATTx env w1 = (r2, w2)"
      by (cases "ICATTx env w1")
    from ICATTx_run [OF ok1 i] obtain B where
      ok2: "coord_ok (coord w2)" and tr2: "trace w2 = trace w1 @ B" and segB: "open_seg ICAT B" and
      keep: "DERollback (coord w2) = DERollback (coord w1)" and
      keeph: "detx (coord w2) = detx (coord w1)" and
      r2: "case r2 of Inl e \<Rightarrow> coord w2 = coord w1 \<and> icattx (coord w1) = None
           | Inr t \<Rightarrow> icattx (coord w2) = Some t \<and> ICATRollback (coord w2) = Rb ICAT t \<and>
                      ICATCommit (coord w2) = Cm ICAT t"
      by blast
    have oo2: "one_open w \<longrightarrow> one_open w2"
      using oo1 ICATTx_one_open [OF _ i] by blast
    have h2: "detx (coord w2) = Some dedb"
      using keeph h1 by simp
    have tB: "trace (snd (ICATTx env (snd (DETx env w)))) = trace w @ A @ B"
      using d i tr1 tr2 by simp
    have faB: "answered env (trace w @ A) B"
      using ICATTx_answered [of env w1] i tr1 tr2 by (simp add: new_events_def)
    have fb2: "fields_bound (coord w) \<longrightarrow> fields_bound (coord w2)"
      using fb1 ICATTx_fields_bound [of w1 env] i by simp
    show thesis
    proof (cases r2)
      case (Inl e)
      obtain w' D1 where c: "call_rollback env (Rb DE dedb) w2 = Some w'" and
        tr': "trace w' = trace w2 @ D1" and segD1: "rb_seg DE dedb D1" and
        co: "coord w' = (coord w2)\<lparr>detx := None, DERollback := RbNoop, DECommit := CmNoop\<rparr>"
        using rollback_DE_run by blast
      have op: "UpdateUserDataUsage env username w =
              Some ((None, Some (Wrap e ''Error creating ICAT transaction'')), w')"
        using d \<open>r1 = Inr dedb\<close> i Inl rb1 c
        by (simp add: UpdateUserDataUsage_def run_deferred.simps)
      have f: "fst (DETx env w) = Inr dedb" "fst (ICATTx env (snd (DETx env w))) = Inl e"
        using d \<open>r1 = Inr dedb\<close> i Inl by simp_all
      have ne: "new_events w w' = A @ B @ D1"
        using tr1 tr2 tr' by (simp add: new_events_def)
      have h: "detx (coord w') = None"
        using co by simp
      have "icattx (coord w') = None"
        using co r2 Inl by simp
      with h have ok': "coord_ok (coord w')"
        by (rule coord_ok_cleared)
      have oo': "one_open w \<longrightarrow> one_open w'"
        using oo2 rollback_one_open [OF c] h2 by simp
      have pre: "trace w' = trace w @ new_events w w'"
        using tr1 tr2 tr' by (simp add: new_events_def)
      have fa: "answered env (trace w) (new_events w w')"
        unfolding ne using faA faB rollback_answered [OF c tr'] tr1 tr2
        by (simp add: answered_append)
      have fb: "fields_bound (coord w) \<longrightarrow> fields_bound (coord w')"
        using fb2 co by (simp add: fields_bound_clear_DE)
      show thesis
        by (rule icat_fail [OF op f ne segA segB segD1 h ok' oo' pre fa tA tB fb])
    next
      case (Inr icatdb)
      with r2 have rb2: "ICATRollback (coord w2) = Rb ICAT icatdb" and
        i2: "icattx (coord w2) = Some icatdb"
        by simp_all
      from keep rb1 have rb1': "DERollback (coord w2) = Rb DE dedb"
        by simp
      note start = d \<open>r1 = Inr dedb\<close> i Inr rb1 rb1' rb2
      have fsts: "fst (DETx env w) = Inr dedb" "fst (ICATTx env (snd (DETx env w))) = Inr icatdb"
        using d \<open>r1 = Inr dedb\<close> i \<open>r2 = Inr icatdb\<close> by simp_all
      have deferred: "\<exists>w' D2 D1. run_deferred env [Rb ICAT icatdb, Rb DE dedb] (r, wx) = Some (r, w') \<and>
          trace w' = trace wx @ D2 @ D1 \<and> rb_seg ICAT icatdb D2 \<and> rb_seg DE dedb D1 \<and>
          detx (coord w') = None \<and> icattx (coord w') = None \<and> coord_ok (coord w') \<and>
          (one_open w \<longrightarrow> one_open w') \<and>
          answered env (trace wx) (D2 @ D1) \<and> (fields_bound (coord w) \<longrightarrow> fields_bound (coord w'))"
        if "one_open w \<longrightarrow> one_open wx" "detx (coord wx) = Some dedb"
          "icattx (coord wx) = None \<or> icattx (coord wx) = Some icatdb"
        for r :: "user_data_usage option \<times> err option" and wx
      proof -
        from run_deferred_ICAT_DE [of env icatdb dedb r wx] obtain w' D2 D1 where x:
          "run_deferred env [Rb ICAT icatdb, Rb DE dedb] (r, wx) = Some (r, w')"
          "trace w' = trace wx @ D2 @ D1" "rb_seg ICAT icatdb D2" "rb_seg DE dedb D1"
          "detx (coord w') = None" "icattx (coord w') = None"
          "one_open wx \<longrightarrow> (icattx (coord wx) = None \<or> icattx (coord wx) = Some icatdb) \<longrightarrow>
           (detx (coord wx) = None \<or> detx (coord wx) = Some dedb) \<longrightarrow> one_open w'"
          "answered env (trace wx) (D2 @ D1)" "fields_bound (coord w')"
          by blast
        have "coord_ok (coord w')"
          using x(5,6) by (rule coord_ok_cleared)
        moreover have "one_open w \<longrightarrow> one_open w'"
          using x(7) that by blast
        ultimately show ?thesis
          using x(1-6) x(8,9) by blast
      qed
      show thesis
      proof (cases "GetUserInfo env dedb username (trace w2)")
        case (Inl e)
        obtain w' D2 D1 where c:
          "run_deferred env [Rb ICAT icatdb, Rb DE dedb]
             ((None :: user_data_usage option, Some (Wrap e ''error getting user info'')),
              emit (EvGetUserInfo dedb username (Inl e)) w2) =
           Some ((None :: user_data_usage option, Some (Wrap e ''error getting user info'')), w')"
          "trace w' = trace (emit (EvGetUserInfo dedb username (Inl e)) w2) @ D2 @ D1"
          "rb_seg ICAT icatdb D2" "rb_seg DE dedb D1"
          "detx (coord w') = None" "icattx (coord w') = None"
          "coord_ok (coord w')" "one_open w \<longrightarrow> one_open w'"
          "answered env (trace (emit (EvGetUserInfo dedb username (Inl e)) w2)) (D2 @ D1)"
          "fields_bound (coord w) \<longrightarrow> fields_bound (coord w')"
          using deferred [of "emit (EvGetUserInfo dedb username (Inl e)) w2"
              "(None, Some (Wrap e ''error getting user info''))"] oo2 h2 i2
          by (auto simp: one_open_emit)
        have "UpdateUserDataUsage env username w =
                run_deferred env [Rb ICAT icatdb, Rb DE dedb]
                  ((None :: user_data_usage option, Some (Wrap e ''error getting user info'')),
                   emit (EvGetUserInfo dedb username (Inl e)) w2)"
          using start Inl by (simp add: UpdateUserDataUsage_def Let_def)
        then have op: "UpdateUserDataUsage env username w =
                Some ((None, Some (Wrap e ''error getting user info'')), w')"
          by (simp only: c(1))
        have ne: "new_events w w' = A @ B @ [EvGetUserInfo dedb username (Inl e)] @ D2 @ D1"
          using tr1 tr2 c(2) by (simp add: new_events_def)
        have pre: "trace w' = trace w @ new_events w w'"
          using tr1 tr2 c(2) by (simp add: new_events_def)
        have fa: "answered env (trace w) (new_events w w')"
          unfolding ne using faA faB c(9) Inl tr1 tr2
          by (simp add: answered_append)
        show thesis
          by (rule info_fail [OF op fsts ne segA segB c(3-8) pre fa tA tB c(10)])
      next
        case ui: (Inr ui)
        define w3 where "w3 = emit (EvGetUserInfo dedb username (Inr ui)) w2"
        have published_part: thesis
          if usage: "(u = Inl ErrNoRows \<and> n = 0 \<and> I = [EvLog InfoLevel nousage_msg]) \<or> (u = Inr n \<and> I = [])"
            and u: "UserCurrentDataUsage env icatdb username (trace w3) = u"
          for u n I
        proof -
          define w4 where "w4 = emit (EvUserCurrentDataUsage icatdb username u) w3"
          define w5 where "w5 = (if u = Inl ErrNoRows then emit (EvLog InfoLevel nousage_msg) w4 else w4)"
          have tr5: "trace w5 = trace w2 @ [EvGetUserInfo dedb username (Inr ui),
                       EvUserCurrentDataUsage icatdb username u] @ I"
            using usage by (auto simp: w5_def w4_def w3_def)
          have co5: "coord w5 = coord w2"
            by (simp add: w5_def w4_def w3_def)
          have oo5: "one_open w \<longrightarrow> one_open w5"
            using oo2 by (simp add: w5_def w4_def w3_def one_open_emit)
          obtain w6 R where r: "call_rollback env (Rb ICAT icatdb) w5 = Some w6"
            "trace w6 = trace w5 @ R" "rb_seg ICAT icatdb R"
            "coord w6 = (coord w5)\<lparr>icattx := None, ICATRollback := RbNoop, ICATCommit := CmNoop\<rparr>"
            using rollback_ICAT_run by blast
          have oo6: "one_open w \<longrightarrow> one_open w6"
            using oo5 rollback_one_open [OF r(1)] co5 i2 by simp
          define w7 where "w7 = emit (EvLog DebugLevel ''username %s; usage value %d'') w6"
          define p where "p = UpdateUsageForUser env username (Float64 n) (trace w7)"
          define w8 where "w8 = emit (EvUpdateUsageForUser username (Float64 n) p) w7"
          define res where "res = (case p of
                  Inl e \<Rightarrow> (None, Some (Wrap e (if e = ErrNoRows then nodata_msg
                                                 else ''Error adding user data usage'')))
                | Inr res \<Rightarrow> (Some (res\<lparr>UserID := info_ID ui, Username := info_Username ui\<rparr>),
                              None))"
          define P where "P = (case p of Inl e \<Rightarrow> [EvLog ErrorLevel (Error (the (snd res)))]
                                | Inr _ \<Rightarrow> [])"
          define w9 where "w9 = (case p of Inl e \<Rightarrow> emit (EvLog ErrorLevel (Error (the (snd res)))) w8
                                | Inr _ \<Rightarrow> w8)"
          have tr9: "trace w9 = trace w6 @ [EvLog DebugLevel ''username %s; usage value %d'',
             EvUpdateUsageForUser username (Float64 n) p] @ P"
            by (simp add: w9_def w8_def w7_def P_def split: sum.splits)
          have co9: "coord w9 = coord w6"
            by (simp add: w9_def w8_def w7_def split: sum.splits)
          have oo9: "one_open w \<longrightarrow> one_open w9"
            using oo6 by (simp add: w9_def w8_def w7_def one_open_emit split: sum.splits)
          have P: "list_all is_errlog P"
            by (simp add: P_def split: sum.splits)
          obtain w' D2 D1 where c:
            "run_deferred env [Rb ICAT icatdb, Rb DE dedb] (res, w9) = Some (res, w')"
            "trace w' = trace w9 @ D2 @ D1"
            "rb_seg ICAT icatdb D2" "rb_seg DE dedb D1"
            "detx (coord w') = None" "icattx (coord w') = None"
            "coord_ok (coord w')" "one_open w \<longrightarrow> one_open w'"
            "answered env (trace w9) (D2 @ D1)"
            "fields_bound (coord w) \<longrightarrow> fields_bound (coord w')"
            using deferred [of w9 res] oo9 co9 r(4) co5 h2
            by auto
          have usage_eq: "(case u of
                             Inl err \<Rightarrow> if err = ErrNoRows
                               then Inr (0, emit (EvLog InfoLevel nousage_msg) w4) else Inl err
                           | Inr n \<Rightarrow> Inr (n, w4)) = Inr (n, w5)"
            using usage by (auto simp: w5_def)
          have rest: "(case p of
                Inl err \<Rightarrow>
                  if err = ErrNoRows
                  then (let e = Wrap err nodata_msg
                        in run_deferred env [Rb ICAT icatdb, Rb DE dedb]
                             ((None, Some e), emit (EvLog ErrorLevel (Error e)) w8))
                  else (let e = Wrap err ''Error adding user data usage''
                        in run_deferred env [Rb ICAT icatdb, Rb DE dedb]
                             ((None, Some e), emit (EvLog ErrorLevel (Error e)) w8))
              | Inr res \<Rightarrow>
                  run_deferred env [Rb ICAT icatdb, Rb DE dedb]
                    ((Some (res\<lparr>UserID := info_ID ui, Username := info_Username ui\<rparr>), None), w8))
              = Some (res, w')"
          proof (cases p)
            case (Inr x)
            then show ?thesis
              using c(1) by (simp add: res_def w9_def)
          next
            case (Inl err)
            show ?thesis
            proof (cases "err = ErrNoRows")
              case True
              then show ?thesis
                using c(1) Inl by (simp add: res_def w9_def)
            next
              case False
              then show ?thesis
                using c(1) Inl by (simp add: res_def w9_def)
            qed
          qed
          have op: "UpdateUserDataUsage env username w = Some (res, w')"
            unfolding UpdateUserDataUsage_def
            apply (simp only: d \<open>r1 = Inr dedb\<close> i \<open>r2 = Inr icatdb\<close> prod.case sum.case Let_def rb1 rb1' rb2 ui)
            apply (simp only: w3_def [symmetric] u)
            apply (simp only: w4_def [symmetric] usage_eq)
            apply (simp only: sum.case prod.case co5 rb2)
            apply (simp only: r(1) option.case rest [unfolded w8_def p_def w7_def Let_def])
            done
          have ne: "new_events w w' = A @ B @
              [EvGetUserInfo dedb username (Inr ui), EvUserCurrentDataUsage icatdb username u] @ I @ R @
              [EvLog DebugLevel ''username %s; usage value %d'',
               EvUpdateUsageForUser username (Float64 n) p] @ P @ D2 @ D1"
            using tr1 tr2 tr5 r(2) tr9 c(2) by (simp add: new_events_def)
          have pre: "trace w' = trace w @ new_events w w'"
            using tr1 tr2 tr5 r(2) tr9 c(2) by (simp add: new_events_def)
          have faI: "answered env tr I" for tr
            using usage by auto
          have faU: "u = UserCurrentDataUsage env icatdb username
                         (trace w @ A @ B @ [EvGetUserInfo dedb username (Inr ui)])"
            using u tr1 tr2 by (simp add: w3_def)
          have faR: "answered env (trace w5) R"
            using rollback_answered [OF r(1) r(2)] .
          have faP: "p = UpdateUsageForUser env username (Float64 n)
                         (trace w6 @ [EvLog DebugLevel ''username %s; usage value %d''])"
            by (simp add: p_def w7_def)
          have faG: "Inr ui = GetUserInfo env dedb username (trace w @ A @ B)"
            using ui tr1 tr2 by simp
          have fa: "answered env (trace w) (new_events w w')"
            unfolding ne
            using faA faB faG faU [symmetric] faI faR faP [symmetric] c(9) answered_errlog [OF P]
            by (simp add: answered_append tr1 tr2 tr5 r(2) tr9)
          from rollback_ICAT_exact [of env icatdb w5] r(1)
          have "new_events w5 w6 = rollback_events env ICAT icatdb (trace w5)"
            by auto
          with r(2) have Rex: "R = rollback_events env ICAT icatdb
              (trace w @ A @ B @
               [EvGetUserInfo dedb username (Inr ui),
                EvUserCurrentDataUsage icatdb username u] @ I)"
            using tr1 tr2 tr5 by (simp add: new_events_def)
          show thesis
            by (rule published [OF op [unfolded res_def] fsts usage P ne segA segB r(3) c(3-8)
                  pre fa tA tB c(10) Rex])
        qed
        show thesis
        proof (cases "UserCurrentDataUsage env icatdb username (trace w3)")
          case (Inr n)
          then show thesis
            using published_part [of "Inr n" n "[]"] by simp
        next
          case (Inl e)
          show thesis
          proof (cases "e = ErrNoRows")
            case True
            then show thesis
              using published_part [of "Inl e" 0 "[EvLog InfoLevel nousage_msg]"] Inl by simp
          next
            case False
            obtain w' D2 D1 where c:
              "run_deferred env [Rb ICAT icatdb, Rb DE dedb]
                 ((None :: user_data_usage option, Some (Wrap e ''Error getting current data usage'')),
                  emit (EvUserCurrentDataUsage icatdb username (Inl e)) w3) =
               Some ((None :: user_data_usage option, Some (Wrap e ''Error getting current data usage'')), w')"
              "trace w' = trace (emit (EvUserCurrentDataUsage icatdb username (Inl e)) w3) @ D2 @ D1"
              "rb_seg ICAT icatdb D2" "rb_seg DE dedb D1"
              "detx (coord w') = None" "icattx (coord w') = None"
              "coord_ok (coord w')" "one_open w \<longrightarrow> one_open w'"
              "answered env (trace (emit (EvUserCurrentDataUsage icatdb username (Inl e)) w3))
                 (D2 @ D1)"
              "fields_bound (coord w) \<longrightarrow> fields_bound (coord w')"
              using deferred [of "emit (EvUserCurrentDataUsage icatdb username (Inl e)) w3"
                  "(None, Some (Wrap e ''Error getting current data usage''))"] oo2 h2 i2
              by (auto simp: one_open_emit w3_def)
            have "UpdateUserDataUsage env username w =
                    run_deferred env [Rb ICAT icatdb, Rb DE dedb]
                      ((None :: user_data_usage option, Some (Wrap e ''Error getting current data usage'')),
                       emit (EvUserCurrentDataUsage icatdb username (Inl e)) w3)"
              using start ui Inl False
              by (simp add: UpdateUserDataUsage_def Let_def w3_def)
            then have op: "UpdateUserDataUsage env username w =
                    Some ((None, Some (Wrap e ''Error getting current data usage'')), w')"
              by (simp only: c(1))
            have ne: "new_events w w' = A @ B @
                [EvGetUserInfo dedb username (Inr ui),
                 EvUserCurrentDataUsage icatdb username (Inl e)] @ D2 @ D1"
              using tr1 tr2 c(2) by (simp add: new_events_def w3_def)
            have pre: "trace w' = trace w @ new_events w w'"
              using tr1 tr2 c(2) by (simp add: new_events_def w3_def)
            have fa: "answered env (trace w) (new_events w w')"
              unfolding ne using faA faB c(9) ui Inl tr1 tr2
              by (simp add: answered_append w3_def)
            show thesis
              by (rule usage_fail [OF op fsts False ne segA segB c(3-8) pre fa tA tB c(10)])
          qed
        qed
      qed
    qed
  qed
qed

lemma commit_DE_exact:
  "\<exists>w'. call_commit env (Cm DE t) w =
          Some (map_option (\<lambda>e. Wrap e ''Error committing DE database transaction'')
                  (Commit env DE t (trace w)), w') \<and>
     trace w' = trace w @ EvCommit DE t (Commit env DE t (trace w)) #
       (case Commit env DE t (trace w) of
          None \<Rightarrow> []
        | Some e \<Rightarrow> [EvLog ErrorLevel
                       (Error (Wrap e ''Error committing DE database transaction''))]) \<and>
     coord w' = (coord w)\<lparr>detx := None, DERollback := RbNoop, DECommit := CmNoop\<rparr>"
  by (simp add: call_commit.simps emit_def Let_def split: option.split)

lemma coord_ok_clear_ICAT:
  "coord_ok c \<Longrightarrow> coord_ok (c\<lparr>icattx := None, ICATRollback := RbNoop, ICATCommit := CmNoop\<rparr>)"
  by (simp add: coord_ok_def split: option.splits)

lemma run_deferred_ICAT:
  "\<exists>w' D1. run_deferred env [Rb ICAT t1] (r, wx) = Some (r, w') \<and>
     trace w' = trace wx @ D1 \<and> rb_seg ICAT t1 D1 \<and> icattx (coord w') = None \<and>
     detx (coord w') = detx (coord wx) \<and> DERollback (coord w') = DERollback (coord wx) \<and>
     DECommit (coord w') = DECommit (coord wx) \<and>
     (coord_ok (coord wx) \<longrightarrow> coord_ok (coord w')) \<and>
     (one_open wx \<longrightarrow> (icattx (coord wx) = None \<or> icattx (coord wx) = Some t1) \<longrightarrow> one_open w') \<and>
     answered env (trace wx) D1 \<and> (fields_bound (coord wx) \<longrightarrow> fields_bound (coord w'))"
proof -
  obtain wa D1 where a: "call_rollback env (Rb ICAT t1) wx = Some wa"
    "trace wa = trace wx @ D1" "rb_seg ICAT t1 D1"
    "coord wa = (coord wx)\<lparr>icattx := None, ICATRollback := RbNoop, ICATCommit := CmNoop\<rparr>"
    using rollback_ICAT_run by blast
  have "run_deferred env [Rb ICAT t1] (r, wx) = Some (r, wa)"
    using a(1) by (simp add: run_deferred.simps)
  moreover have "icattx (coord wa) = None" "detx (coord wa) = detx (coord wx)"
    "DERollback (coord wa) = DERollback (coord wx)" "DECommit (coord wa) = DECommit (coord wx)"
    using a(4) by simp_all
  moreover have "coord_ok (coord wa)" if "coord_ok (coord wx)"
    using that a(4) by (simp add: coord_ok_clear_ICAT)
  moreover have "one_open wa"
    if "one_open wx" "icattx (coord wx) = None \<or> icattx (coord wx) = Some t1"
    using rollback_one_open [OF a(1) that(1)] that(2) by simp
  moreover have "answered env (trace wx) D1"
    using rollback_answered [OF a(1) a(2)] .
  moreover have "fields_bound (coord wa)" if "fields_bound (coord wx)"
    using that a(4) by (simp add: fields_bound_clear_ICAT)
  ultimately show ?thesis
    using a(2,3) by blast
qed

lemma batch_paths [consumes 1, case_names icat_fail read_fail de_fail ensure_fail commit_fail published]:
  assumes ok: "coord_ok (coord w)"
  obtains
    (icat_fail) e w' B where
      "UpdateUserDataUsageBatch env start end' w =
         Some ((None, Some (Wrap e ''Error creating ICAT transaction'')), w')"
      "new_events w w' = B" "open_seg ICAT B"
      "coord_ok (coord w')" "one_open w \<longrightarrow> one_open w'"
      "trace w' = trace w @ new_events w w'" "answered env (trace w) (new_events w w')"
      "fst (ICATTx env w) = Inl e" "trace (snd (ICATTx env w)) = trace w @ B"
      "fields_bound (coord w) \<longrightarrow> fields_bound (coord w')"
  | (read_fail) icatdb e w' B D1 where
      "UpdateUserDataUsageBatch env start end' w = Some ((None, Some e), w')"
      "new_events w w' = B @ [EvBatchCurrentDataUsage icatdb start end' (Inl e)] @ D1"
      "open_seg ICAT B" "rb_seg ICAT icatdb D1"
      "coord_ok (coord w')" "one_open w \<longrightarrow> one_open w'"
      "trace w' = trace w @ new_events w w'" "answered env (trace w) (new_events w w')"
      "fst (ICATTx env w) = Inr icatdb" "trace (snd (ICATTx env w)) = trace w @ B"
      "fields_bound (coord w) \<longrightarrow> fields_bound (coord w')"
  | (de_fail) icatdb usages e w' B R A D1 where
      "UpdateUserDataUsageBatch env start end' w =
         Some ((None, Some (Wrap e ''Error creating DE database transaction'')), w')"
      "new_events w w' =
         B @ [EvBatchCurrentDataUsage icatdb start end' (Inr usages)] @ R @ [batch_log] @ A @ D1"
      "open_seg ICAT B" "rb_seg ICAT icatdb R" "open_seg DE A" "rb_seg ICAT icatdb D1"
      "coord_ok (coord w')" "one_open w \<longrightarrow> one_open w'"
      "trace w' = trace w @ new_events w w'" "answered env (trace w) (new_events w w')"
      "fst (ICATTx env w) = Inr icatdb" "trace (snd (ICATTx env w)) = trace w @ B"
      "fields_bound (coord w) \<longrightarrow> fields_bound (coord w')"
  | (ensure_fail) icatdb dedb usages us m e w' B R A D2 D1 where
      "UpdateUserDataUsageBatch env start end' w =
         Some ((None, Some (Wrap e ''Error ensuring users exist'')), w')"
      "fix_loop (FixUsername env) usages [] Map.empty = (us, m)" "us \<noteq> []"
      "new_events w w' =
         B @ [EvBatchCurrentDataUsage icatdb start end' (Inr usages)] @ R @ [batch_log] @ A @
         [EvEnsureUsers dedb us (Some e)] @ D2 @ D1"
      "open_seg ICAT B" "rb_seg ICAT icatdb R" "open_seg DE A" "rb_seg DE dedb D2"
      "rb_seg ICAT icatdb D1"
      "coord_ok (coord w')" "one_open w \<longrightarrow> one_open w'"
      "trace w' = trace w @ new_events w w'" "answered env (trace w) (new_events w w')"
      "fst (ICATTx env w) = Inr icatdb" "trace (snd (ICATTx env w)) = trace w @ B"
      "fields_bound (coord w) \<longrightarrow> fields_bound (coord w')"
  | (commit_fail) icatdb dedb usages us m e0 w' B R A D2 D1 where
      "UpdateUserDataUsageBatch env start end' w =
         Some ((None, Some (Wrap (Wrap e0 ''Error committing DE database transaction'')
                               ''Error committing DE transaction'')), w')"
      "fix_loop (FixUsername env) usages [] Map.empty = (us, m)"
      "new_events w w' =
         B @ [EvBatchCurrentDataUsage icatdb start end' (Inr usages)] @ R @ [batch_log] @ A @
         ensure_events dedb us None @
         [EvCommit DE dedb (Some e0),
          EvLog ErrorLevel (Error (Wrap e0 ''Error committing DE database transaction'')),
          EvLog ErrorLevel (Error (Wrap (Wrap e0 ''Error committing DE database transaction'')
                                     ''Error committing DE transaction''))] @ D2 @ D1"
      "open_seg ICAT B" "rb_seg ICAT icatdb R" "open_seg DE A" "rb_seg DE dedb D2"
      "rb_seg ICAT icatdb D1"
      "coord_ok (coord w')" "one_open w \<longrightarrow> one_open w'"
      "trace w' = trace w @ new_events w w'" "answered env (trace w) (new_events w w')"
      "fst (ICATTx env w) = Inr icatdb" "trace (snd (ICATTx env w)) = trace w @ B"
      "fields_bound (coord w) \<longrightarrow> fields_bound (coord w')"
  | (published) icatdb dedb usages us m p w' B R A D2 D1 where
      "UpdateUserDataUsageBatch env start end' w =
         Some ((case p of
                  Inl e \<Rightarrow> (None, Some (Wrap e ''Error inserting new usage''))
                | Inr res \<Rightarrow> (Some res, None)), w')"
      "fix_loop (FixUsername env) usages [] Map.empty = (us, m)"
      "new_events w w' =
         B @ [EvBatchCurrentDataUsage icatdb start end' (Inr usages)] @ R @ [batch_log] @ A @
         ensure_events dedb us None @
         [EvCommit DE dedb None, EvAddUserUpdatesBatch m p] @ D2 @ D1"
      "open_seg ICAT B" "rb_seg ICAT icatdb R" "open_seg DE A" "rb_seg DE dedb D2"
      "rb_seg ICAT icatdb D1"
      "coord_ok (coord w')" "one_open w \<longrightarrow> one_open w'"
      "trace w' = trace w @ new_events w w'" "answered env (trace w) (new_events w w')"
      "fst (ICATTx env w) = Inr icatdb" "trace (snd (ICATTx env w)) = trace w @ B"
      "fields_bound (coord w) \<longrightarrow> fields_bound (coord w')"
proof -
  obtain r1 w1 where i: "ICATTx env w = (r1, w1)"
    by (cases "ICATTx env w")
  from ICATTx_run [OF ok i] obtain B where
    ok1: "coord_ok (coord w1)" and tr1: "trace w1 = trace w @ B" and segB: "open_seg ICAT B" and
    r1: "case r1 of Inl e \<Rightarrow> coord w1 = coord w \<and> icattx (coord w) = None
         | Inr t \<Rightarrow> icattx (coord w1) = Some t \<and> ICATRollback (coord w1) = Rb ICAT t \<and>
                    ICATCommit (coord w1) = Cm ICAT t"
    by blast
  have oo1: "one_open w \<longrightarrow> one_open w1"
    using ICATTx_one_open [OF _ i] by blast
  have tB: "trace (snd (ICATTx env w)) = trace w @ B"
    using i tr1 by simp
  have faB: "answered env (trace w) B"
    using ICATTx_answered [of env w] i tr1 by (simp add: new_events_def)
  have fb1: "fields_bound (coord w) \<longrightarrow> fields_bound (coord w1)"
    using ICATTx_fields_bound [of w env] i by simp
  show thesis
  proof (cases r1)
    case (Inl e)
    have op: "UpdateUserDataUsageBatch env start end' w =
            Some ((None, Some (Wrap e ''Error creating ICAT transaction'')), w1)"
      using i Inl by (simp add: UpdateUserDataUsageBatch_def)
    have ne: "new_events w w1 = B"
      using tr1 by (simp add: new_events_def)
    have pre: "trace w1 = trace w @ new_events w w1"
      using tr1 by (simp add: new_events_def)
    have fa: "answered env (trace w) (new_events w w1)"
      using faB by (simp add: ne)
    have f: "fst (ICATTx env w) = Inl e"
      using i Inl by simp
    show thesis
      by (rule icat_fail [OF op ne segB ok1 oo1 pre fa f tB fb1])
  next
    case (Inr icatdb)
    with r1 have rb1: "ICATRollback (coord w1) = Rb ICAT icatdb" and
      i1: "icattx (coord w1) = Some icatdb"
      by simp_all
    note start = i \<open>r1 = Inr icatdb\<close> rb1
    have f: "fst (ICATTx env w) = Inr icatdb"
      using i Inr by simp
    show thesis
    proof (cases "BatchCurrentDataUsage env icatdb start end' (trace w1)")
      case (Inl e)
      define w2 where "w2 = emit (EvBatchCurrentDataUsage icatdb start end' (Inl e)) w1"
      from run_deferred_ICAT [of env icatdb "(None :: user_data_usage list option, Some e)" w2]
      obtain w' D1 where c:
        "run_deferred env [Rb ICAT icatdb] ((None :: user_data_usage list option, Some e), w2) =
           Some ((None, Some e), w')"
        "trace w' = trace w2 @ D1" "rb_seg ICAT icatdb D1"
        "coord_ok (coord w2) \<longrightarrow> coord_ok (coord w')"
        "one_open w2 \<longrightarrow> (icattx (coord w2) = None \<or> icattx (coord w2) = Some icatdb) \<longrightarrow>
           one_open w'"
        "answered env (trace w2) D1" "fields_bound (coord w2) \<longrightarrow> fields_bound (coord w')"
        by blast
      have "UpdateUserDataUsageBatch env start end' w =
              run_deferred env [Rb ICAT icatdb]
                ((None :: user_data_usage list option, Some e), w2)"
        using start Inl by (simp add: UpdateUserDataUsageBatch_def Let_def w2_def)
      then have op: "UpdateUserDataUsageBatch env start end' w = Some ((None, Some e), w')"
        by (simp only: c(1))
      have ne: "new_events w w' = B @ [EvBatchCurrentDataUsage icatdb start end' (Inl e)] @ D1"
        using tr1 c(2) by (simp add: new_events_def w2_def)
      have ok': "coord_ok (coord w')"
        using c(4) ok1 by (simp add: w2_def)
      have oo': "one_open w \<longrightarrow> one_open w'"
        using c(5) oo1 i1 by (simp add: w2_def one_open_emit)
      have pre: "trace w' = trace w @ new_events w w'"
        using tr1 c(2) by (simp add: new_events_def w2_def)
      have fa: "answered env (trace w) (new_events w w')"
        unfolding ne using faB c(6) Inl tr1
        by (simp add: answered_append w2_def)
      have fb: "fields_bound (coord w) \<longrightarrow> fields_bound (coord w')"
        using c(7) fb1 by (simp add: w2_def)
      show thesis
        by (rule read_fail [OF op ne segB c(3) ok' oo' pre fa f tB fb])
    next
      case usages: (Inr usages)
      define w2 where "w2 = emit (EvBatchCurrentDataUsage icatdb start end' (Inr usages)) w1"
      obtain w3 R where r: "call_rollback env (Rb ICAT icatdb) w2 = Some w3"
        "trace w3 = trace w2 @ R" "rb_seg ICAT icatdb R"
        "coord w3 = (coord w2)\<lparr>icattx := None, ICATRollback := RbNoop, ICATCommit := CmNoop\<rparr>"
        using rollback_ICAT_run by blast
      define w4 where "w4 = emit (EvLog TraceLevel ''usages in batch: %+v'') w3"
      obtain us m where fl: "fix_loop (FixUsername env) usages [] Map.empty = (us, m)"
        by (cases "fix_loop (FixUsername env) usages [] Map.empty")
      have tr4: "trace w4 =
          trace w @ B @ [EvBatchCurrentDataUsage icatdb start end' (Inr usages)] @ R @ [batch_log]"
        using tr1 r(2) by (simp add: w4_def w2_def batch_log_def)
      have ok4: "coord_ok (coord w4)"
        using ok1 r(4) by (simp add: w4_def w2_def coord_ok_clear_ICAT)
      have i4: "icattx (coord w4) = None"
        using r(4) by (simp add: w4_def)
      have oo2: "one_open w \<longrightarrow> one_open w2"
        using oo1 by (simp add: w2_def one_open_emit)
      have oo3: "one_open w \<longrightarrow> one_open w3"
        using oo2 rollback_one_open [OF r(1)] i1 by (simp add: w2_def)
      have oo4: "one_open w \<longrightarrow> one_open w4"
        using oo3 by (simp add: w4_def one_open_emit)
      obtain r5 w5 where d: "DETx env w4 = (r5, w5)"
        by (cases "DETx env w4")
      from DETx_run [OF ok4 d] obtain A where
        ok5: "coord_ok (coord w5)" and tr5: "trace w5 = trace w4 @ A" and
        segA: "open_seg DE A" and keepi: "icattx (coord w5) = icattx (coord w4)" and
        r5: "case r5 of Inl e \<Rightarrow> coord w5 = coord w4 \<and> detx (coord w4) = None
             | Inr t \<Rightarrow> detx (coord w5) = Some t \<and> DERollback (coord w5) = Rb DE t \<and>
                        DECommit (coord w5) = Cm DE t"
        by blast
      have oo5: "one_open w \<longrightarrow> one_open w5"
        using oo4 DETx_one_open [OF _ d] by blast
      have i5: "icattx (coord w5) = None"
        using keepi i4 by simp
      have faRd: "Inr usages = BatchCurrentDataUsage env icatdb start end' (trace w @ B)"
        using usages tr1 by simp
      have faR: "answered env (trace w @ B @ [EvBatchCurrentDataUsage icatdb start end' (Inr usages)]) R"
        using rollback_answered [OF r(1) r(2)] tr1 by (simp add: w2_def)
      have faA: "answered env
          (trace w @ B @ [EvBatchCurrentDataUsage icatdb start end' (Inr usages)] @ R @ [batch_log]) A"
        using DETx_answered [of env w4] d tr5 tr4 by (simp add: new_events_def)
      define pre5 where "pre5 =
          B @ [EvBatchCurrentDataUsage icatdb start end' (Inr usages)] @ R @ [batch_log] @ A"
      have fa5: "answered env (trace w) pre5"
        unfolding pre5_def using faB faRd faR faA by (simp add: answered_append batch_log_def)
      have tr5': "trace w5 = trace w @ pre5"
        using tr4 tr5 by (simp add: pre5_def)
      have fb5: "fields_bound (coord w) \<longrightarrow> fields_bound (coord w5)"
        using fb1 r(4) DETx_fields_bound [of w4 env] d
        by (simp add: w4_def w2_def fields_bound_clear_ICAT)
      note start2 = start usages r(1) fl d
      show thesis
      proof (cases r5)
        case (Inl e)
        from run_deferred_ICAT [of env icatdb
            "(None :: user_data_usage list option,
              Some (Wrap e ''Error creating DE database transaction''))" w5]
        obtain w' D1 where c:
          "run_deferred env [Rb ICAT icatdb]
             ((None :: user_data_usage list option,
               Some (Wrap e ''Error creating DE database transaction'')), w5) =
           Some ((None, Some (Wrap e ''Error creating DE database transaction'')), w')"
          "trace w' = trace w5 @ D1" "rb_seg ICAT icatdb D1"
          "coord_ok (coord w5) \<longrightarrow> coord_ok (coord w')"
          "one_open w5 \<longrightarrow> (icattx (coord w5) = None \<or> icattx (coord w5) = Some icatdb) \<longrightarrow>
             one_open w'"
          "answered env (trace w5) D1" "fields_bound (coord w5) \<longrightarrow> fields_bound (coord w')"
          by blast
        have "UpdateUserDataUsageBatch env start end' w =
                run_deferred env [Rb ICAT icatdb]
                  ((None :: user_data_usage list option,
                    Some (Wrap e ''Error creating DE database transaction'')), w5)"
          using start2 Inl
          by (simp add: UpdateUserDataUsageBatch_def Let_def w2_def w4_def)
        then have op: "UpdateUserDataUsageBatch env start end' w =
            Some ((None, Some (Wrap e ''Error creating DE database transaction'')), w')"
          by (simp only: c(1))
        have ne: "new_events w w' =
            B @ [EvBatchCurrentDataUsage icatdb start end' (Inr usages)] @ R @ [batch_log] @ A @ D1"
          using tr4 tr5 c(2) by (simp add: new_events_def)
        have ok': "coord_ok (coord w')"
          using c(4) ok5 by simp
        have oo': "one_open w \<longrightarrow> one_open w'"
          using c(5) oo5 i5 by simp
        have pre: "trace w' = trace w @ new_events w w'"
          using tr4 tr5 c(2) by (simp add: new_events_def)
        have "answered env (trace w) (pre5 @ D1)"
          by (rule answered_appendI [OF fa5]) (use c(6) tr5' in simp)
        then have fa: "answered env (trace w) (new_events w w')"
          by (simp add: ne pre5_def)
        have fb: "fields_bound (coord w) \<longrightarrow> fields_bound (coord w')"
          using c(7) fb5 by simp
        show thesis
          by (rule de_fail [OF op ne segB r(3) segA c(3) ok' oo' pre fa f tB fb])
      next
        case (Inr dedb)
        with r5 have h5: "detx (coord w5) = Some dedb" and rbd: "DERollback (coord w5) = Rb DE dedb"
          and cmd: "DECommit (coord w5) = Cm DE dedb"
          by simp_all
        have deferred: "\<exists>w' D2 D1. run_deferred env [Rb DE dedb, Rb ICAT icatdb] (rv, wx) = Some (rv, w') \<and>
            trace w' = trace wx @ D2 @ D1 \<and> rb_seg DE dedb D2 \<and> rb_seg ICAT icatdb D1 \<and>
            coord_ok (coord w') \<and> (one_open w \<longrightarrow> one_open w') \<and>
            answered env (trace wx) (D2 @ D1) \<and>
            (fields_bound (coord w) \<longrightarrow> fields_bound (coord w'))"
          if "one_open w \<longrightarrow> one_open wx" "detx (coord wx) = None \<or> detx (coord wx) = Some dedb"
            "icattx (coord wx) = None"
          for rv :: "user_data_usage list option \<times> err option" and wx
        proof -
          from run_deferred_DE_ICAT [of env dedb icatdb rv wx] obtain w' D2 D1 where x:
            "run_deferred env [Rb DE dedb, Rb ICAT icatdb] (rv, wx) = Some (rv, w')"
            "trace w' = trace wx @ D2 @ D1" "rb_seg DE dedb D2" "rb_seg ICAT icatdb D1"
            "detx (coord w') = None" "icattx (coord w') = None"
            "one_open wx \<longrightarrow> (detx (coord wx) = None \<or> detx (coord wx) = Some dedb) \<longrightarrow>
             (icattx (coord wx) = None \<or> icattx (coord wx) = Some icatdb) \<longrightarrow> one_open w'"
            "answered env (trace wx) (D2 @ D1)" "fields_bound (coord w')"
            by blast
          have "coord_ok (coord w')"
            using x(5,6) by (rule coord_ok_cleared)
          moreover have "one_open w \<longrightarrow> one_open w'"
            using x(7) that by blast
          ultimately show ?thesis
            using x(1-4) x(8,9) by blast
        qed
        define r6 where "r6 = (if us \<noteq> [] then EnsureUsers env dedb us (trace w5) else None)"
        define w6 where "w6 = (if us \<noteq> [] then emit (EvEnsureUsers dedb us r6) w5
                               else emit (EvLog TraceLevel ''No users to be ensured in the batch'') w5)"
        have ens: "(if length us > 0
                    then (let r = EnsureUsers env dedb us (trace w5)
                          in (r, emit (EvEnsureUsers dedb us r) w5))
                    else (None, emit (EvLog TraceLevel
                            ''No users to be ensured in the batch'') w5)) = (r6, w6)"
          by (simp add: r6_def w6_def Let_def)
        have tr6: "trace w6 = trace w5 @ ensure_events dedb us r6"
          by (simp add: w6_def ensure_events_def)
        have co6: "coord w6 = coord w5"
          by (simp add: w6_def)
        have oo6: "one_open w \<longrightarrow> one_open w6"
          using oo5 by (simp add: w6_def one_open_emit)
        define pre6 where "pre6 = pre5 @ ensure_events dedb us r6"
        have e6: "answered env (trace w5) (ensure_events dedb us r6)"
          by (simp add: ensure_events_def r6_def)
        have fa6: "answered env (trace w) pre6"
          unfolding pre6_def by (rule answered_appendI [OF fa5]) (use e6 tr5' in simp)
        have tr6': "trace w6 = trace w @ pre6"
          using tr5' tr6 by (simp add: pre6_def)
        have body: "UpdateUserDataUsageBatch env start end' w =
            (case (r6, w6) of
               (Some err, w6) \<Rightarrow>
                 run_deferred env [Rb DE dedb, Rb ICAT icatdb]
                   ((None, Some (Wrap err ''Error ensuring users exist'')), w6)
             | (None, w6) \<Rightarrow>
                 (case call_commit env (DECommit (coord w6)) w6 of
                    None \<Rightarrow> None
                  | Some (Some err, w7) \<Rightarrow>
                      (let e = Wrap err ''Error committing DE transaction''
                       in run_deferred env [Rb DE dedb, Rb ICAT icatdb]
                            ((None, Some e), emit (EvLog ErrorLevel (Error e)) w7))
                  | Some (None, w7) \<Rightarrow>
                      (let p = AddUserUpdatesBatch env m (trace w7);
                           w8 = emit (EvAddUserUpdatesBatch m p) w7
                       in case p of
                            Inl err \<Rightarrow>
                              run_deferred env [Rb DE dedb, Rb ICAT icatdb]
                                ((None, Some (Wrap err ''Error inserting new usage'')), w8)
                          | Inr res \<Rightarrow>
                              run_deferred env [Rb DE dedb, Rb ICAT icatdb]
                                ((Some res, None), w8))))"
          unfolding UpdateUserDataUsageBatch_def
          apply (simp only: i \<open>r1 = Inr icatdb\<close> prod.case sum.case Let_def rb1 usages)
          apply (simp only: w2_def [symmetric])
          apply (simp only: coord_emit [of _ w1, folded w2_def] w2_def coord_emit rb1)
          apply (simp only: w2_def [symmetric] r(1) option.case fl prod.case w4_def [symmetric] d
              \<open>r5 = Inr dedb\<close> sum.case rbd ens [unfolded Let_def])
          done
        show thesis
        proof (cases r6)
          case (Some e)
          then have ne0: "us \<noteq> []"
            by (auto simp: r6_def split: if_splits)
          have df: "one_open w \<longrightarrow> one_open w6"
            "detx (coord w6) = None \<or> detx (coord w6) = Some dedb" "icattx (coord w6) = None"
            using oo6 co6 h5 i5 by simp_all
          from deferred [OF df, of "(None, Some (Wrap e ''Error ensuring users exist''))"]
          obtain w' D2 D1 where c:
            "run_deferred env [Rb DE dedb, Rb ICAT icatdb]
               ((None :: user_data_usage list option,
                 Some (Wrap e ''Error ensuring users exist'')), w6) =
             Some ((None, Some (Wrap e ''Error ensuring users exist'')), w')"
            "trace w' = trace w6 @ D2 @ D1" "rb_seg DE dedb D2" "rb_seg ICAT icatdb D1"
            "coord_ok (coord w')" "one_open w \<longrightarrow> one_open w'"
            "answered env (trace w6) (D2 @ D1)"
            "fields_bound (coord w) \<longrightarrow> fields_bound (coord w')"
            by blast
          have op: "UpdateUserDataUsageBatch env start end' w =
              Some ((None, Some (Wrap e ''Error ensuring users exist'')), w')"
            using c(1) Some by (simp add: body)
          have ne: "new_events w w' =
              B @ [EvBatchCurrentDataUsage icatdb start end' (Inr usages)] @ R @ [batch_log] @ A @
              [EvEnsureUsers dedb us (Some e)] @ D2 @ D1"
            using tr4 tr5 tr6 c(2) Some ne0 by (simp add: new_events_def ensure_events_def)
          have pre: "trace w' = trace w @ new_events w w'"
            using tr4 tr5 tr6 c(2) by (simp add: new_events_def)
          have ee: "ensure_events dedb us r6 = [EvEnsureUsers dedb us (Some e)]"
            using Some ne0 by (simp add: ensure_events_def)
          have "answered env (trace w) (pre6 @ D2 @ D1)"
            by (rule answered_appendI [OF fa6]) (use c(7) tr6' in simp)
          then have fa: "answered env (trace w) (new_events w w')"
            by (simp add: ne pre6_def pre5_def ee)
          show thesis
            by (rule ensure_fail [OF op fl ne0 ne segB r(3) segA c(3-6) pre fa f tB c(8)])
        next
          case None
          from commit_DE_exact [of env dedb w6] obtain w7 where cm:
            "call_commit env (Cm DE dedb) w6 =
               Some (map_option (\<lambda>e. Wrap e ''Error committing DE database transaction'')
                       (Commit env DE dedb (trace w6)), w7)"
            "trace w7 = trace w6 @ EvCommit DE dedb (Commit env DE dedb (trace w6)) #
               (case Commit env DE dedb (trace w6) of
                  None \<Rightarrow> []
                | Some e \<Rightarrow> [EvLog ErrorLevel
                               (Error (Wrap e ''Error committing DE database transaction''))])"
            "coord w7 = (coord w6)\<lparr>detx := None, DERollback := RbNoop, DECommit := CmNoop\<rparr>"
            by blast
          have oo7: "one_open w \<longrightarrow> one_open w7"
            using oo6 commit_one_open [OF cm(1)] co6 h5 by simp
          have cm6: "DECommit (coord w6) = Cm DE dedb"
            using co6 cmd by simp
          have h7: "detx (coord w7) = None" "icattx (coord w7) = None"
            using cm(3) co6 i5 by simp_all
          show thesis
          proof (cases "Commit env DE dedb (trace w6)")
            case fail: (Some e0)
            define e where "e = Wrap (Wrap e0 ''Error committing DE database transaction'')
                                  ''Error committing DE transaction''"
            define w8 where "w8 = emit (EvLog ErrorLevel (Error e)) w7"
            have df: "one_open w \<longrightarrow> one_open w8"
              "detx (coord w8) = None \<or> detx (coord w8) = Some dedb" "icattx (coord w8) = None"
              using oo7 h7 by (simp_all add: w8_def one_open_emit)
            from deferred [OF df, of "(None, Some e)"]
            obtain w' D2 D1 where c:
              "run_deferred env [Rb DE dedb, Rb ICAT icatdb]
                 ((None :: user_data_usage list option, Some e), w8) =
                 Some ((None, Some e), w')"
              "trace w' = trace w8 @ D2 @ D1" "rb_seg DE dedb D2" "rb_seg ICAT icatdb D1"
              "coord_ok (coord w')" "one_open w \<longrightarrow> one_open w'"
              "answered env (trace w8) (D2 @ D1)"
              "fields_bound (coord w) \<longrightarrow> fields_bound (coord w')"
              by blast
            have op: "UpdateUserDataUsageBatch env start end' w = Some ((None, Some e), w')"
              using c(1) None cm(1) cm6 fail by (simp add: body e_def w8_def)
            have ne: "new_events w w' =
                B @ [EvBatchCurrentDataUsage icatdb start end' (Inr usages)] @ R @ [batch_log] @ A @
                ensure_events dedb us None @
                [EvCommit DE dedb (Some e0),
                 EvLog ErrorLevel (Error (Wrap e0 ''Error committing DE database transaction'')),
                 EvLog ErrorLevel (Error e)] @ D2 @ D1"
              using tr4 tr5 tr6 cm(2) c(2) None fail by (simp add: new_events_def w8_def)
            have pre: "trace w' = trace w @ new_events w w'"
              using tr4 tr5 tr6 cm(2) c(2) by (simp add: new_events_def w8_def)
            define C where "C =
                [EvCommit DE dedb (Some e0),
                 EvLog ErrorLevel (Error (Wrap e0 ''Error committing DE database transaction'')),
                 EvLog ErrorLevel (Error e)]"
            have tr8: "trace w8 = trace w6 @ C"
              using cm(2) fail by (simp add: w8_def C_def)
            have fc: "answered env (trace w6) C"
              using fail by (simp add: C_def)
            have "answered env (trace w) ((pre6 @ C) @ D2 @ D1)"
              by (rule answered_appendI [OF answered_appendI [OF fa6]])
                (use fc c(7) tr6' tr8 in simp_all)
            then have fa: "answered env (trace w) (new_events w w')"
              using None by (simp add: ne pre6_def pre5_def C_def)
            show thesis
              by (rule commit_fail [OF op [unfolded e_def] fl ne [unfolded e_def] segB r(3) segA
                    c(3-6) pre fa f tB c(8)])
          next
            case committed: None
            define p where "p = AddUserUpdatesBatch env m (trace w7)"
            define w8 where "w8 = emit (EvAddUserUpdatesBatch m p) w7"
            define rv where "rv = (case p of
                  Inl e \<Rightarrow> (None, Some (Wrap e ''Error inserting new usage''))
                | Inr res \<Rightarrow> (Some res, None))"
            have df: "one_open w \<longrightarrow> one_open w8"
              "detx (coord w8) = None \<or> detx (coord w8) = Some dedb" "icattx (coord w8) = None"
              using oo7 h7 by (simp_all add: w8_def one_open_emit)
            from deferred [OF df, of rv]
            obtain w' D2 D1 where c:
              "run_deferred env [Rb DE dedb, Rb ICAT icatdb] (rv, w8) = Some (rv, w')"
              "trace w' = trace w8 @ D2 @ D1" "rb_seg DE dedb D2" "rb_seg ICAT icatdb D1"
              "coord_ok (coord w')" "one_open w \<longrightarrow> one_open w'"
              "answered env (trace w8) (D2 @ D1)"
              "fields_bound (coord w) \<longrightarrow> fields_bound (coord w')"
              by blast
            have rest: "(case p of
                  Inl err \<Rightarrow>
                    run_deferred env [Rb DE dedb, Rb ICAT icatdb]
                      ((None, Some (Wrap err ''Error inserting new usage'')), w8)
                | Inr res \<Rightarrow>
                    run_deferred env [Rb DE dedb, Rb ICAT icatdb] ((Some res, None), w8)) =
                Some (rv, w')"
              using c(1) by (cases p) (simp_all add: rv_def)
            have op: "UpdateUserDataUsageBatch env start end' w = Some (rv, w')"
              unfolding body
              apply (simp only: None prod.case option.case cm6 cm(1) committed map_option_case
                  Let_def)
              apply (simp only: p_def [symmetric] w8_def [symmetric] rest)
              done
            have ne: "new_events w w' =
                B @ [EvBatchCurrentDataUsage icatdb start end' (Inr usages)] @ R @ [batch_log] @ A @
                ensure_events dedb us None @
                [EvCommit DE dedb None, EvAddUserUpdatesBatch m p] @ D2 @ D1"
              using tr4 tr5 tr6 cm(2) c(2) None committed by (simp add: new_events_def w8_def)
            have pre: "trace w' = trace w @ new_events w w'"
              using tr4 tr5 tr6 cm(2) c(2) by (simp add: new_events_def w8_def)
            have tr7: "trace w7 = trace w6 @ [EvCommit DE dedb None]"
              using cm(2) committed by simp
            define C where "C = [EvCommit DE dedb None, EvAddUserUpdatesBatch m p]"
            have tr8: "trace w8 = trace w6 @ C"
              using tr7 by (simp add: w8_def C_def)
            have fc: "answered env (trace w6) C"
              using committed by (simp add: C_def p_def tr7)
            have "answered env (trace w) ((pre6 @ C) @ D2 @ D1)"
              by (rule answered_appendI [OF answered_appendI [OF fa6]])
                (use fc c(7) tr6' tr8 in simp_all)
            then have fa: "answered env (trace w) (new_events w w')"
              using None by (simp add: ne pre6_def pre5_def C_def)
            show thesis
              by (rule published [OF op [unfolded rv_def] fl ne segB r(3) segA c(3-6)
                    pre fa f tB c(8)])
          qed
        qed
      qed
    qed
  qed
qed

lemma is_begin_not_commit: "is_begin b e \<Longrightarrow> \<not> is_commit e"
  by (cases e) simp_all

lemma is_errlog_not_commit: "is_errlog e \<Longrightarrow> \<not> is_commit e"
  by (cases e) simp_all

lemma list_all_memD: "list_all P xs \<Longrightarrow> x \<in> set xs \<Longrightarrow> P x"
  by (simp add: list_all_iff)

lemma begin_no_commit: "list_all (is_begin b) A \<Longrightarrow> list_all (\<lambda>e. \<not> is_commit e) A"
  by (induction A) (auto dest: is_begin_not_commit)

lemma errlog_no_commit: "list_all is_errlog A \<Longrightarrow> list_all (\<lambda>e. \<not> is_commit e) A"
  by (induction A) (auto dest: is_errlog_not_commit)

lemma open_seg_kinds:
  "open_seg b A \<Longrightarrow> EvUpdateUsageForUser u v p \<notin> set A"
  "open_seg b A \<Longrightarrow> EvUserCurrentDataUsage t u x \<notin> set A"
  "open_seg b A \<Longrightarrow> EvGetUserInfo t u y \<notin> set A"
  "open_seg b A \<Longrightarrow> list_all (\<lambda>e. \<not> is_commit e) A"
  by (auto simp: open_seg_def dest: list_all_memD begin_no_commit)

lemma errlog_kinds:
  "list_all is_errlog A \<Longrightarrow> EvUpdateUsageForUser u v p \<notin> set A"
  "list_all is_errlog A \<Longrightarrow> EvUserCurrentDataUsage t' u x \<notin> set A"
  "list_all is_errlog A \<Longrightarrow> EvGetUserInfo t' u y \<notin> set A"
  "list_all is_errlog A \<Longrightarrow> list_all (\<lambda>e. \<not> is_commit e) A"
  by (auto dest: list_all_memD errlog_no_commit)

lemma rb_seg_kinds:
  "rb_seg b t A \<Longrightarrow> EvUpdateUsageForUser u v p \<notin> set A"
  "rb_seg b t A \<Longrightarrow> EvUserCurrentDataUsage t' u x \<notin> set A"
  "rb_seg b t A \<Longrightarrow> EvGetUserInfo t' u y \<notin> set A"
  "rb_seg b t A \<Longrightarrow> list_all (\<lambda>e. \<not> is_commit e) A"
  by (auto simp: rb_seg_def dest: list_all_memD errlog_no_commit)

lemmas kinds = open_seg_kinds errlog_kinds rb_seg_kinds

lemma returnsI:
  "f = Some (r, w') \<Longrightarrow> P r w' \<Longrightarrow> \<exists>r w'. f = Some (r, w') \<and> P r w'"
  by blast

lemma before_skip: "list_all (\<lambda>e. \<not> Q e) xs \<Longrightarrow> before P Q ys \<Longrightarrow> before P Q (xs @ ys)"
  by (induction xs) auto

lemma before_none: "list_all (\<lambda>e. \<not> Q e) xs \<Longrightarrow> before P Q xs"
  by (induction xs) auto

lemma before_open_seg: "open_seg b B \<Longrightarrow> before (is_tx_call b) Q (B @ ys)"
  by (auto simp: open_seg_def)

lemma open_seg_free:
  assumes "open_seg b A"
  shows "list_all (\<lambda>e. \<not> is_get_user_info e) A" "list_all (\<lambda>e. \<not> is_usage_read e) A"
    "list_all (\<lambda>e. \<not> is_publish e) A" "list_all (\<lambda>e. \<not> is_commit e) A"
    "b' \<noteq> b \<Longrightarrow> list_all (\<lambda>e. \<not> is_tx_call b' e) A"
proof -
  have k: "\<not> is_get_user_info e \<and> \<not> is_usage_read e \<and> \<not> is_publish e \<and> \<not> is_commit e \<and>
           (b' \<noteq> b \<longrightarrow> \<not> is_tx_call b' e)" if "e \<in> set A" for e
  proof -
    from that assms have "e = EvLogStats b \<or> is_begin b e"
      by (auto simp: open_seg_def dest: list_all_memD)
    then show ?thesis
      by (cases e) auto
  qed
  show "list_all (\<lambda>e. \<not> is_get_user_info e) A" "list_all (\<lambda>e. \<not> is_usage_read e) A"
    "list_all (\<lambda>e. \<not> is_publish e) A" "list_all (\<lambda>e. \<not> is_commit e) A"
    "b' \<noteq> b \<Longrightarrow> list_all (\<lambda>e. \<not> is_tx_call b' e) A"
    using k by (simp_all add: list_all_iff)
qed

lemma errlog_free:
  assumes "list_all is_errlog A"
  shows "list_all (\<lambda>e. \<not> is_get_user_info e) A" "list_all (\<lambda>e. \<not> is_usage_read e) A"
    "list_all (\<lambda>e. \<not> is_publish e) A" "list_all (\<lambda>e. \<not> is_commit e) A"
    "list_all (\<lambda>e. \<not> is_tx_call b' e) A" "list_all (\<lambda>e. \<not> is_metadata_write e) A"
proof -
  have k: "\<not> is_get_user_info e \<and> \<not> is_usage_read e \<and> \<not> is_publish e \<and> \<not> is_commit e \<and>
           \<not> is_tx_call b' e \<and> \<not> is_metadata_write e" if "e \<in> set A" for e
  proof -
    from that assms have "is_errlog e"
      by (auto dest: list_all_memD)
    then show ?thesis
      by (cases e) auto
  qed
  show "list_all (\<lambda>e. \<not> is_get_user_info e) A" "list_all (\<lambda>e. \<not> is_usage_read e) A"
    "list_all (\<lambda>e. \<not> is_publish e) A" "list_all (\<lambda>e. \<not> is_commit e) A"
    "list_all (\<lambda>e. \<not> is_tx_call b' e) A" "list_all (\<lambda>e. \<not> is_metadata_write e) A"
    using k by (simp_all add: list_all_iff)
qed

lemma rb_seg_free:
  assumes "rb_seg b t A"
  shows "list_all (\<lambda>e. \<not> is_get_user_info e) A" "list_all (\<lambda>e. \<not> is_usage_read e) A"
    "list_all (\<lambda>e. \<not> is_publish e) A" "list_all (\<lambda>e. \<not> is_commit e) A"
    "list_all (\<lambda>e. \<not> is_tx_call b' e) A" "list_all (\<lambda>e. \<not> is_metadata_write e) A"
proof -
  have k: "\<not> is_get_user_info e \<and> \<not> is_usage_read e \<and> \<not> is_publish e \<and> \<not> is_commit e \<and>
           \<not> is_tx_call b' e \<and> \<not> is_metadata_write e" if "e \<in> set A" for e
  proof -
    from that assms have "is_rollback_of b e \<or> is_errlog e"
      by (auto simp: rb_seg_def dest: list_all_memD)
    then show ?thesis
      by (cases e) auto
  qed
  show "list_all (\<lambda>e. \<not> is_get_user_info e) A" "list_all (\<lambda>e. \<not> is_usage_read e) A"
    "list_all (\<lambda>e. \<not> is_publish e) A" "list_all (\<lambda>e. \<not> is_commit e) A"
    "list_all (\<lambda>e. \<not> is_tx_call b' e) A" "list_all (\<lambda>e. \<not> is_metadata_write e) A"
    using k by (simp_all add: list_all_iff)
qed

lemma rb_seg_mem: "rb_seg b t D \<Longrightarrow> \<exists>x. EvRollback b t x \<in> set D"
  by (auto simp: rb_seg_def)

lemmas seg_free = open_seg_free errlog_free rb_seg_free

lemma answered_mid: "answered env tr (xs @ e # ys) \<Longrightarrow> answer_ok env (tr @ xs) e"
  by (simp add: answered_append)

lemma DETx_keeps_icat: "icattx (coord (snd (DETx env w))) = icattx (coord w)"
  by (simp add: DETx_def emit_def Let_def split: option.split)

lemma opened_fresh_ICAT:
  assumes "icattx (coord w1) = None" and "fst (ICATTx env w1) = Inr t"
    and "trace (snd (ICATTx env w1)) = trace w1 @ B"
  shows "B = [EvLogStats ICAT, EvBeginTxx ICAT None]" and "t = Suc (length (trace w1))"
proof -
  from ICATTx_fresh(2) [OF assms(1), of env] assms(2)
  have b: "BeginTxx env ICAT (trace w1 @ [EvLogStats ICAT]) = None" and t: "t = Suc (length (trace w1))"
    by (auto split: option.splits)
  from ICATTx_fresh(1) [OF assms(1), of env] assms(3) b
  show "B = [EvLogStats ICAT, EvBeginTxx ICAT None]"
    by (simp add: new_events_def)
  from t show "t = Suc (length (trace w1))" .
qed

lemma single_opened_ICAT:
  assumes "icattx (coord w) = None"
    and "fst (ICATTx env (snd (DETx env w))) = Inr t"
    and "trace (snd (DETx env w)) = trace w @ A"
    and "trace (snd (ICATTx env (snd (DETx env w)))) = trace w @ A @ B"
  shows "B = [EvLogStats ICAT, EvBeginTxx ICAT None]" and "t = Suc (length (trace w) + length A)"
proof -
  have 1: "icattx (coord (snd (DETx env w))) = None"
    using assms(1) by (simp add: DETx_keeps_icat)
  have 3: "trace (snd (ICATTx env (snd (DETx env w)))) = trace (snd (DETx env w)) @ B"
    using assms(3,4) by simp
  from opened_fresh_ICAT [OF 1 assms(2) 3] assms(3)
  show "B = [EvLogStats ICAT, EvBeginTxx ICAT None]" and "t = Suc (length (trace w) + length A)"
    by simp_all
qed

lemma nth_begin:
  "tr' = tr @ A @ [EvLogStats ICAT, EvBeginTxx ICAT None] @ rest \<Longrightarrow>
   t = Suc (length tr + length A) \<Longrightarrow>
   length tr \<le> t \<and> t < length tr' \<and> tr' ! t = EvBeginTxx ICAT None"
  by (simp add: nth_append)

lemma before_rb_on_seg: "rb_seg b t R \<Longrightarrow> before (is_rollback_on b t) Q (R @ ys)"
  by (auto simp: rb_seg_def)

lemma all_notin:
  "list_all (\<lambda>e. \<not> is_commit e) A \<Longrightarrow> EvCommit b t r \<notin> set A"
  "list_all (\<lambda>e. \<not> is_batch_call e) A \<Longrightarrow> EvBatchCurrentDataUsage t s e r' \<notin> set A"
  "list_all (\<lambda>e. \<not> is_batch_call e) A \<Longrightarrow> EvEnsureUsers t us r \<notin> set A"
  "list_all (\<lambda>e. \<not> is_batch_call e) A \<Longrightarrow> EvAddUserUpdatesBatch m p \<notin> set A"
  by (auto dest: list_all_memD)

lemma seg_no_batch_call:
  "open_seg b A \<Longrightarrow> list_all (\<lambda>e. \<not> is_batch_call e) A"
  "rb_seg b t R \<Longrightarrow> list_all (\<lambda>e. \<not> is_batch_call e) R"
  "list_all is_errlog L \<Longrightarrow> list_all (\<lambda>e. \<not> is_batch_call e) L"
proof -
  have 1: "\<not> is_batch_call e" if "e = EvLogStats b \<or> is_begin b e" for e
    using that by (cases e) auto
  have 2: "\<not> is_batch_call e" if "is_rollback_of b e \<or> is_errlog e" for e
    using that by (cases e) auto
  show "open_seg b A \<Longrightarrow> list_all (\<lambda>e. \<not> is_batch_call e) A"
    using 1 by (auto simp: open_seg_def list_all_iff)
  show "rb_seg b t R \<Longrightarrow> list_all (\<lambda>e. \<not> is_batch_call e) R"
    using 2 by (auto simp: rb_seg_def list_all_iff)
  show "list_all is_errlog L \<Longrightarrow> list_all (\<lambda>e. \<not> is_batch_call e) L"
    using 2 by (auto simp: list_all_iff)
qed

lemma after_publish_append:
  "list_all (\<lambda>e. \<not> is_publish e) xs \<Longrightarrow> is_publish y \<Longrightarrow> after_publish (xs @ y # ys) = ys"
  by (induction xs) (auto simp: after_publish_def)

lemma ensure_events_kinds [simp]:
  "list_all (\<lambda>e. \<not> is_publish e) (ensure_events dedb us r)"
  "list_all (\<lambda>e. \<not> is_commit e) (ensure_events dedb us r)"
  "EvAddUserUpdatesBatch m p \<notin> set (ensure_events dedb us r)"
  "EvBatchCurrentDataUsage t s e r' \<notin> set (ensure_events dedb us r)"
  "EvCommit b t r'' \<notin> set (ensure_events dedb us r)"
  by (simp_all add: ensure_events_def)

lemma batch_log_kinds [simp]:
  "\<not> is_publish batch_log" "\<not> is_commit batch_log" "\<not> is_batch_call batch_log"
  "batch_log \<noteq> EvCommit b t r" "batch_log \<noteq> EvAddUserUpdatesBatch m p"
  "batch_log \<noteq> EvBatchCurrentDataUsage t s e r'" "batch_log \<noteq> EvEnsureUsers t us r"
  "EvCommit b t r \<noteq> batch_log" "EvAddUserUpdatesBatch m p \<noteq> batch_log"
  "EvBatchCurrentDataUsage t s e r' \<noteq> batch_log" "EvEnsureUsers t us r \<noteq> batch_log"
  by (simp_all add: batch_log_def)

lemmas batch_free = seg_free seg_no_batch_call all_notin


section \<open>The invariant of the reachable states\<close>

lemma rollback_coord:
  "call_rollback env (Rb DE t) w = Some w' \<Longrightarrow>
   coord w' = (coord w)\<lparr>detx := None, DERollback := RbNoop, DECommit := CmNoop\<rparr>"
  "call_rollback env (Rb ICAT t) w = Some w' \<Longrightarrow>
   coord w' = (coord w)\<lparr>icattx := None, ICATRollback := RbNoop, ICATCommit := CmNoop\<rparr>"
  by (auto simp: call_rollback.simps emit_def Let_def split: option.splits if_splits)

lemma commit_coord:
  "call_commit env (Cm DE t) w = Some (r, w') \<Longrightarrow>
   coord w' = (coord w)\<lparr>detx := None, DERollback := RbNoop, DECommit := CmNoop\<rparr>"
  "call_commit env (Cm ICAT t) w = Some (r, w') \<Longrightarrow>
   coord w' = (coord w)\<lparr>icattx := None, ICATRollback := RbNoop, ICATCommit := CmNoop\<rparr>"
  by (auto simp: call_commit.simps emit_def Let_def split: option.splits)

lemma closure_rollback_inv:
  assumes "fields_bound (coord w)" and "one_open w"
    and "call_rollback env (Rb b t) w = Some w'"
    and "handle b (coord w) = None \<or> handle b (coord w) = Some t"
  shows "fields_bound (coord w') \<and> one_open w'"
proof -
  have oo: "one_open w'"
    using rollback_one_open [OF assms(3,2,4)] .
  have "fields_bound (coord w')"
    using rollback_coord [of env t w w'] assms(1,3)
    by (cases b) (simp_all add: fields_bound_clear_DE fields_bound_clear_ICAT)
  with oo show ?thesis
    by simp
qed

lemma closure_commit_inv:
  assumes "fields_bound (coord w)" and "one_open w"
    and "call_commit env (Cm b t) w = Some (r, w')"
    and "handle b (coord w) = None \<or> handle b (coord w) = Some t"
  shows "fields_bound (coord w') \<and> one_open w'"
proof -
  have oo: "one_open w'"
    using commit_one_open [OF assms(3,2,4)] .
  have "fields_bound (coord w')"
    using commit_coord [of env t w r w'] assms(1,3)
    by (cases b) (simp_all add: fields_bound_clear_DE fields_bound_clear_ICAT)
  with oo show ?thesis
    by simp
qed

lemma field_rollback_inv:
  assumes "fields_bound (coord w)" and "one_open w"
    and "call_rollback env rb w = Some w'"
    and "(b = DE \<and> rb = DERollback (coord w)) \<or> (b = ICAT \<and> rb = ICATRollback (coord w))"
  shows "fields_bound (coord w') \<and> one_open w'"
proof (cases rb)
  case RbNil
  with assms(3) show ?thesis
    by (simp add: call_rollback.simps)
next
  case RbNoop
  with assms(1-3) show ?thesis
    by (simp add: call_rollback.simps)
next
  case (Rb b' t)
  with assms(1,4) have h: "b' = b" "handle b (coord w) = Some t"
    by (auto simp: fields_bound_def split: option.splits)
  show ?thesis
    using closure_rollback_inv [of w env b t w'] assms(1-3) Rb h by simp
qed

lemma field_commit_inv:
  assumes "fields_bound (coord w)" and "one_open w"
    and "call_commit env cm w = Some (r, w')"
    and "(b = DE \<and> cm = DECommit (coord w)) \<or> (b = ICAT \<and> cm = ICATCommit (coord w))"
  shows "fields_bound (coord w') \<and> one_open w'"
proof (cases cm)
  case CmNil
  with assms(3) show ?thesis
    by (simp add: call_commit.simps)
next
  case CmNoop
  with assms(1-3) show ?thesis
    by (simp add: call_commit.simps)
next
  case (Cm b' t)
  with assms(1,4) have h: "b' = b" "handle b (coord w) = Some t"
    by (auto simp: fields_bound_def split: option.splits)
  show ?thesis
    using closure_commit_inv [of w env b t r w'] assms(1-3) Cm h by simp
qed

lemma single_inv:
  assumes "fields_bound (coord w)" and "one_open w"
    and "UpdateUserDataUsage env username w = Some (r, w')"
  shows "fields_bound (coord w') \<and> one_open w'"
proof -
  from assms(1) have "coord_ok (coord w)"
    by (rule fields_bound_ok)
  then show ?thesis
  proof (cases rule: single_paths [where env = env and username = username])
    case (de_fail e w'' A)
    from de_fail(1) assms(3) have "w' = w''"
      by simp
    with de_fail(6,10) assms(1,2) show ?thesis
      by simp
  next
    case (icat_fail dedb e w'' A B D1)
    from icat_fail(1) assms(3) have "w' = w''"
      by simp
    with icat_fail(10,15) assms(1,2) show ?thesis
      by simp
  next
    case (info_fail dedb icatdb e w'' A B D2 D1)
    from info_fail(1) assms(3) have "w' = w''"
      by simp
    with info_fail(12,17) assms(1,2) show ?thesis
      by simp
  next
    case (usage_fail dedb icatdb ui e w'' A B D2 D1)
    from usage_fail(1) assms(3) have "w' = w''"
      by simp
    with usage_fail(13,18) assms(1,2) show ?thesis
      by simp
  next
    case (published dedb icatdb ui u n I p P w'' A B R D2 D1)
    from published(1) assms(3) have "w' = w''"
      by simp
    with published(15,20) assms(1,2) show ?thesis
      by simp
  qed
qed

lemma batch_inv:
  assumes "fields_bound (coord w)" and "one_open w"
    and "UpdateUserDataUsageBatch env start end' w = Some (r, w')"
  shows "fields_bound (coord w') \<and> one_open w'"
proof -
  from assms(1) have "coord_ok (coord w)"
    by (rule fields_bound_ok)
  then show ?thesis
  proof (cases rule: batch_paths [where env = env and start = start and end' = end'])
    case (icat_fail e w'' B)
    from icat_fail(1) assms(3) have "w' = w''"
      by simp
    with icat_fail(5,10) assms(1,2) show ?thesis
      by simp
  next
    case (read_fail icatdb e w'' B D1)
    from read_fail(1) assms(3) have "w' = w''"
      by simp
    with read_fail(6,11) assms(1,2) show ?thesis
      by simp
  next
    case (de_fail icatdb usages e w'' B R A D1)
    from de_fail(1) assms(3) have "w' = w''"
      by simp
    with de_fail(8,13) assms(1,2) show ?thesis
      by simp
  next
    case (ensure_fail icatdb dedb usages us m e w'' B R A D2 D1)
    from ensure_fail(1) assms(3) have "w' = w''"
      by simp
    with ensure_fail(11,16) assms(1,2) show ?thesis
      by simp
  next
    case (commit_fail icatdb dedb usages us m e0 w'' B R A D2 D1)
    from commit_fail(1) assms(3) have "w' = w''"
      by simp
    with commit_fail(10,15) assms(1,2) show ?thesis
      by simp
  next
    case (published icatdb dedb usages us m p w'' B R A D2 D1)
    from published(1) assms(3) have "w' = w''"
      by simp
    with published(10,15) assms(1,2) show ?thesis
      by simp
  qed
qed

lemma reachable_inv: "w \<in> reachable env \<Longrightarrow> fields_bound (coord w) \<and> one_open w"
proof (induction rule: reachable.induct)
  case init
  show ?case
    by (simp add: fields_bound_def NewBoth_def one_open_def)
next
  case (detx w r w')
  then show ?case
    using DETx_fields_bound [of w env] DETx_one_open [of w env r w'] by simp
next
  case (icattx w r w')
  then show ?case
    using ICATTx_fields_bound [of w env] ICATTx_one_open [of w env r w'] by simp
next
  case (de_rollback w w')
  then show ?case
    using field_rollback_inv [of w env "DERollback (coord w)" w' DE] by simp
next
  case (de_commit w e w')
  then show ?case
    using field_commit_inv [of w env "DECommit (coord w)" e w' DE] by simp
next
  case (icat_rollback w w')
  then show ?case
    using field_rollback_inv [of w env "ICATRollback (coord w)" w' ICAT] by simp
next
  case (icat_commit w e w')
  then show ?case
    using field_commit_inv [of w env "ICATCommit (coord w)" e w' ICAT] by simp
next
  case (kept_rollback w t b w')
  then show ?case
    using closure_rollback_inv [of w env b t w'] by simp
next
  case (kept_commit w t b e w')
  then show ?case
    using closure_commit_inv [of w env b t e w'] by simp
next
  case (single w username res w')
  then show ?case
    using single_inv [of w env username res w'] by simp
next
  case (batch w start end' ress w')
  then show ?case
    using batch_inv [of w env start end' ress w'] by simp
qed

lemma one_open_unique:
  assumes "one_open w" and "open_tx (trace w) b t" and "open_tx (trace w) b t'"
  shows "handle b (coord w) = Some t" and "t = t'"
proof -
  have h: "handle b (coord w) = Some s" if "open_tx (trace w) b s" for s
    using assms(1) that by (cases b) (auto simp: one_open_iff)
  from h [OF assms(2)] show "handle b (coord w) = Some t" .
  from h [OF assms(2)] h [OF assms(3)] show "t = t'"
    by simp
qed

section \<open>The loop of the batch update\<close>







section \<open>Example runs\<close>

lemmas eval_defs = UpdateUserDataUsage_def UpdateUserDataUsageBatch_def DETx_def ICATTx_def
  example_env_def fresh_world_def NewBoth_def emit_def Let_def run_deferred.simps
  call_rollback.simps call_commit.simps finalized_def alreadyDoneErr_def new_events_def

lemma fresh_world_ok: "coord_ok (coord fresh_world)"
  by (simp add: fresh_world_def NewBoth_def coord_ok_def)

lemma example_publisher_no_rows:
  assumes "UpdateUserDataUsage
             (example_env (Inr bob_info) (Inl ErrNoRows) (Inl ErrNoRows) (Inr []) (Inr []))
             ''bob'' fresh_world = Some (r, w')"
  shows "new_events fresh_world w' =
     [EvLogStats DE, EvBeginTxx DE None, EvLogStats ICAT, EvBeginTxx ICAT None,
      EvGetUserInfo 1 ''bob'' (Inr bob_info), EvUserCurrentDataUsage 3 ''bob'' (Inl ErrNoRows),
      EvLog InfoLevel nousage_msg, EvRollback ICAT 3 None,
      EvLog DebugLevel ''username %s; usage value %d'',
      EvUpdateUsageForUser ''bob'' (Float64 0) (Inl ErrNoRows),
      EvLog ErrorLevel (Error (Wrap ErrNoRows nodata_msg)),
      EvRollback ICAT 3 (Some ErrTxDone), EvRollback DE 1 None]"
  using assms by (auto simp: eval_defs)

lemma example_no_rows:
  "UpdateUserDataUsage no_rows_env ''bob'' fresh_world =
     Some ((Some no_rows_result, None), \<lparr>coord = cleared, trace = no_rows_events\<rparr>)"
  by (simp add: eval_defs no_rows_env_def no_rows_events_def no_rows_result_def cleared_def
        bob_info_def bob_usage_def)

lemma new_events_fresh [simp]: "new_events fresh_world \<lparr>coord = c, trace = tr\<rparr> = tr"
  by (simp add: new_events_def fresh_world_def)

lemma example_no_rows_handles:
  "fst (DETx no_rows_env fresh_world) = Inr 1"
  "fst (ICATTx no_rows_env (snd (DETx no_rows_env fresh_world))) = Inr 3"
  by (simp_all add: eval_defs no_rows_env_def)

lemma example_publish_fail:
  "UpdateUserDataUsageBatch publish_fail_env ''a'' ''c'' fresh_world =
   Some ((None, Some (Wrap (Other ''nats: timeout'') ''Error inserting new usage'')),
         \<lparr>coord = cleared, trace = publish_fail_events\<rparr>)"
  by (simp add: eval_defs publish_fail_env_def publish_fail_events_def batch_env_def
        batch_events_def batch_log_def cleared_def FixUsername_spec_def)

lemma publish_fail_suffix:
  "after_publish publish_fail_events =
     [EvRollback DE 6 (Some ErrTxDone), EvRollback ICAT 1 (Some ErrTxDone)]"
  by (simp add: after_publish_def publish_fail_events_def batch_events_def batch_log_def)

section \<open>The closures\<close>

text \<open>
  Claim C5. The rollback closure created by \<open>DETx\<close> (and likewise the one created by
  \<open>ICATTx\<close>) returns no error and always returns: it calls \<open>Rollback\<close> on its
  transaction once, writes one line at error level exactly when the backend answers with
  an error whose message is not the one of a finished transaction, clears the handle of
  its backend and resets both closures of that backend to no-ops. A second call is safe:
  through the field it is the no-op closure, which does nothing, and through a reference
  kept from before (a deferred call) it behaves as the first call did and leaves the
  coordinator as it is.
\<close>

theorem C5_rollback_swallows_errors:
  "(\<exists>w1. call_rollback env (Rb DE t) w = Some w1 \<and>
      new_events w w1 =
        EvRollback DE t (Rollback env DE t (trace w)) #
        (case Rollback env DE t (trace w) of
           None \<Rightarrow> []
         | Some e \<Rightarrow>
             if Error e = alreadyDoneErr then []
             else [EvLog ErrorLevel
                     (Error (Wrap e ''Error rolling back DE database transaction''))]) \<and>
      detx (coord w1) = None \<and> DERollback (coord w1) = RbNoop \<and> DECommit (coord w1) = CmNoop \<and>
      call_rollback env (DERollback (coord w1)) w1 = Some w1 \<and>
      (\<exists>w2. call_rollback env (Rb DE t) w1 = Some w2 \<and> coord w2 = coord w1 \<and>
         new_events w1 w2 =
           EvRollback DE t (Rollback env DE t (trace w1)) #
           (case Rollback env DE t (trace w1) of
              None \<Rightarrow> []
            | Some e \<Rightarrow>
                if Error e = alreadyDoneErr then []
                else [EvLog ErrorLevel
                        (Error (Wrap e ''Error rolling back DE database transaction''))]))) \<and>
   (\<exists>w1. call_rollback env (Rb ICAT t) w = Some w1 \<and>
      new_events w w1 =
        EvRollback ICAT t (Rollback env ICAT t (trace w)) #
        (case Rollback env ICAT t (trace w) of
           None \<Rightarrow> []
         | Some e \<Rightarrow>
             if Error e = alreadyDoneErr then []
             else [EvLog ErrorLevel (Error (Wrap e ''Error rolling back ICAT transaction''))]) \<and>
      icattx (coord w1) = None \<and> ICATRollback (coord w1) = RbNoop \<and>
      ICATCommit (coord w1) = CmNoop \<and>
      call_rollback env (ICATRollback (coord w1)) w1 = Some w1 \<and>
      (\<exists>w2. call_rollback env (Rb ICAT t) w1 = Some w2 \<and> coord w2 = coord w1 \<and>
         new_events w1 w2 =
           EvRollback ICAT t (Rollback env ICAT t (trace w1)) #
           (case Rollback env ICAT t (trace w1) of
              None \<Rightarrow> []
            | Some e \<Rightarrow>
                if Error e = alreadyDoneErr then []
                else [EvLog ErrorLevel
                        (Error (Wrap e ''Error rolling back ICAT transaction''))])))"
proof -
  obtain w1 where 1: "call_rollback env (Rb DE t) w = Some w1"
    "new_events w w1 = rollback_events env DE t (trace w)"
    "coord w1 = (coord w)\<lparr>detx := None, DERollback := RbNoop, DECommit := CmNoop\<rparr>"
    using rollback_DE_exact by blast
  obtain w2 where 2: "call_rollback env (Rb DE t) w1 = Some w2"
    "new_events w1 w2 = rollback_events env DE t (trace w1)"
    "coord w2 = (coord w1)\<lparr>detx := None, DERollback := RbNoop, DECommit := CmNoop\<rparr>"
    using rollback_DE_exact by blast
  obtain v1 where 3: "call_rollback env (Rb ICAT t) w = Some v1"
    "new_events w v1 = rollback_events env ICAT t (trace w)"
    "coord v1 = (coord w)\<lparr>icattx := None, ICATRollback := RbNoop, ICATCommit := CmNoop\<rparr>"
    using rollback_ICAT_exact by blast
  obtain v2 where 4: "call_rollback env (Rb ICAT t) v1 = Some v2"
    "new_events v1 v2 = rollback_events env ICAT t (trace v1)"
    "coord v2 = (coord v1)\<lparr>icattx := None, ICATRollback := RbNoop, ICATCommit := CmNoop\<rparr>"
    using rollback_ICAT_exact by blast
  have de: "detx (coord w1) = None" "DERollback (coord w1) = RbNoop" "DECommit (coord w1) = CmNoop"
    "call_rollback env (DERollback (coord w1)) w1 = Some w1" "coord w2 = coord w1"
    using 1(3) 2(3) by (simp_all add: call_rollback.simps)
  have ic: "icattx (coord v1) = None" "ICATRollback (coord v1) = RbNoop"
    "ICATCommit (coord v1) = CmNoop"
    "call_rollback env (ICATRollback (coord v1)) v1 = Some v1" "coord v2 = coord v1"
    using 3(3) 4(3) by (simp_all add: call_rollback.simps)
  show ?thesis
    using 1(1,2) 2(1,2) de 3(1,2) 4(1,2) ic unfolding rollback_events_def rollback_msg.simps
    by blast
qed

text \<open>
  Claim C4. The commit closure created by \<open>DETx\<close> (and likewise the one created by
  \<open>ICATTx\<close>) always returns: it calls \<open>Commit\<close> on its transaction once, clears
  the handle of its backend and resets both closures of that backend to no-ops whether the
  backend commit succeeds or fails, and returns the backend error wrapped with the
  operation context when there is one, nil otherwise.
\<close>

theorem C4_commit_always_finalizes:
  "(\<exists>w'. call_commit env (Cm DE t) w =
           Some (map_option (\<lambda>e. Wrap e ''Error committing DE database transaction'')
                   (Commit env DE t (trace w)), w') \<and>
         detx (coord w') = None \<and> DERollback (coord w') = RbNoop \<and>
         DECommit (coord w') = CmNoop \<and>
         take (Suc (length (trace w))) (trace w') =
           trace w @ [EvCommit DE t (Commit env DE t (trace w))]) \<and>
   (\<exists>w'. call_commit env (Cm ICAT t) w =
           Some (map_option (\<lambda>e. Wrap e ''Error committing ICAT transaction'')
                   (Commit env ICAT t (trace w)), w') \<and>
         icattx (coord w') = None \<and> ICATRollback (coord w') = RbNoop \<and>
         ICATCommit (coord w') = CmNoop \<and>
         take (Suc (length (trace w))) (trace w') =
           trace w @ [EvCommit ICAT t (Commit env ICAT t (trace w))])"
  by (simp add: call_commit.simps emit_def Let_def split: option.split)

section \<open>Memoized transactions\<close>

text \<open>
  Claim C6 as stated fails for a closure that the caller kept. A caller opens the metadata
  transaction 1, keeps its rollback closure, commits through the field, opens transaction 4
  and then calls the kept closure: it calls \<open>Rollback\<close> on the finished
  transaction 1 and clears the handle of transaction 4 without finalizing it. The next
  \<open>DETx\<close> finds no handle and begins transaction 7 while transaction 4 is still
  open.
\<close>

theorem C6_stale_closure_after_reopen:
  "DETx no_rows_env fresh_world = (Inr 1, holding 1 (take 2 reopen_events)) \<and>
   DERollback (coord (holding 1 (take 2 reopen_events))) = Rb DE 1 \<and>
   call_commit no_rows_env (DECommit (coord (holding 1 (take 2 reopen_events))))
     (holding 1 (take 2 reopen_events)) = Some (None, released (take 3 reopen_events)) \<and>
   DETx no_rows_env (released (take 3 reopen_events)) =
     (Inr 4, holding 4 (take 5 reopen_events)) \<and>
   call_rollback no_rows_env (Rb DE 1) (holding 4 (take 5 reopen_events)) =
     Some (released (take 6 reopen_events)) \<and>
   DETx no_rows_env (released (take 6 reopen_events)) = (Inr 7, holding 7 reopen_events) \<and>
   open_tx reopen_events DE 4 \<and> open_tx reopen_events DE 7"
  by (simp add: eval_defs no_rows_env_def reopen_events_def holding_def released_def
        open_tx_def)

text \<open>
  Claim C6, amended. \<open>DETx\<close> and \<open>ICATTx\<close> return the memoized handle
  without calling \<open>BeginTxx\<close> when the coordinator holds one, and call
  \<open>BeginTxx\<close> exactly once when it holds none, memoizing the new transaction when
  the begin succeeds. In every state that the coordinator reaches through its operations,
  through calls of its closure fields, and through calls of kept closures made before
  another transaction of the same backend is opened, every open transaction (begun, with
  no \<open>Commit\<close> or \<open>Rollback\<close> called on it; database/sql finishes a
  transaction at the first such call whatever the driver answers) is the one whose
  handle the coordinator holds, so at most one transaction per backend is open.
\<close>

theorem C6_at_most_one_open_transaction:
  "(\<forall>h. detx (coord w) = Some h \<longrightarrow> DETx env w = (Inr h, emit (EvLogStats DE) w)) \<and>
   (\<forall>h. icattx (coord w) = Some h \<longrightarrow> ICATTx env w = (Inr h, emit (EvLogStats ICAT) w)) \<and>
   (detx (coord w) = None \<longrightarrow>
      new_events w (snd (DETx env w)) =
        [EvLogStats DE, EvBeginTxx DE (BeginTxx env DE (trace w @ [EvLogStats DE]))] \<and>
      (BeginTxx env DE (trace w @ [EvLogStats DE]) = None \<longrightarrow>
         fst (DETx env w) = Inr (Suc (length (trace w))) \<and>
         detx (coord (snd (DETx env w))) = Some (Suc (length (trace w))))) \<and>
   (icattx (coord w) = None \<longrightarrow>
      new_events w (snd (ICATTx env w)) =
        [EvLogStats ICAT, EvBeginTxx ICAT (BeginTxx env ICAT (trace w @ [EvLogStats ICAT]))] \<and>
      (BeginTxx env ICAT (trace w @ [EvLogStats ICAT]) = None \<longrightarrow>
         fst (ICATTx env w) = Inr (Suc (length (trace w))) \<and>
         icattx (coord (snd (ICATTx env w))) = Some (Suc (length (trace w))))) \<and>
   (w \<in> reachable env \<longrightarrow>
      (\<forall>b t. open_tx (trace w) b t \<longrightarrow> handle b (coord w) = Some t) \<and>
      (\<forall>t. open_tx (trace w) DE t \<longrightarrow> DETx env w = (Inr t, emit (EvLogStats DE) w)) \<and>
      (\<forall>t. open_tx (trace w) ICAT t \<longrightarrow> ICATTx env w = (Inr t, emit (EvLogStats ICAT) w)) \<and>
      (\<forall>b t t'. open_tx (trace w) b t \<longrightarrow> open_tx (trace w) b t' \<longrightarrow> t = t'))"
proof -
  have 1: "\<forall>h. detx (coord w) = Some h \<longrightarrow> DETx env w = (Inr h, emit (EvLogStats DE) w)"
    by (simp add: DETx_memo)
  have 2: "\<forall>h. icattx (coord w) = Some h \<longrightarrow> ICATTx env w = (Inr h, emit (EvLogStats ICAT) w)"
    by (simp add: ICATTx_memo)
  have 3: "detx (coord w) = None \<longrightarrow>
      new_events w (snd (DETx env w)) =
        [EvLogStats DE, EvBeginTxx DE (BeginTxx env DE (trace w @ [EvLogStats DE]))] \<and>
      (BeginTxx env DE (trace w @ [EvLogStats DE]) = None \<longrightarrow>
         fst (DETx env w) = Inr (Suc (length (trace w))) \<and>
         detx (coord (snd (DETx env w))) = Some (Suc (length (trace w))))"
    using DETx_fresh [of w env] by simp
  have 4: "icattx (coord w) = None \<longrightarrow>
      new_events w (snd (ICATTx env w)) =
        [EvLogStats ICAT, EvBeginTxx ICAT (BeginTxx env ICAT (trace w @ [EvLogStats ICAT]))] \<and>
      (BeginTxx env ICAT (trace w @ [EvLogStats ICAT]) = None \<longrightarrow>
         fst (ICATTx env w) = Inr (Suc (length (trace w))) \<and>
         icattx (coord (snd (ICATTx env w))) = Some (Suc (length (trace w))))"
    using ICATTx_fresh [of w env] by simp
  have 5: "w \<in> reachable env \<longrightarrow>
      (\<forall>b t. open_tx (trace w) b t \<longrightarrow> handle b (coord w) = Some t) \<and>
      (\<forall>t. open_tx (trace w) DE t \<longrightarrow> DETx env w = (Inr t, emit (EvLogStats DE) w)) \<and>
      (\<forall>t. open_tx (trace w) ICAT t \<longrightarrow> ICATTx env w = (Inr t, emit (EvLogStats ICAT) w)) \<and>
      (\<forall>b t t'. open_tx (trace w) b t \<longrightarrow> open_tx (trace w) b t' \<longrightarrow> t = t')"
  proof
    assume "w \<in> reachable env"
    then have oo: "one_open w"
      using reachable_inv [of w env] by simp
    have h: "\<forall>b t. open_tx (trace w) b t \<longrightarrow> handle b (coord w) = Some t"
      using one_open_unique(1) [OF oo] by blast
    have d: "\<forall>t. open_tx (trace w) DE t \<longrightarrow> DETx env w = (Inr t, emit (EvLogStats DE) w)"
      using h DETx_memo [of w _ env] by fastforce
    have i: "\<forall>t. open_tx (trace w) ICAT t \<longrightarrow> ICATTx env w = (Inr t, emit (EvLogStats ICAT) w)"
      using h ICATTx_memo [of w _ env] by fastforce
    have u: "\<forall>b t t'. open_tx (trace w) b t \<longrightarrow> open_tx (trace w) b t' \<longrightarrow> t = t'"
      using one_open_unique(2) [OF oo] by blast
    from h d i u show "(\<forall>b t. open_tx (trace w) b t \<longrightarrow> handle b (coord w) = Some t) \<and>
      (\<forall>t. open_tx (trace w) DE t \<longrightarrow> DETx env w = (Inr t, emit (EvLogStats DE) w)) \<and>
      (\<forall>t. open_tx (trace w) ICAT t \<longrightarrow> ICATTx env w = (Inr t, emit (EvLogStats ICAT) w)) \<and>
      (\<forall>b t t'. open_tx (trace w) b t \<longrightarrow> open_tx (trace w) b t' \<longrightarrow> t = t')"
      by (intro conjI)
  qed
  from 1 2 3 4 5 show ?thesis
    by (intro conjI)
qed

theorem C6_at_most_one_open_transaction_witness:
  "snd (DETx no_rows_env fresh_world) \<in> reachable no_rows_env \<and>
   open_tx (trace (snd (DETx no_rows_env fresh_world))) DE 1 \<and>
   detx (coord (snd (DETx no_rows_env fresh_world))) = Some 1 \<and>
   DETx no_rows_env (snd (DETx no_rows_env fresh_world)) =
     (Inr 1, emit (EvLogStats DE) (snd (DETx no_rows_env fresh_world))) \<and>
   detx (coord fresh_world) = None \<and>
   new_events fresh_world (snd (DETx no_rows_env fresh_world)) =
     [EvLogStats DE, EvBeginTxx DE None]"
proof -
  let ?w1 = "snd (DETx no_rows_env fresh_world)"
  have r: "?w1 \<in> reachable no_rows_env"
    using reachable.detx [OF reachable.init, of no_rows_env "fst (DETx no_rows_env fresh_world)" ?w1]
    by (simp add: fresh_world_def)
  have o: "open_tx (trace ?w1) DE 1"
    by (simp add: open_tx_def eval_defs no_rows_env_def)
  have n: "detx (coord fresh_world) = None"
    by (simp add: fresh_world_def NewBoth_def)
  have b: "BeginTxx no_rows_env DE (trace fresh_world @ [EvLogStats DE]) = None"
    by (simp add: no_rows_env_def example_env_def)
  note c = C6_at_most_one_open_transaction [of ?w1 no_rows_env]
  note c0 = C6_at_most_one_open_transaction [of fresh_world no_rows_env]
  from c r o have h: "handle DE (coord ?w1) = Some 1"
    by blast
  then have d: "detx (coord ?w1) = Some 1"
    by simp
  with c have m: "DETx no_rows_env ?w1 = (Inr 1, emit (EvLogStats DE) ?w1)"
    by blast
  from c0 n b have e: "new_events fresh_world ?w1 = [EvLogStats DE, EvBeginTxx DE None]"
    by simp
  from r o d m n e show ?thesis
    by (intro conjI)
qed

section \<open>The single-user update\<close>

text \<open>
  Claim C2. Started in a consistent coordinator state, \<open>UpdateUserDataUsage\<close> returns,
  and whenever the publisher's single-user update answered with the no-rows sentinel in
  that run, the operation returns no \<open>UserDataUsage\<close> (nil) together with an error:
  the sentinel wrapped with the message that no data could be inserted.
\<close>

theorem C2_publisher_no_rows_is_error:
  assumes "coord_ok (coord w)"
  shows "\<exists>r w'. UpdateUserDataUsage env username w = Some (r, w') \<and>
           (\<forall>u v. EvUpdateUsageForUser u v (Inl ErrNoRows) \<in> set (new_events w w') \<longrightarrow>
                  r = (None, Some (Wrap ErrNoRows nodata_msg)))"
  using assms
proof (cases rule: single_paths [where env = env and username = username])
  case (de_fail e w' A)
  show ?thesis
    by (rule returnsI [OF de_fail(1)]) (use de_fail(2-) in \<open>simp add: kinds\<close>)
next
  case (icat_fail dedb e w' A B D1)
  show ?thesis
    by (rule returnsI [OF icat_fail(1)]) (use icat_fail(2-) in \<open>simp add: kinds\<close>)
next
  case (info_fail dedb icatdb e w' A B D2 D1)
  show ?thesis
    by (rule returnsI [OF info_fail(1)]) (use info_fail(2-) in \<open>simp add: kinds\<close>)
next
  case (usage_fail dedb icatdb ui e w' A B D2 D1)
  show ?thesis
    by (rule returnsI [OF usage_fail(1)]) (use usage_fail(2-) in \<open>simp add: kinds\<close>)
next
  case (published dedb icatdb ui u n I p P w' A B R D2 D1)
  have I: "EvUpdateUsageForUser x y z \<notin> set I" for x y z
    using published(4) by auto
  show ?thesis
  proof (rule returnsI [OF published(1)], intro allI impI)
    fix u' v
    assume "EvUpdateUsageForUser u' v (Inl ErrNoRows) \<in> set (new_events w w')"
    then have "Inl ErrNoRows = p"
      using published(5,7-11) I by (simp add: published(6) kinds)
    then show "(case p of
                  Inl e \<Rightarrow> (None, Some (Wrap e (if e = ErrNoRows then nodata_msg
                                                 else ''Error adding user data usage'')))
                | Inr res \<Rightarrow> (Some (res\<lparr>UserID := info_ID ui, Username := info_Username ui\<rparr>),
                              None)) = (None, Some (Wrap ErrNoRows nodata_msg))"
      by (cases p) simp_all
  qed
qed



theorem C2_publisher_no_rows_is_error_witness:
  "coord_ok (coord fresh_world) \<and>
   (\<exists>r w'. UpdateUserDataUsage
              (example_env (Inr bob_info) (Inl ErrNoRows) (Inl ErrNoRows) (Inr []) (Inr []))
              ''bob'' fresh_world = Some (r, w') \<and>
            EvUpdateUsageForUser ''bob'' (Float64 0) (Inl ErrNoRows) \<in>
              set (new_events fresh_world w') \<and>
            r = (None, Some (Wrap ErrNoRows nodata_msg)))"
proof -
  let ?env = "example_env (Inr bob_info) (Inl ErrNoRows) (Inl ErrNoRows) (Inr []) (Inr [])"
  from C2_publisher_no_rows_is_error [OF fresh_world_ok, of ?env "''bob''"]
  obtain r w' where
    op: "UpdateUserDataUsage ?env ''bob'' fresh_world = Some (r, w')" and
    imp: "\<forall>u v. EvUpdateUsageForUser u v (Inl ErrNoRows) \<in> set (new_events fresh_world w') \<longrightarrow>
            r = (None, Some (Wrap ErrNoRows nodata_msg))"
    by blast
  have ev: "EvUpdateUsageForUser ''bob'' (Float64 0) (Inl ErrNoRows) \<in>
              set (new_events fresh_world w')"
    by (simp add: example_publisher_no_rows [OF op])
  with imp have "r = (None, Some (Wrap ErrNoRows nodata_msg))"
    by blast
  with op ev fresh_world_ok show ?thesis
    by blast
qed

text \<open>
  Claim C1 as stated fails: the usage read of user bob reports the no-rows sentinel, the
  value 0 is passed to the publisher, the publisher reports that no rows were affected,
  and the operation returns an error and no result.
\<close>

theorem C1_publisher_no_rows_after_zero_usage:
  "UpdateUserDataUsage no_write_env ''bob'' fresh_world =
     Some ((None, Some (Wrap ErrNoRows nodata_msg)),
           \<lparr>coord = cleared, trace = no_write_events\<rparr>)"
  by (simp add: eval_defs no_write_env_def no_write_events_def cleared_def bob_info_def)

text \<open>
  Claim C1, amended. When both transactions are available, the identity of the user is
  resolved and the usage read reports the no-rows sentinel, \<open>UpdateUserDataUsage\<close>
  does not return the error of the read: it logs the fact at info level, rolls back the
  usage-source transaction and calls the publisher with the value 0. The outcome is the
  one of that publisher call: its result with the resolved identity written into it and no
  error when the publisher succeeds, no result and the wrapped error of the publisher
  when it fails.
\<close>

theorem C1_no_usage_rows_passes_zero:
  assumes "coord_ok (coord w)"
    and "fst (DETx env w) = Inr dedb"
    and "fst (ICATTx env (snd (DETx env w))) = Inr icatdb"
    and "tr2 = trace (snd (ICATTx env (snd (DETx env w))))"
    and "GetUserInfo env dedb username tr2 = Inr ui"
    and "UserCurrentDataUsage env icatdb username
           (tr2 @ [EvGetUserInfo dedb username (Inr ui)]) = Inl ErrNoRows"
    and "tr5 = tr2 @ [EvGetUserInfo dedb username (Inr ui),
                      EvUserCurrentDataUsage icatdb username (Inl ErrNoRows),
                      EvLog InfoLevel nousage_msg]"
    and "tr7 = tr5 @ rollback_events env ICAT icatdb tr5 @
                 [EvLog DebugLevel ''username %s; usage value %d'']"
    and "p = UpdateUsageForUser env username (Float64 0) tr7"
  shows "\<exists>w'. UpdateUserDataUsage env username w =
                Some ((case p of
                         Inl e \<Rightarrow> (None, Some (Wrap e (if e = ErrNoRows then nodata_msg
                                                        else ''Error adding user data usage'')))
                       | Inr res \<Rightarrow> (Some (res\<lparr>UserID := info_ID ui,
                                                Username := info_Username ui\<rparr>), None)), w') \<and>
              take (Suc (length tr7)) (trace w') =
                tr7 @ [EvUpdateUsageForUser username (Float64 0) p]"
  using assms(1)
proof (cases rule: single_paths [where env = env and username = username])
  case (de_fail e w' A)
  with assms(2) show ?thesis
    by simp
next
  case (icat_fail dedb' e w' A B D1)
  with assms(3) show ?thesis
    by simp
next
  case (info_fail dedb' icatdb' e w' A B D2 D1)
  have "answered env (trace w) ((A @ B) @ EvGetUserInfo dedb' username (Inl e) # D2 @ D1)"
    using info_fail(14) by (simp add: info_fail(4))
  from answered_mid [OF this] have "GetUserInfo env dedb' username (trace w @ A @ B) = Inl e"
    by simp
  moreover have "dedb' = dedb" "tr2 = trace w @ A @ B"
    using info_fail(2) assms(2,4) info_fail(16) by simp_all
  ultimately show ?thesis
    using assms(5) by simp
next
  case (usage_fail dedb' icatdb' ui' e w' A B D2 D1)
  have ids: "dedb' = dedb" "icatdb' = icatdb" "tr2 = trace w @ A @ B"
    using usage_fail(2,3) assms(2,3,4) usage_fail(17) by simp_all
  have "answered env (trace w) ((A @ B) @ EvGetUserInfo dedb' username (Inr ui') #
          EvUserCurrentDataUsage icatdb' username (Inl e) # D2 @ D1)"
    using usage_fail(15) by (simp add: usage_fail(5))
  from answered_mid [OF this] have "GetUserInfo env dedb' username (trace w @ A @ B) = Inr ui'"
    by simp
  with assms(5) have ui: "ui' = ui"
    by (simp add: ids)
  have "answered env (trace w) ((A @ B @ [EvGetUserInfo dedb' username (Inr ui')]) @
          EvUserCurrentDataUsage icatdb' username (Inl e) # D2 @ D1)"
    using usage_fail(15) by (simp add: usage_fail(5))
  from answered_mid [OF this]
  have "UserCurrentDataUsage env icatdb' username
          (trace w @ A @ B @ [EvGetUserInfo dedb' username (Inr ui')]) = Inl e"
    by simp
  with assms(6) have "e = ErrNoRows"
    by (simp add: ids ui)
  with usage_fail(4) show ?thesis
    by simp
next
  case (published dedb' icatdb' ui' u n I p' P w' A B R D2 D1)
  have ids: "dedb' = dedb" "icatdb' = icatdb" "tr2 = trace w @ A @ B"
    using published(2,3) assms(2,3,4) published(19) by simp_all
  have "answered env (trace w) ((A @ B) @ EvGetUserInfo dedb' username (Inr ui') #
          EvUserCurrentDataUsage icatdb' username u # I @ R @
          [EvLog DebugLevel ''username %s; usage value %d'',
           EvUpdateUsageForUser username (Float64 n) p'] @ P @ D2 @ D1)"
    using published(17) by (simp add: published(6))
  from answered_mid [OF this] have "GetUserInfo env dedb' username (trace w @ A @ B) = Inr ui'"
    by simp
  with assms(5) have ui: "ui' = ui"
    by (simp add: ids)
  have "answered env (trace w) ((A @ B @ [EvGetUserInfo dedb' username (Inr ui')]) @
          EvUserCurrentDataUsage icatdb' username u # I @ R @
          [EvLog DebugLevel ''username %s; usage value %d'',
           EvUpdateUsageForUser username (Float64 n) p'] @ P @ D2 @ D1)"
    using published(17) by (simp add: published(6))
  from answered_mid [OF this]
  have "UserCurrentDataUsage env icatdb' username
          (trace w @ A @ B @ [EvGetUserInfo dedb' username (Inr ui')]) = u"
    by simp
  with assms(6) have u: "u = Inl ErrNoRows"
    by (simp add: ids ui)
  with published(4) have n: "n = 0" and I: "I = [EvLog InfoLevel nousage_msg]"
    by auto
  have tr5: "tr5 = trace w @ A @ B @
      [EvGetUserInfo dedb' username (Inr ui'), EvUserCurrentDataUsage icatdb' username u] @ I"
    by (simp add: assms(7) ids ui u I)
  have R: "R = rollback_events env ICAT icatdb
      (trace w @ A @ B @
       [EvGetUserInfo dedb username (Inr ui),
        EvUserCurrentDataUsage icatdb username (Inl ErrNoRows),
        EvLog InfoLevel nousage_msg])"
    using published(21) by (simp add: ids ui u I)
  have ne: "new_events w w' =
      (A @ B @ [EvGetUserInfo dedb username (Inr ui),
                EvUserCurrentDataUsage icatdb username (Inl ErrNoRows),
                EvLog InfoLevel nousage_msg] @ R @
               [EvLog DebugLevel ''username %s; usage value %d'']) @
      EvUpdateUsageForUser username (Float64 0) p' # P @ D2 @ D1"
    by (simp add: published(6) ids ui u n I)
  have tr7: "tr7 = trace w @ A @ B @
      [EvGetUserInfo dedb username (Inr ui),
       EvUserCurrentDataUsage icatdb username (Inl ErrNoRows),
       EvLog InfoLevel nousage_msg] @ R @
      [EvLog DebugLevel ''username %s; usage value %d'']"
    by (simp add: assms(8) assms(7) ids R)
  have tw: "trace w' = tr7 @ EvUpdateUsageForUser username (Float64 0) p' # P @ D2 @ D1"
    using published(16) by (simp add: ne tr7)
  have "answered env (trace w)
      ((A @ B @ [EvGetUserInfo dedb username (Inr ui),
                EvUserCurrentDataUsage icatdb username (Inl ErrNoRows),
                EvLog InfoLevel nousage_msg] @ R @
               [EvLog DebugLevel ''username %s; usage value %d'']) @
      EvUpdateUsageForUser username (Float64 0) p' # P @ D2 @ D1)"
    using published(17) by (simp only: ne)
  from answered_mid [OF this] have p: "p' = p"
    by (simp add: assms(9) tr7)
  have tk: "take (Suc (length tr7)) (trace w') =
      tr7 @ [EvUpdateUsageForUser username (Float64 0) p]"
    by (simp add: tw p)
  have op: "UpdateUserDataUsage env username w =
      Some ((case p of
               Inl e \<Rightarrow> (None, Some (Wrap e (if e = ErrNoRows then nodata_msg
                                              else ''Error adding user data usage'')))
             | Inr res \<Rightarrow> (Some (res\<lparr>UserID := info_ID ui,
                                      Username := info_Username ui\<rparr>), None)), w')"
    using published(1) [unfolded ui p] .
  from op tk show ?thesis
    by blast
qed

theorem C1_no_usage_rows_passes_zero_witness:
  "coord_ok (coord fresh_world) \<and>
   fst (DETx no_rows_env fresh_world) = Inr 1 \<and>
   fst (ICATTx no_rows_env (snd (DETx no_rows_env fresh_world))) = Inr 3 \<and>
   GetUserInfo no_rows_env 1 ''bob''
     (trace (snd (ICATTx no_rows_env (snd (DETx no_rows_env fresh_world))))) = Inr bob_info \<and>
   UserCurrentDataUsage no_rows_env 3 ''bob''
     (trace (snd (ICATTx no_rows_env (snd (DETx no_rows_env fresh_world)))) @
      [EvGetUserInfo 1 ''bob'' (Inr bob_info)]) = Inl ErrNoRows \<and>
   UpdateUserDataUsage no_rows_env ''bob'' fresh_world =
     Some ((Some no_rows_result, None), \<lparr>coord = cleared, trace = no_rows_events\<rparr>) \<and>
   take 10 no_rows_events =
     [EvLogStats DE, EvBeginTxx DE None, EvLogStats ICAT, EvBeginTxx ICAT None,
      EvGetUserInfo 1 ''bob'' (Inr bob_info), EvUserCurrentDataUsage 3 ''bob'' (Inl ErrNoRows),
      EvLog InfoLevel nousage_msg, EvRollback ICAT 3 None,
      EvLog DebugLevel ''username %s; usage value %d'',
      EvUpdateUsageForUser ''bob'' (Float64 0) (Inr bob_usage)]"
proof -
  let ?tr2 = "trace (snd (ICATTx no_rows_env (snd (DETx no_rows_env fresh_world))))"
  have g: "GetUserInfo no_rows_env 1 ''bob'' ?tr2 = Inr bob_info"
    by (simp add: no_rows_env_def example_env_def)
  have u: "UserCurrentDataUsage no_rows_env 3 ''bob''
             (?tr2 @ [EvGetUserInfo 1 ''bob'' (Inr bob_info)]) = Inl ErrNoRows"
    by (simp add: no_rows_env_def example_env_def)
  from C1_no_usage_rows_passes_zero [OF fresh_world_ok example_no_rows_handles refl g u
      refl refl refl]
  obtain w' where
    op: "UpdateUserDataUsage no_rows_env ''bob'' fresh_world =
           Some ((case UpdateUsageForUser no_rows_env ''bob'' (Float64 0)
                         ((?tr2 @
                           [EvGetUserInfo 1 ''bob'' (Inr bob_info),
                            EvUserCurrentDataUsage 3 ''bob'' (Inl ErrNoRows),
                            EvLog InfoLevel nousage_msg]) @
                          rollback_events no_rows_env ICAT 3
                            (?tr2 @
                             [EvGetUserInfo 1 ''bob'' (Inr bob_info),
                              EvUserCurrentDataUsage 3 ''bob'' (Inl ErrNoRows),
                              EvLog InfoLevel nousage_msg]) @
                          [EvLog DebugLevel ''username %s; usage value %d'']) of
                    Inl e \<Rightarrow> (None, Some (Wrap e (if e = ErrNoRows then nodata_msg
                                                   else ''Error adding user data usage'')))
                  | Inr res \<Rightarrow> (Some (res\<lparr>UserID := info_ID bob_info,
                                           Username := info_Username bob_info\<rparr>), None)), w')"
    by blast
  have "take 10 no_rows_events =
     [EvLogStats DE, EvBeginTxx DE None, EvLogStats ICAT, EvBeginTxx ICAT None,
      EvGetUserInfo 1 ''bob'' (Inr bob_info), EvUserCurrentDataUsage 3 ''bob'' (Inl ErrNoRows),
      EvLog InfoLevel nousage_msg, EvRollback ICAT 3 None,
      EvLog DebugLevel ''username %s; usage value %d'',
      EvUpdateUsageForUser ''bob'' (Float64 0) (Inr bob_usage)]"
    by (simp add: no_rows_events_def)
  with op fresh_world_ok example_no_rows_handles g u example_no_rows show ?thesis
    by simp
qed

text \<open>
  Claim C9 as stated fails: on a new coordinator with healthy collaborators the
  usage-source transaction is begun before the identity is resolved. \<open>BeginTxx\<close> on
  the ICAT is the fourth event of the run, \<open>GetUserInfo\<close> the fifth.
\<close>

theorem C9_identity_after_usage_source_open:
  "UpdateUserDataUsage no_rows_env ''bob'' fresh_world =
     Some ((Some no_rows_result, None), \<lparr>coord = cleared, trace = no_rows_events\<rparr>) \<and>
   \<not> before is_get_user_info (is_begin ICAT)
       (new_events fresh_world \<lparr>coord = cleared, trace = no_rows_events\<rparr>)"
  by (rule conjI [OF example_no_rows])
    (simp add: new_events_def fresh_world_def no_rows_events_def)


text \<open>
  Claim C9, amended. Every run of \<open>UpdateUserDataUsage\<close> from a consistent
  coordinator state returns and performs its steps in this order. \<open>DETx\<close> is
  called before \<open>ICATTx\<close> and \<open>ICATTx\<close> before the identity lookup;
  when the coordinator held no usage-source handle, the usage-source transaction is begun
  successfully before the identity lookup, and the handle that \<open>ICATTx\<close> returns
  is the position of that begin in the trace. The identity lookup is made on the handle
  of \<open>DETx\<close>, for the given user, and only when both opens returned a handle. The
  usage is read only after the identity has been resolved, and \<open>Rollback\<close> is
  called on the transaction of the returned usage-source handle before the publisher is
  called; without both handles the publisher is not called.
\<close>

theorem C9_order_of_steps:
  assumes "coord_ok (coord w)"
  shows "\<exists>r w'. UpdateUserDataUsage env username w = Some (r, w') \<and>
           before (is_tx_call DE) (is_tx_call ICAT) (new_events w w') \<and>
           before (is_tx_call ICAT) is_get_user_info (new_events w w') \<and>
           (icattx (coord w) = None \<longrightarrow>
              before (is_begin_ok ICAT) is_get_user_info (new_events w w')) \<and>
           before is_identity_resolved is_usage_read (new_events w w') \<and>
           (\<forall>t u x. EvGetUserInfo t u x \<in> set (new_events w w') \<longrightarrow>
              fst (DETx env w) = Inr t \<and> u = username \<and>
              (\<exists>t'. fst (ICATTx env (snd (DETx env w))) = Inr t')) \<and>
           (\<forall>d t. fst (DETx env w) = Inr d \<longrightarrow>
              fst (ICATTx env (snd (DETx env w))) = Inr t \<longrightarrow>
              before (is_rollback_on ICAT t) is_publish (new_events w w') \<and>
              (icattx (coord w) = None \<longrightarrow>
                 length (trace w) \<le> t \<and> t < length (trace w') \<and>
                 trace w' ! t = EvBeginTxx ICAT None)) \<and>
           (list_all (\<lambda>e. \<not> is_publish e) (new_events w w') \<or>
            (\<exists>t t'. fst (DETx env w) = Inr t \<and> fst (ICATTx env (snd (DETx env w))) = Inr t'))"
  using assms
proof (cases rule: single_paths [where env = env and username = username])
  case (de_fail e w' A)
  show ?thesis
    by (rule returnsI [OF de_fail(1)])
      (use de_fail(2-4) before_open_seg [of DE A _ "[]"] in
        \<open>simp add: seg_free before_none kinds\<close>)
next
  case (icat_fail dedb e w' A B D1)
  show ?thesis
    by (rule returnsI [OF icat_fail(1)])
      (use icat_fail(2-7) in
        \<open>simp add: seg_free before_none before_open_seg before_skip kinds\<close>)
next
  case (info_fail dedb icatdb e w' A B D2 D1)
  have b: "before (is_begin_ok ICAT) is_get_user_info (new_events w w')"
    "length (trace w) \<le> icatdb \<and> icatdb < length (trace w') \<and>
     trace w' ! icatdb = EvBeginTxx ICAT None"
    if "icattx (coord w) = None"
  proof -
    note o = single_opened_ICAT [OF that info_fail(3) info_fail(15) info_fail(16)]
    show "before (is_begin_ok ICAT) is_get_user_info (new_events w w')"
      using info_fail(5) by (simp add: info_fail(4) o(1) before_skip seg_free)
    show "length (trace w) \<le> icatdb \<and> icatdb < length (trace w') \<and>
          trace w' ! icatdb = EvBeginTxx ICAT None"
      by (rule nth_begin [OF _ o(2)]) (simp add: info_fail(13) info_fail(4) o(1))
  qed
  show ?thesis
    by (rule returnsI [OF info_fail(1)])
      (use info_fail(2-8) b in
        \<open>simp add: seg_free before_none before_open_seg before_skip kinds\<close>)
next
  case (usage_fail dedb icatdb ui e w' A B D2 D1)
  have b: "before (is_begin_ok ICAT) is_get_user_info (new_events w w')"
    "length (trace w) \<le> icatdb \<and> icatdb < length (trace w') \<and>
     trace w' ! icatdb = EvBeginTxx ICAT None"
    if "icattx (coord w) = None"
  proof -
    note o = single_opened_ICAT [OF that usage_fail(3) usage_fail(16) usage_fail(17)]
    show "before (is_begin_ok ICAT) is_get_user_info (new_events w w')"
      using usage_fail(6) by (simp add: usage_fail(5) o(1) before_skip seg_free)
    show "length (trace w) \<le> icatdb \<and> icatdb < length (trace w') \<and>
          trace w' ! icatdb = EvBeginTxx ICAT None"
      by (rule nth_begin [OF _ o(2)]) (simp add: usage_fail(14) usage_fail(5) o(1))
  qed
  show ?thesis
    by (rule returnsI [OF usage_fail(1)])
      (use usage_fail(2,3,5-9) b in
        \<open>simp add: seg_free before_none before_open_seg before_skip kinds\<close>)
next
  case (published dedb icatdb ui u n I p P w' A B R D2 D1)
  have I: "list_all (\<lambda>e. \<not> is_publish e) I" "list_all (\<lambda>e. \<not> is_usage_read e) I"
    "EvGetUserInfo t' u' x' \<notin> set I" for t' u' x'
    using published(4) by auto
  have b: "before (is_begin_ok ICAT) is_get_user_info (new_events w w')"
    "length (trace w) \<le> icatdb \<and> icatdb < length (trace w') \<and>
     trace w' ! icatdb = EvBeginTxx ICAT None"
    if "icattx (coord w) = None"
  proof -
    note o = single_opened_ICAT [OF that published(3) published(18) published(19)]
    show "before (is_begin_ok ICAT) is_get_user_info (new_events w w')"
      using published(7) by (simp add: published(6) o(1) before_skip seg_free)
    show "length (trace w) \<le> icatdb \<and> icatdb < length (trace w') \<and>
          trace w' ! icatdb = EvBeginTxx ICAT None"
      by (rule nth_begin [OF _ o(2)]) (simp add: published(16) published(6) o(1))
  qed
  show ?thesis
    by (rule returnsI [OF published(1)])
      (use published(2,3,5-11) I b in
        \<open>simp add: seg_free before_none before_open_seg before_rb_on_seg before_skip kinds\<close>)
qed

theorem C9_order_of_steps_witness:
  "coord_ok (coord fresh_world) \<and> icattx (coord fresh_world) = None \<and>
   fst (DETx no_rows_env fresh_world) = Inr 1 \<and>
   fst (ICATTx no_rows_env (snd (DETx no_rows_env fresh_world))) = Inr 3 \<and>
   UpdateUserDataUsage no_rows_env ''bob'' fresh_world =
     Some ((Some no_rows_result, None), \<lparr>coord = cleared, trace = no_rows_events\<rparr>) \<and>
   EvGetUserInfo 1 ''bob'' (Inr bob_info) \<in> set no_rows_events \<and>
   before (is_tx_call DE) (is_tx_call ICAT) no_rows_events \<and>
   before (is_tx_call ICAT) is_get_user_info no_rows_events \<and>
   before (is_begin_ok ICAT) is_get_user_info no_rows_events \<and>
   before is_identity_resolved is_usage_read no_rows_events \<and>
   before (is_rollback_on ICAT 3) is_publish no_rows_events \<and>
   no_rows_events ! 3 = EvBeginTxx ICAT None"
proof -
  from C9_order_of_steps [OF fresh_world_ok, of no_rows_env "''bob''"]
  obtain r w' where
    op: "UpdateUserDataUsage no_rows_env ''bob'' fresh_world = Some (r, w')" and
    c1: "before (is_tx_call DE) (is_tx_call ICAT) (new_events fresh_world w')" and
    c2: "before (is_tx_call ICAT) is_get_user_info (new_events fresh_world w')" and
    c3: "icattx (coord fresh_world) = None \<longrightarrow>
           before (is_begin_ok ICAT) is_get_user_info (new_events fresh_world w')" and
    c4: "before is_identity_resolved is_usage_read (new_events fresh_world w')" and
    c6: "\<forall>d t. fst (DETx no_rows_env fresh_world) = Inr d \<longrightarrow>
           fst (ICATTx no_rows_env (snd (DETx no_rows_env fresh_world))) = Inr t \<longrightarrow>
           before (is_rollback_on ICAT t) is_publish (new_events fresh_world w') \<and>
           (icattx (coord fresh_world) = None \<longrightarrow>
              length (trace fresh_world) \<le> t \<and> t < length (trace w') \<and>
              trace w' ! t = EvBeginTxx ICAT None)"
    by (elim exE conjE) (rule that)
  have i0: "icattx (coord fresh_world) = None"
    by (simp add: fresh_world_def NewBoth_def)
  from op have w': "w' = \<lparr>coord = cleared, trace = no_rows_events\<rparr>"
    by (simp add: example_no_rows)
  from c6 [rule_format, OF example_no_rows_handles] i0
  have c6': "before (is_rollback_on ICAT 3) is_publish (new_events fresh_world w')"
    "trace w' ! 3 = EvBeginTxx ICAT None"
    by simp_all
  have g: "EvGetUserInfo 1 ''bob'' (Inr bob_info) \<in> set no_rows_events"
    by (simp add: no_rows_events_def)
  from c3 i0 have c3': "before (is_begin_ok ICAT) is_get_user_info (new_events fresh_world w')"
    by simp
  show ?thesis
    using fresh_world_ok i0 example_no_rows_handles example_no_rows g c1 c2 c3' c4 c6'
    unfolding w' new_events_fresh
    by simp
qed

text \<open>
  Claim C10. Every run of \<open>UpdateUserDataUsage\<close> from a consistent coordinator state
  returns without calling \<open>Commit\<close> on any transaction. When \<open>DETx\<close> gave a
  handle, the run calls \<open>Rollback\<close> on that transaction and ends with no metadata
  handle; when \<open>ICATTx\<close> gave a handle too, the run calls \<open>Rollback\<close> on that
  transaction and ends with no usage-source handle.
\<close>

theorem C10_single_user_never_commits:
  assumes "coord_ok (coord w)"
  shows "\<exists>r w'. UpdateUserDataUsage env username w = Some (r, w') \<and>
           list_all (\<lambda>e. \<not> is_commit e) (new_events w w') \<and>
           (\<forall>t. fst (DETx env w) = Inr t \<longrightarrow>
                detx (coord w') = None \<and> (\<exists>x. EvRollback DE t x \<in> set (new_events w w'))) \<and>
           (\<forall>t t'. fst (DETx env w) = Inr t \<longrightarrow> fst (ICATTx env (snd (DETx env w))) = Inr t' \<longrightarrow>
                icattx (coord w') = None \<and> (\<exists>x. EvRollback ICAT t' x \<in> set (new_events w w')))"
  using assms
proof (cases rule: single_paths [where env = env and username = username])
  case (de_fail e w' A)
  show ?thesis
    by (rule returnsI [OF de_fail(1)]) (use de_fail(2-) in \<open>simp add: seg_free\<close>)
next
  case (icat_fail dedb e w' A B D1)
  show ?thesis
    by (rule returnsI [OF icat_fail(1)]) (use icat_fail(2-) in \<open>simp add: seg_free rb_seg_mem ex_disj_distrib\<close>)
next
  case (info_fail dedb icatdb e w' A B D2 D1)
  show ?thesis
    by (rule returnsI [OF info_fail(1)])
      (use info_fail(2-) in \<open>simp add: seg_free rb_seg_mem ex_disj_distrib\<close>)
next
  case (usage_fail dedb icatdb ui e w' A B D2 D1)
  show ?thesis
    by (rule returnsI [OF usage_fail(1)])
      (use usage_fail(2-) in \<open>simp add: seg_free rb_seg_mem ex_disj_distrib\<close>)
next
  case (published dedb icatdb ui u n I p P w' A B R D2 D1)
  have I: "list_all (\<lambda>e. \<not> is_commit e) I"
    using published(4) by auto
  show ?thesis
    by (rule returnsI [OF published(1)])
      (use published(2,3,5-) I in \<open>simp add: seg_free rb_seg_mem ex_disj_distrib\<close>)
qed

theorem C10_single_user_never_commits_witness:
  "coord_ok (coord fresh_world) \<and>
   fst (DETx no_rows_env fresh_world) = Inr 1 \<and>
   fst (ICATTx no_rows_env (snd (DETx no_rows_env fresh_world))) = Inr 3 \<and>
   UpdateUserDataUsage no_rows_env ''bob'' fresh_world =
     Some ((Some no_rows_result, None), \<lparr>coord = cleared, trace = no_rows_events\<rparr>) \<and>
   list_all (\<lambda>e. \<not> is_commit e) no_rows_events \<and>
   (\<exists>x. EvRollback DE 1 x \<in> set no_rows_events) \<and>
   (\<exists>x. EvRollback ICAT 3 x \<in> set no_rows_events)"
proof -
  from C10_single_user_never_commits [OF fresh_world_ok, of no_rows_env "''bob''"]
  obtain r w' where
    op: "UpdateUserDataUsage no_rows_env ''bob'' fresh_world = Some (r, w')" and
    nc: "list_all (\<lambda>e. \<not> is_commit e) (new_events fresh_world w')" and
    de: "\<forall>t. fst (DETx no_rows_env fresh_world) = Inr t \<longrightarrow>
           detx (coord w') = None \<and> (\<exists>x. EvRollback DE t x \<in> set (new_events fresh_world w'))" and
    ic: "\<forall>t t'. fst (DETx no_rows_env fresh_world) = Inr t \<longrightarrow>
           fst (ICATTx no_rows_env (snd (DETx no_rows_env fresh_world))) = Inr t' \<longrightarrow>
           icattx (coord w') = None \<and>
           (\<exists>x. EvRollback ICAT t' x \<in> set (new_events fresh_world w'))"
    by blast
  from op have w': "w' = \<lparr>coord = cleared, trace = no_rows_events\<rparr>"
    by (simp add: example_no_rows)
  from de example_no_rows_handles(1) have "\<exists>x. EvRollback DE 1 x \<in> set (new_events fresh_world w')"
    by blast
  moreover from ic example_no_rows_handles
  have "\<exists>x. EvRollback ICAT 3 x \<in> set (new_events fresh_world w')"
    by blast
  ultimately show ?thesis
    using nc fresh_world_ok example_no_rows example_no_rows_handles unfolding w' new_events_fresh
    by blast
qed

section \<open>The batch update\<close>

text \<open>
  Claim C8. On a new coordinator with healthy databases, the usage read of the batch
  update fails with the error \<open>connection reset\<close>. The batch update returns this
  error as it is, without a message of its own, where every other error path of the two
  updates wraps the error (the single-user update wraps the error of its usage read with
  \<open>Error getting current data usage\<close>).
\<close>

theorem C8_batch_read_error_not_wrapped:
  "UpdateUserDataUsageBatch read_fail_env ''a'' ''c'' fresh_world =
   Some ((None, Some (Other ''connection reset'')),
         \<lparr>coord = NewBoth\<lparr>ICATRollback := RbNoop, ICATCommit := CmNoop\<rparr>,
          trace = [EvLogStats ICAT, EvBeginTxx ICAT None,
                   EvBatchCurrentDataUsage 1 ''a'' ''c'' (Inl (Other ''connection reset'')),
                   EvRollback ICAT 1 None]\<rparr>)"
  by (simp add: eval_defs read_fail_env_def batch_env_def)

text \<open>
  Claim C3 as stated fails: after the metadata commit succeeded and the publisher failed,
  the deferred closure of the batch update, captured when the metadata transaction was
  opened, calls \<open>Rollback\<close> on the committed metadata transaction 6 (the backend
  answers that the transaction is finished); the deferred closure of the usage source
  does the same on transaction 1.
\<close>

theorem C3_rollback_called_after_publish_failure:
  "UpdateUserDataUsageBatch publish_fail_env ''a'' ''c'' fresh_world =
     Some ((None, Some (Wrap (Other ''nats: timeout'') ''Error inserting new usage'')),
           \<lparr>coord = cleared, trace = publish_fail_events\<rparr>) \<and>
   EvCommit DE 6 None \<in> set publish_fail_events \<and>
   after_publish publish_fail_events =
     [EvRollback DE 6 (Some ErrTxDone), EvRollback ICAT 1 (Some ErrTxDone)]"
  by (simp add: example_publish_fail publish_fail_suffix)
    (simp add: publish_fail_events_def batch_events_def)

text \<open>
  Claim C3, amended. In every run of \<open>UpdateUserDataUsageBatch\<close> in which
  \<open>Commit\<close> on the metadata transaction succeeded and the bulk call of the
  publisher failed, the operation returns no result and the wrapped error of the
  publisher, and after the publisher call it makes no metadata write (no
  \<open>BeginTxx\<close> and no \<open>Commit\<close> on the metadata backend, no
  \<open>EnsureUsers\<close>): all it does is the two deferred rollback closures, one
  \<open>Rollback\<close> call on the committed metadata transaction and one on the
  usage-source transaction, each followed by error log lines at most.
\<close>

theorem C3_no_compensation_after_publish_failure:
  assumes "coord_ok (coord w)"
  shows "\<exists>r w'. UpdateUserDataUsageBatch env start end' w = Some (r, w') \<and>
           answered env (trace w) (new_events w w') \<and>
           (\<forall>t m e. EvCommit DE t None \<in> set (new_events w w') \<longrightarrow>
                     EvAddUserUpdatesBatch m (Inl e) \<in> set (new_events w w') \<longrightarrow>
              r = (None, Some (Wrap e ''Error inserting new usage'')) \<and>
              list_all (\<lambda>ev. \<not> is_metadata_write ev) (after_publish (new_events w w')) \<and>
              (\<exists>t' R1 R2. fst (ICATTx env w) = Inr t' \<and>
                 after_publish (new_events w w') = R1 @ R2 \<and>
                 rb_seg DE t R1 \<and> rb_seg ICAT t' R2))"
  using assms
proof (cases rule: batch_paths [where env = env and start = start and end' = end'])
  case (icat_fail e w' B)
  show ?thesis
    by (rule returnsI [OF icat_fail(1)]) (use icat_fail(2,3,7) in \<open>simp add: batch_free\<close>)
next
  case (read_fail icatdb e w' B D1)
  show ?thesis
    by (rule returnsI [OF read_fail(1)]) (use read_fail(2-4,8) in \<open>simp add: batch_free\<close>)
next
  case (de_fail icatdb usages e w' B R A D1)
  show ?thesis
    by (rule returnsI [OF de_fail(1)]) (use de_fail(2-6,10) in \<open>simp add: batch_free\<close>)
next
  case (ensure_fail icatdb dedb usages us m e w' B R A D2 D1)
  show ?thesis
    by (rule returnsI [OF ensure_fail(1)]) (use ensure_fail(2-9,13) in \<open>simp add: batch_free\<close>)
next
  case (commit_fail icatdb dedb usages us m e0 w' B R A D2 D1)
  show ?thesis
    by (rule returnsI [OF commit_fail(1)]) (use commit_fail(2-8,12) in \<open>simp add: batch_free\<close>)
next
  case (published icatdb dedb usages us m p w' B R A D2 D1)
  define pre where "pre = B @ [EvBatchCurrentDataUsage icatdb start end' (Inr usages)] @ R @
    [batch_log] @ A @ ensure_events dedb us None @ [EvCommit DE dedb None]"
  have ne: "new_events w w' = pre @ EvAddUserUpdatesBatch m p # (D2 @ D1)"
    by (simp add: published(3) pre_def)
  have "list_all (\<lambda>e. \<not> is_publish e) pre"
    using published(4-8) by (simp add: pre_def seg_free)
  then have ap: "after_publish (new_events w w') = D2 @ D1"
    unfolding ne by (rule after_publish_append) simp
  have nw: "list_all (\<lambda>ev. \<not> is_metadata_write ev) (D2 @ D1)"
    using published(7,8) by (simp add: seg_free)
  have segs: "\<exists>t' R1 R2. fst (ICATTx env w) = Inr t' \<and> D2 @ D1 = R1 @ R2 \<and>
                rb_seg DE dedb R1 \<and> rb_seg ICAT t' R2"
    using published(7,8,13) by blast
  show ?thesis
  proof (rule returnsI [OF published(1)], rule conjI [OF published(12)], intro allI impI)
    fix t m' e
    assume c: "EvCommit DE t None \<in> set (new_events w w')"
      and a: "EvAddUserUpdatesBatch m' (Inl e) \<in> set (new_events w w')"
    from c have t: "t = dedb"
      using published(4-8) by (simp add: published(3) batch_free)
    from a have p: "p = Inl e"
      using published(4-8) by (auto simp add: published(3) batch_free)
    show "(case p of Inl e \<Rightarrow> (None, Some (Wrap e ''Error inserting new usage''))
           | Inr res \<Rightarrow> (Some res, None)) =
          (None, Some (Wrap e ''Error inserting new usage'')) \<and>
          list_all (\<lambda>ev. \<not> is_metadata_write ev) (after_publish (new_events w w')) \<and>
          (\<exists>t' R1 R2. fst (ICATTx env w) = Inr t' \<and>
             after_publish (new_events w w') = R1 @ R2 \<and>
             rb_seg DE t R1 \<and> rb_seg ICAT t' R2)"
      unfolding ap t using nw segs by (simp add: p)
  qed
qed

theorem C3_no_compensation_after_publish_failure_witness:
  "coord_ok (coord fresh_world) \<and>
   UpdateUserDataUsageBatch publish_fail_env ''a'' ''c'' fresh_world =
     Some ((None, Some (Wrap (Other ''nats: timeout'') ''Error inserting new usage'')),
           \<lparr>coord = cleared, trace = publish_fail_events\<rparr>) \<and>
   EvCommit DE 6 None \<in> set publish_fail_events \<and>
   EvAddUserUpdatesBatch
       [''alice@example.org'' \<mapsto> Float64 500, ''bob@example.org'' \<mapsto> Float64 0]
       (Inl (Other ''nats: timeout'')) \<in> set publish_fail_events \<and>
   list_all (\<lambda>ev. \<not> is_metadata_write ev) (after_publish publish_fail_events)"
proof -
  let ?m = "[''alice@example.org'' \<mapsto> Float64 500, ''bob@example.org'' \<mapsto> Float64 0]"
  from C3_no_compensation_after_publish_failure [OF fresh_world_ok, of publish_fail_env "''a''" "''c''"]
  obtain r w' where
    op: "UpdateUserDataUsageBatch publish_fail_env ''a'' ''c'' fresh_world = Some (r, w')" and
    ans: "answered publish_fail_env (trace fresh_world) (new_events fresh_world w')" and
    imp: "\<forall>t m e. EvCommit DE t None \<in> set (new_events fresh_world w') \<longrightarrow>
            EvAddUserUpdatesBatch m (Inl e) \<in> set (new_events fresh_world w') \<longrightarrow>
            r = (None, Some (Wrap e ''Error inserting new usage'')) \<and>
            list_all (\<lambda>ev. \<not> is_metadata_write ev) (after_publish (new_events fresh_world w')) \<and>
            (\<exists>t' R1 R2. fst (ICATTx publish_fail_env fresh_world) = Inr t' \<and>
               after_publish (new_events fresh_world w') = R1 @ R2 \<and>
               rb_seg DE t R1 \<and> rb_seg ICAT t' R2)"
    by (elim exE conjE) (rule that)
  from op have w': "new_events fresh_world w' = publish_fail_events"
    by (auto simp: example_publish_fail)
  have c: "EvCommit DE 6 None \<in> set publish_fail_events"
    by (simp add: publish_fail_events_def batch_events_def)
  have a: "EvAddUserUpdatesBatch ?m (Inl (Other ''nats: timeout'')) \<in> set publish_fail_events"
    by (simp add: publish_fail_events_def batch_events_def)
  from imp [rule_format, of 6 ?m "Other ''nats: timeout''"] c a
  have "list_all (\<lambda>ev. \<not> is_metadata_write ev) (after_publish publish_fail_events)"
    unfolding w' by blast
  with c a fresh_world_ok example_publish_fail show ?thesis
    by blast
qed




end
